theory Spec2Isabelle
  imports Complex_Main "HOL-Library.Char_ord" "HOL-Library.List_Lexorder"
begin

section \<open>Strings of the runtime\<close>

text \<open>
  A JavaScript string is a sequence of UTF-16 code units. The model uses HOL's
  \<open>string\<close>: a \<open>char\<close> is one code unit in the range U+0000..U+00FF, read with its
  Latin-1 meaning, and \<open>length\<close> counts code units as \<open>String.length\<close> does. The
  character classes below are the runtime's (ECMAScript \<open>WhiteSpace\<close> and
  \<open>LineTerminator\<close>, the Unicode general categories L and N, and the simple
  lower-case mapping) restricted to that range.
\<close>

definition code :: "char \<Rightarrow> nat" where
  "code c = of_char c"

definition isWhiteSpace :: "char \<Rightarrow> bool" where
  \<comment> \<open>what \<open>String.prototype.trim\<close> strips and what \<open>\s\<close> matches\<close>
  "isWhiteSpace c = ((9 \<le> code c \<and> code c \<le> 13) \<or> code c = 32 \<or> code c = 160)"

definition isLetterOrNumber :: "char \<Rightarrow> bool" where
  \<comment> \<open>the class \<open>[\p{L}\p{N}]\<close>\<close>
  "isLetterOrNumber c =
     (let n = code c in
        (48 \<le> n \<and> n \<le> 57) \<or> (65 \<le> n \<and> n \<le> 90) \<or> (97 \<le> n \<and> n \<le> 122) \<or>
        n = 170 \<or> n = 178 \<or> n = 179 \<or> n = 181 \<or> n = 185 \<or> n = 186 \<or>
        (188 \<le> n \<and> n \<le> 190) \<or> (192 \<le> n \<and> n \<le> 214) \<or>
        (216 \<le> n \<and> n \<le> 246) \<or> (248 \<le> n \<and> n \<le> 255))"

definition toLowerChar :: "char \<Rightarrow> char" where
  "toLowerChar c =
     (let n = code c in
        if (65 \<le> n \<and> n \<le> 90) \<or> (192 \<le> n \<and> n \<le> 214) \<or> (216 \<le> n \<and> n \<le> 222)
        then char_of (n + 32) else c)"

definition toLowerCase :: "string \<Rightarrow> string" where
  "toLowerCase s = map toLowerChar s"

definition trim :: "string \<Rightarrow> string" where
  "trim s = rev (dropWhile isWhiteSpace (rev (dropWhile isWhiteSpace s)))"

definition replaceAllChar :: "char \<Rightarrow> char \<Rightarrow> string \<Rightarrow> string" where
  \<comment> \<open>\<open>s.replaceAll(a, b)\<close> for one-character strings \<open>a\<close> and \<open>b\<close>\<close>
  "replaceAllChar a b s = map (\<lambda>c. if c = a then b else c) s"

fun matchRuns :: "(char \<Rightarrow> bool) \<Rightarrow> string \<Rightarrow> string \<Rightarrow> string list" where
  \<comment> \<open>\<open>s.match(/[class]+/g)\<close>: the maximal non-empty runs of the class, left to right;
      the second argument is the run being read\<close>
  "matchRuns p cur [] = (if cur = [] then [] else [cur])"
| "matchRuns p cur (c # cs) =
     (if p c then matchRuns p (cur @ [c]) cs
      else (if cur = [] then [] else [cur]) @ matchRuns p [] cs)"

fun joinWith :: "string \<Rightarrow> string list \<Rightarrow> string" where
  \<comment> \<open>\<open>Array.prototype.join\<close>\<close>
  "joinWith sep [] = []"
| "joinWith sep [x] = x"
| "joinWith sep (x # y # ys) = x @ sep @ joinWith sep (y # ys)"

fun includesStr :: "string \<Rightarrow> string \<Rightarrow> bool" where
  \<comment> \<open>\<open>s.includes(n)\<close>: \<open>n\<close> occurs in \<open>s\<close> as a contiguous substring\<close>
  "includesStr [] n = (n = [])"
| "includesStr (c # cs) n = (take (length n) (c # cs) = n \<or> includesStr cs n)"

definition setAdd :: "'a list \<Rightarrow> 'a \<Rightarrow> 'a list" where
  \<comment> \<open>\<open>Set.prototype.add\<close>: a \<open>Set\<close> is its elements in insertion order\<close>
  "setAdd s x = (if x \<in> set s then s else s @ [x])"

definition newSet :: "'a list \<Rightarrow> 'a list" where
  \<comment> \<open>\<open>new Set(xs)\<close>\<close>
  "newSet xs = foldl setAdd [] xs"

section \<open>Discovery: scoring (skills-discover.ts)\<close>

text \<open>
  JavaScript numbers are IEEE doubles. The scores are small expressions over ratios of
  set sizes; the model computes the same expressions in exact rational arithmetic
  (\<open>0.7\<close> is \<open>7/10\<close>, \<open>2.2\<close> is \<open>22/10\<close>, \<open>0.15\<close> is \<open>15/100\<close>).
\<close>

definition ENGLISH_STOPWORDS :: "string list" where
  "ENGLISH_STOPWORDS =
     [''the'', ''a'', ''an'', ''is'', ''are'', ''was'', ''were'', ''be'', ''been'', ''have'',
      ''has'', ''had'', ''do'', ''does'', ''did'', ''will'', ''would'', ''to'', ''of'', ''in'',
      ''for'', ''on'', ''with'', ''at'', ''by'', ''from'', ''and'', ''but'', ''if'', ''or'',
      ''this'', ''that'', ''use'', ''using'', ''skill'', ''skills'', ''claude'', ''openclaw'',
      ''bot'', ''assistant'', ''please'', ''need'', ''want'', ''help'']"

definition tokenize :: "string \<Rightarrow> string list" where
  "tokenize text =
     filter (\<lambda>t. t \<noteq> []) (map trim (matchRuns isLetterOrNumber [] (toLowerCase text)))"

definition isMostlyAscii :: "string list \<Rightarrow> bool" where
  "isMostlyAscii tokens =
     (let joined = concat tokens in
        if joined = [] then True
        else
          let nonAscii = length (filter (\<lambda>ch. code ch > 127) joined) in
            (of_nat nonAscii :: rat) / of_nat (length joined) < 2 / 10)"

definition pickQueryTokens :: "string \<Rightarrow> nat \<Rightarrow> string list" where
  "pickQueryTokens prompt maxTokens =
     (let tokens = tokenize prompt;
          asciiMode = isMostlyAscii tokens;
          filtered = filter (\<lambda>t. if asciiMode then t \<notin> set ENGLISH_STOPWORDS else True)
                       (filter (\<lambda>t. t \<noteq> []) (map trim tokens));
          unique = newSet filtered;
          sorted = sort_key (\<lambda>t. - int (length t)) unique
      in take (max 1 maxTokens) sorted)"

definition overlap :: "string list \<Rightarrow> string list \<Rightarrow> nat" where
  "overlap a b = length (filter (\<lambda>t. t \<in> set b) a)"

definition queryTokens :: "string \<Rightarrow> string list" where
  \<comment> \<open>\<open>new Set(pickQueryTokens(params.prompt, 24))\<close>\<close>
  "queryTokens prompt = newSet (pickQueryTokens prompt 24)"

definition queryString :: "string \<Rightarrow> string" where
  \<comment> \<open>\<open>q = Array.from(queryTokens).join(" ")\<close>\<close>
  "queryString prompt = joinWith '' '' (queryTokens prompt)"

definition nameNorm :: "string option \<Rightarrow> string" where
  "nameNorm name =
     trim (replaceAllChar (CHR ''-'') (CHR '' '') (toLowerCase (case name of None \<Rightarrow> [] | Some n \<Rightarrow> n)))"

definition normalizedScore :: "string \<Rightarrow> string option \<Rightarrow> string option \<Rightarrow> string list option \<Rightarrow> rat" where
  \<comment> \<open>the value of \<open>normalized\<close> in \<open>scoreSkillMatch\<close>\<close>
  "normalizedScore prompt name description keywords =
     (let qts = queryTokens prompt;
          nameTokens = newSet (tokenize (replaceAllChar (CHR ''-'') (CHR '' '')
                          (case name of None \<Rightarrow> [] | Some n \<Rightarrow> n)));
          descTokens = newSet (tokenize (case description of None \<Rightarrow> [] | Some d \<Rightarrow> d));
          keywordTokens = newSet (concat (map tokenize
                          (case keywords of None \<Rightarrow> [] | Some ks \<Rightarrow> ks)));
          nameOverlap = overlap qts nameTokens;
          descOverlap = overlap qts descTokens;
          keywordOverlap = overlap qts keywordTokens;
          nameScore = (of_nat nameOverlap :: rat) / of_nat (max 1 (length nameTokens));
          descScore = (of_nat descOverlap :: rat) / of_nat (max 1 (length qts));
          keywordScore = (of_nat keywordOverlap :: rat) / of_nat (max 1 (length qts));
          raw = nameScore * 1 + descScore * (7 / 10) + keywordScore * (5 / 10)
      in min (raw / (22 / 10)) 1)"

definition scoreSkillMatch :: "string \<Rightarrow> string option \<Rightarrow> string option \<Rightarrow> string list option \<Rightarrow> rat" where
  "scoreSkillMatch prompt name description keywords =
     (if length (queryTokens prompt) = 0 then 0
      else
        let normalized = normalizedScore prompt name description keywords;
            q = queryString prompt;
            nn = nameNorm name
        in if nn \<noteq> [] \<and> (q = nn \<or> includesStr q nn) then min 1 (normalized + 15 / 100)
           else normalized)"

section \<open>File trees\<close>

text \<open>
  What the pipeline sees of the file system. A \<open>node\<close> is what \<open>fs.lstat\<close> and
  \<open>fs.readdir\<close> report: a regular file with its content, a file that cannot be read, a
  directory with its entries in \<open>readdir\<close> order, a directory that cannot be listed, a
  FIFO or a socket (\<open>Other\<close>), or a symbolic link (\<open>Link\<close>). The last two are the
  \<open>Dirent\<close>s that are neither \<open>isFile()\<close> nor \<open>isDirectory()\<close>; \<open>fs.cp\<close> copies a
  link as a link and throws on a FIFO or a socket. Device files are not modelled.

  The file system is a map from the path names the pipeline opens (the source root, the
  clone directory, each destination directory) to the tree found there; a path below such
  a root is resolved inside its tree. Distinct path names are independent of each other:
  the model covers runs in which no root lies inside another one.
\<close>

datatype node =
  File string | NoReadFile | Dir "(string \<times> node) list" | NoReadDir | Other | Link

type_synonym filesystem = "string \<Rightarrow> node option"

type_synonym relpath = "string list"

fun isFile :: "node \<Rightarrow> bool" where
  "isFile (File c) = True"
| "isFile NoReadFile = True"
| "isFile n = False"

fun isDirectory :: "node \<Rightarrow> bool" where
  "isDirectory (Dir es) = True"
| "isDirectory NoReadDir = True"
| "isDirectory n = False"

fun lookup :: "node \<Rightarrow> relpath \<Rightarrow> node option" where
  "lookup n [] = Some n"
| "lookup (Dir es) (x # xs) = (case map_of es x of None \<Rightarrow> None | Some c \<Rightarrow> lookup c xs)"
| "lookup n (x # xs) = None"

fun readFile :: "node \<Rightarrow> relpath \<Rightarrow> string option" where
  \<comment> \<open>\<open>fs.readFile\<close> below a root; \<open>None\<close> when it throws\<close>
  "readFile tr p = (case lookup tr p of Some (File c) \<Rightarrow> Some c | _ \<Rightarrow> None)"

definition pathJoin :: "string \<Rightarrow> string \<Rightarrow> string" where
  \<comment> \<open>\<open>path.join(dir, name)\<close> on POSIX for a normalised \<open>dir\<close>\<close>
  "pathJoin dir name = dir @ ''/'' @ name"

definition pathString :: "string \<Rightarrow> relpath \<Rightarrow> string" where
  \<comment> \<open>the path name of the directory reached from \<open>rootDir\<close> by the components \<open>rel\<close>\<close>
  "pathString rootDir rel = foldl pathJoin rootDir rel"

definition basename :: "string \<Rightarrow> string" where
  \<comment> \<open>\<open>path.basename\<close>: the last segment, trailing separators dropped\<close>
  "basename p = rev (takeWhile (\<lambda>c. c \<noteq> CHR ''/'') (dropWhile (\<lambda>c. c = CHR ''/'') (rev p)))"

definition dirname :: "string \<Rightarrow> string" where
  \<comment> \<open>\<open>path.dirname\<close> of an absolute path\<close>
  "dirname p =
     (let d = rev (dropWhile (\<lambda>c. c = CHR ''/'')
                (dropWhile (\<lambda>c. c \<noteq> CHR ''/'') (dropWhile (\<lambda>c. c = CHR ''/'') (rev p))))
      in if d = [] then ''/'' else d)"

section \<open>Skill-tree scanning (collectSkillDirs)\<close>

definition IMPORT_IGNORED_NAMES :: "string list" where
  "IMPORT_IGNORED_NAMES =
     [''.git'', ''node_modules'', ''dist'', ''build'', ''out'', ''.next'', ''.turbo'',
      ''.venv'', ''venv'', ''.idea'', ''.vscode'']"

definition DISCOVERY_IGNORED_NAMES :: "string list" where
  "DISCOVERY_IGNORED_NAMES =
     [''.git'', ''node_modules'', ''dist'', ''build'', ''out'', ''.next'', ''.turbo'',
      ''.venv'', ''venv'', ''.idea'', ''.vscode'']"

definition hasManifest :: "(string \<times> node) list \<Rightarrow> bool" where
  \<comment> \<open>the first loop of \<open>walk\<close>: some entry is a file named SKILL.md\<close>
  "hasManifest entries = list_ex (\<lambda>(name, e). isFile e \<and> name = ''SKILL.md'') entries"

text \<open>
  \<open>walk ignored dir depth n\<close> is the closure \<open>walk(dir, depth)\<close> run on the directory
  whose tree is \<open>n\<close>; it returns what it adds to \<open>found\<close>, in the order of the calls to
  \<open>found.add\<close>. \<open>walkEntries\<close> is its second loop. The two copies of
  \<open>collectSkillDirs\<close> (skills-import.ts and skills-discover.ts) differ in the name of
  the ignore list only.
\<close>

fun walk :: "string list \<Rightarrow> relpath \<Rightarrow> nat \<Rightarrow> node \<Rightarrow> relpath list"
  and walkEntries :: "string list \<Rightarrow> relpath \<Rightarrow> nat \<Rightarrow> (string \<times> node) list \<Rightarrow> relpath list" where
  "walk ignored dir depth (Dir entries) =
     (if depth > 12 then []
      else (if hasManifest entries then [dir] else []) @ walkEntries ignored dir depth entries)"
| "walk ignored dir depth (File c) = []"
| "walk ignored dir depth NoReadFile = []"
| "walk ignored dir depth NoReadDir = []"
| "walk ignored dir depth Other = []"
| "walkEntries ignored dir depth [] = []"
| "walkEntries ignored dir depth ((name, e) # es) =
     (if \<not> isDirectory e then []
      else if name \<in> set ignored then []
      else walk ignored (dir @ [name]) (depth + 1) e)
     @ walkEntries ignored dir depth es"
| "walk ignored dir depth Link = []"

definition toSortedPaths :: "string \<Rightarrow> relpath list \<Rightarrow> relpath list" where
  \<comment> \<open>\<open>[...found].toSorted()\<close>: by the code units of the path names\<close>
  "toSortedPaths rootDir ps = sort_key (pathString rootDir) ps"

definition collectSkillDirsIn :: "string list \<Rightarrow> filesystem \<Rightarrow> string \<Rightarrow> relpath list" where
  "collectSkillDirsIn ignored fs rootDir =
     (case fs rootDir of
        None \<Rightarrow> []
      | Some tr \<Rightarrow> toSortedPaths rootDir (newSet (walk ignored [] 0 tr)))"

definition collectSkillDirs :: "filesystem \<Rightarrow> string \<Rightarrow> relpath list" where
  \<comment> \<open>skills-import.ts\<close>
  "collectSkillDirs fs rootDir = collectSkillDirsIn IMPORT_IGNORED_NAMES fs rootDir"

definition collectSkillDirsDiscovery :: "filesystem \<Rightarrow> string \<Rightarrow> relpath list" where
  \<comment> \<open>skills-discover.ts\<close>
  "collectSkillDirsDiscovery fs rootDir = collectSkillDirsIn DISCOVERY_IGNORED_NAMES fs rootDir"

section \<open>Import (skills-import.ts)\<close>

subsection \<open>Numbers and text\<close>

definition digitChar :: "nat \<Rightarrow> char" where
  "digitChar d = char_of (48 + d)"

function showNat :: "nat \<Rightarrow> string" where
  \<comment> \<open>the decimal text of a non-negative integer in a template literal\<close>
  "showNat n = (if n < 10 then [digitChar n] else showNat (n div 10) @ [digitChar (n mod 10)])"
  by pat_completeness auto
termination
  by (relation "measure id") auto

definition showInt :: "int \<Rightarrow> string" where
  "showInt i = (if i < 0 then ''-'' @ showNat (nat (- i)) else showNat (nat i))"

definition orElse :: "string \<Rightarrow> string \<Rightarrow> string" where
  \<comment> \<open>\<open>a || b\<close> on strings: the empty string is falsy\<close>
  "orElse a b = (if a \<noteq> [] then a else b)"

fun replaceRuns :: "(char \<Rightarrow> bool) \<Rightarrow> char \<Rightarrow> bool \<Rightarrow> string \<Rightarrow> string" where
  \<comment> \<open>\<open>s.replaceAll(/[class]+/g, r)\<close>: each maximal run of the class becomes one \<open>r\<close>;
      the flag says that the previous character was in the class\<close>
  "replaceRuns p r inRun [] = []"
| "replaceRuns p r inRun (c # cs) =
     (if p c then (if inRun then [] else [r]) @ replaceRuns p r True cs
      else c # replaceRuns p r False cs)"

definition isSafeNameChar :: "char \<Rightarrow> bool" where
  \<comment> \<open>the class \<open>[a-zA-Z0-9_-]\<close>\<close>
  "isSafeNameChar c =
     (let n = code c in
        (97 \<le> n \<and> n \<le> 122) \<or> (65 \<le> n \<and> n \<le> 90) \<or> (48 \<le> n \<and> n \<le> 57) \<or>
        c = CHR ''_'' \<or> c = CHR ''-'')"

definition isDashOrUnderscore :: "char \<Rightarrow> bool" where
  "isDashOrUnderscore c = (c = CHR ''-'' \<or> c = CHR ''_'')"

definition sanitizeSkillDirName :: "string \<Rightarrow> string" where
  "sanitizeSkillDirName raw =
     (let s1 = trim raw;
          s2 = replaceRuns (\<lambda>c. c = CHR ''/'' \<or> c = CHR 0x5C) (CHR ''-'') False s1;
          s3 = replaceRuns isWhiteSpace (CHR ''-'') False s2;
          s4 = map (\<lambda>c. if isSafeNameChar c then c else CHR ''-'') s3;
          s5 = replaceRuns (\<lambda>c. c = CHR ''-'') (CHR ''-'') False s4;
          s6 = rev (dropWhile isDashOrUnderscore (rev (dropWhile isDashOrUnderscore s5)));
          normalized = take 64 s6
      in if normalized \<noteq> [] then normalized else ''skill'')"

definition startsWithCI :: "string \<Rightarrow> string \<Rightarrow> bool" where
  \<comment> \<open>a regular expression \<open>/^lit/i\<close> for a lower-case literal\<close>
  "startsWithCI lit s = (toLowerCase (take (length lit) s) = lit)"

definition endsWith :: "string \<Rightarrow> string \<Rightarrow> bool" where
  "endsWith suffix s = (length suffix \<le> length s \<and> drop (length s - length suffix) s = suffix)"

definition endsWithCI :: "string \<Rightarrow> string \<Rightarrow> bool" where
  \<comment> \<open>a regular expression \<open>/lit$/i\<close> for a lower-case literal\<close>
  "endsWithCI lit s = endsWith lit (toLowerCase s)"

definition isHttpUrl :: "string \<Rightarrow> bool" where
  \<comment> \<open>\<open>/^https?:\/\//i\<close>\<close>
  "isHttpUrl v = (startsWithCI ''http://'' v \<or> startsWithCI ''https://'' v)"

definition isUrlLike :: "string \<Rightarrow> bool" where
  "isUrlLike v = (isHttpUrl v \<or> startsWithCI ''ssh://'' v)"

definition isLineTerminator :: "char \<Rightarrow> bool" where
  "isLineTerminator c = (code c = 10 \<or> code c = 13)"

definition isGitSshLike :: "string \<Rightarrow> bool" where
  \<comment> \<open>\<open>/^git@[^:]+:.+/i\<close>\<close>
  "isGitSshLike v =
     (startsWithCI ''git@'' v \<and>
      (let rest = drop 4 v;
           host = takeWhile (\<lambda>c. c \<noteq> CHR '':'') rest;
           after = drop (length host) rest
       in host \<noteq> [] \<and>
          (case after of
             c # d # ds \<Rightarrow> c = CHR '':'' \<and> \<not> isLineTerminator d
           | _ \<Rightarrow> False)))"

fun splitOn :: "char \<Rightarrow> string \<Rightarrow> string \<Rightarrow> string list" where
  \<comment> \<open>\<open>s.split(sep)\<close> for a one-character separator; the second argument is the piece
      being read\<close>
  "splitOn sep cur [] = [cur]"
| "splitOn sep cur (c # cs) =
     (if c = sep then cur # splitOn sep [] cs else splitOn sep (cur @ [c]) cs)"

subsection \<open>Requests, results and the environment\<close>

datatype SkillsImportTarget = Workspace | Managed

record SkillsImportRequest =
  source :: string
  target :: SkillsImportTarget
  workspaceDir :: "string option"
  managedSkillsDir :: "string option"
  ref :: "string option"
  subdir :: "string option"
  overwrite :: "bool option"
  timeoutMs :: "rat option"  \<comment> \<open>\<open>None\<close>: absent or not a finite number\<close>

record SkillsImportEntry =
  name :: "string option"
  sourceDir :: string
  destDir :: string
  skillPath :: string

datatype SkipReason = Conflict | InvalidSkill | CopyFailed

record SkillsImportSkippedEntry =
  skippedSourceDir :: string
  reason :: SkipReason
  skippedMessage :: string

record Result =
  ok :: bool
  message :: string

record SkillsImportResult = Result +
  targetDir :: string
  imported :: "SkillsImportEntry list"
  skipped :: "SkillsImportSkippedEntry list"
  warnings :: "string list"

record CommandResult =
  stdout :: string
  stderr :: string
  exitCode :: "int option"  \<comment> \<open>the field \<open>code\<close>: a number or \<open>null\<close>\<close>

text \<open>
  What the module imports from elsewhere (\<open>../utils.js\<close>, \<open>../process/exec.js\<close>,
  \<open>./skills/frontmatter.js\<close>) and from the runtime is a parameter of the model:
  \<^item> \<open>resolveUserPath\<close>, \<open>CONFIG_DIR\<close> and \<open>tmpdir\<close> (\<open>os.tmpdir()\<close>);
  \<^item> \<open>parseURL s\<close>: the \<open>hostname\<close> and \<open>pathname\<close> of \<open>new URL(s)\<close>, \<open>None\<close>
    when the constructor throws;
  \<^item> \<open>parseFrontmatter\<close>: the key-value block of a manifest, \<open>None\<close> when it throws;
  \<^item> \<open>runCommandWithTimeout argv timeout cwd fs\<close>: the outcome of the subprocess (\<open>Inl\<close>
    the text of the exception when it throws) and the file system it leaves;
  \<^item> \<open>mkdtemp prefix\<close>: the fresh directory made by \<open>fs.mkdtemp\<close>, \<open>None\<close> when it
    throws; \<open>ensureDirOk dir\<close> and \<open>rmOk path\<close>: whether \<open>ensureDir\<close> and
    \<open>fs.rm\<close> (recursive, forced) complete without throwing;
  \<^item> \<open>errorText path\<close>: \<open>String(err)\<close> for the exception of a failed read or copy.
\<close>

record Env =
  resolveUserPath :: "string \<Rightarrow> string"
  CONFIG_DIR :: string
  tmpdir :: string
  parseURL :: "string \<Rightarrow> (string \<times> string) option"
  parseFrontmatter :: "string \<Rightarrow> (string \<rightharpoonup> string) option"
  runCommandWithTimeout ::
    "string list \<Rightarrow> int \<Rightarrow> string option \<Rightarrow> filesystem \<Rightarrow> (string + CommandResult) \<times> filesystem"
  mkdtemp :: "string \<Rightarrow> string option"
  ensureDirOk :: "string \<Rightarrow> bool"
  rmOk :: "string \<Rightarrow> bool"
  errorText :: "string \<Rightarrow> string"

datatype Fault = MkdtempFailed | EnsureDirFailed | RmFailed

definition DEFAULT_IMPORT_TIMEOUT_MS :: int where
  "DEFAULT_IMPORT_TIMEOUT_MS = 60000"

subsection \<open>File-system primitives\<close>

definition pathExists :: "filesystem \<Rightarrow> string \<Rightarrow> bool" where
  "pathExists fs p = (fs p \<noteq> None)"

definition isBelow :: "string \<Rightarrow> string \<Rightarrow> bool" where
  \<comment> \<open>\<open>q\<close> names something inside the directory \<open>p\<close>\<close>
  "isBelow p q = (take (length p + 1) q = p @ ''/'' \<and> length p + 1 < length q)"

definition rmTree :: "string \<Rightarrow> filesystem \<Rightarrow> filesystem" where
  \<comment> \<open>the effect of \<open>fs.rm(p, { recursive: true, force: true })\<close>\<close>
  "rmTree p fs = (\<lambda>q. if q = p \<or> isBelow p q then None else fs q)"

text \<open>
  \<open>fs.cp(src, dest, { recursive: true, force: true, dereference: false, filter })\<close>, as
  far as the trees show it. \<open>cpNode ignored n d\<close> copies the node \<open>n\<close> to a place where
  \<open>d\<close> stands (\<open>None\<close>: nothing) and returns whether the copy completed without throwing
  and what stands there afterwards. It removes nothing but a file it overwrites:
  \<^item> a directory is created when nothing stands at the destination, and its entries are
    copied into it one after the other, in \<open>readdir\<close> order, the filter being asked about
    each of them by its base name; an existing directory keeps the entries the source
    does not have;
  \<^item> a directory over something that is no directory, and anything else over a
    directory, throw before anything is written;
  \<^item> a file replaces what stands at the destination (\<open>unlink\<close>, then \<open>copyFile\<close>); when
    the file cannot be read the copy throws after the \<open>unlink\<close>;
  \<^item> a symbolic link is created, or replaces a symbolic link; where something else
    stands, \<open>symlink\<close> throws;
  \<^item> a FIFO or a socket throws;
  \<^item> a directory that cannot be listed throws after the destination directory has been
    created; nothing can be written below a destination that cannot be opened.
  After a throw the result holds what was written before it.
\<close>

fun putEntry :: "string \<Rightarrow> node option \<Rightarrow> (string \<times> node) list \<Rightarrow> (string \<times> node) list" where
  \<comment> \<open>the entries of a directory after the entry \<open>n\<close> has become \<open>made\<close>\<close>
  "putEntry n None ds = filter (\<lambda>(k, v). k \<noteq> n) ds"
| "putEntry n (Some e) ds =
     (case map_of ds n of
        None \<Rightarrow> ds @ [(n, e)]
      | Some old \<Rightarrow> map (\<lambda>(k, v). if k = n then (k, e) else (k, v)) ds)"

fun cpNode :: "string list \<Rightarrow> node \<Rightarrow> node option \<Rightarrow> bool \<times> node option"
  and cpEntries ::
    "string list \<Rightarrow> (string \<times> node) list \<Rightarrow> (string \<times> node) list \<Rightarrow> bool \<times> (string \<times> node) list" where
  "cpNode ignored (Dir es) None =
     (case cpEntries ignored es [] of (done, ds') \<Rightarrow> (done, Some (Dir ds')))"
| "cpNode ignored (Dir es) (Some (Dir ds)) =
     (case cpEntries ignored es ds of (done, ds') \<Rightarrow> (done, Some (Dir ds')))"
| "cpNode ignored (Dir es) (Some NoReadDir) =
     (list_all (\<lambda>(n, e). n \<in> set ignored) es, Some NoReadDir)"
| "cpNode ignored (Dir es) (Some d) = (False, Some d)"
| "cpNode ignored NoReadDir None = (False, Some (Dir []))"
| "cpNode ignored NoReadDir (Some d) = (False, Some d)"
| "cpNode ignored (File c) None = (True, Some (File c))"
| "cpNode ignored (File c) (Some d) =
     (if isDirectory d then (False, Some d) else (True, Some (File c)))"
| "cpNode ignored NoReadFile None = (False, None)"
| "cpNode ignored NoReadFile (Some d) =
     (if isDirectory d then (False, Some d) else (False, None))"
| "cpNode ignored Link None = (True, Some Link)"
| "cpNode ignored Link (Some d) = (if d = Link then (True, Some Link) else (False, Some d))"
| "cpNode ignored Other d = (False, d)"
| "cpEntries ignored [] ds = (True, ds)"
| "cpEntries ignored ((n, e) # es) ds =
     (if n \<in> set ignored then cpEntries ignored es ds
      else
        case cpNode ignored e (map_of ds n) of
          (False, made) \<Rightarrow> (False, putEntry n made ds)
        | (True, made) \<Rightarrow> cpEntries ignored es (putEntry n made ds))"

definition cp :: "filesystem \<Rightarrow> string \<Rightarrow> relpath \<Rightarrow> string \<Rightarrow> bool \<times> filesystem" where
  \<comment> \<open>\<open>fs.cp(skillDir, destDir, { recursive, force, dereference: false, filter })\<close> for
      the directory \<open>rel\<close> below \<open>rootDir\<close>: whether it completed without throwing, and
      the file system it leaves. The filter is asked about the source itself first: when
      it says no, nothing is copied and nothing is thrown.\<close>
  "cp fs rootDir rel dest =
     (if basename (pathString rootDir rel) \<in> set IMPORT_IGNORED_NAMES then (True, fs)
      else
        case (case fs rootDir of None \<Rightarrow> None | Some tr \<Rightarrow> lookup tr rel) of
          None \<Rightarrow> (False, fs)
        | Some n \<Rightarrow>
            (case cpNode IMPORT_IGNORED_NAMES n (fs dest) of
               (done, made) \<Rightarrow> (done, fs(dest := made))))"

subsection \<open>Resolving the source\<close>

record GitHubTree =
  repoUrl :: string
  treeRef :: "string option"
  treeSubdir :: "string option"

definition stripGitSuffix :: "string \<Rightarrow> string" where
  \<comment> \<open>\<open>s.replace(/\.git$/i, "")\<close>\<close>
  "stripGitSuffix s = (if endsWithCI ''.git'' s then take (length s - 4) s else s)"

definition parseGitHubTreeUrl :: "Env \<Rightarrow> string \<Rightarrow> GitHubTree option" where
  "parseGitHubTreeUrl env src =
     (if \<not> isHttpUrl src then None
      else
        case parseURL env src of
          None \<Rightarrow> None
        | Some (hostname, pathname) \<Rightarrow>
            if hostname \<noteq> ''github.com'' then None
            else
              let parts = filter (\<lambda>x. x \<noteq> []) (splitOn (CHR ''/'') [] pathname) in
                if length parts < 2 then None
                else
                  let owner = parts ! 0;
                      repo = stripGitSuffix (parts ! 1)
                  in if owner = [] \<or> repo = [] then None
                     else
                       let url = ''https://github.com/'' @ owner @ ''/'' @ repo @ ''.git'' in
                         if length parts \<ge> 4 \<and> (parts ! 2 = ''tree'' \<or> parts ! 2 = ''blob'')
                         then
                           let rest = joinWith ''/'' (drop 4 parts) in
                             Some \<lparr>repoUrl = url, treeRef = Some (parts ! 3),
                                   treeSubdir = (if rest \<noteq> []
                                                 then Some (dropWhile (\<lambda>c. c = CHR ''/'') rest)
                                                 else None)\<rparr>
                         else Some \<lparr>repoUrl = url, treeRef = None, treeSubdir = None\<rparr>)"

definition truthy :: "string option \<Rightarrow> bool" where
  \<comment> \<open>an optional string used as a condition: present and not empty\<close>
  "truthy v = (case v of None \<Rightarrow> False | Some x \<Rightarrow> x \<noteq> [])"

definition orEmpty :: "string option \<Rightarrow> string" where
  "orEmpty v = (case v of None \<Rightarrow> [] | Some x \<Rightarrow> x)"

record Resolved =
  rootDir :: string
  cleanupDir :: "string option"  \<comment> \<open>the temporary directory \<open>cleanup\<close> removes, if any\<close>
  resolvedWarnings :: "string list"

definition tryClone ::
  "Env \<Rightarrow> int \<Rightarrow> string list \<Rightarrow> string option \<Rightarrow> filesystem \<Rightarrow> CommandResult \<times> filesystem" where
  "tryClone env timeout argv cwd fs =
     (case runCommandWithTimeout env argv timeout cwd fs of
        (Inr res, fs') \<Rightarrow> (res, fs')
      | (Inl err, fs') \<Rightarrow> (\<lparr>stdout = [], stderr = err, exitCode = Some 1\<rparr>, fs'))"

definition cloneFailedMessage :: "CommandResult \<Rightarrow> CommandResult \<Rightarrow> string" where
  "cloneFailedMessage clone fullClone =
     orElse (trim (stderr clone)) (orElse (trim (stdout clone))
       (orElse (trim (stderr fullClone)) (orElse (trim (stdout fullClone))
         (''git clone failed (exit '' @
            (case exitCode fullClone of
               Some c \<Rightarrow> showInt c
             | None \<Rightarrow> (case exitCode clone of Some c \<Rightarrow> showInt c | None \<Rightarrow> ''unknown'')) @
          '')''))))"

definition checkoutFailedMessage :: "CommandResult \<Rightarrow> string" where
  "checkoutFailedMessage checkout =
     orElse (trim (stderr checkout)) (orElse (trim (stdout checkout))
       (''git checkout failed (exit '' @
          (case exitCode checkout of Some c \<Rightarrow> showInt c | None \<Rightarrow> ''unknown'') @ '')''))"

definition normalizedGitUrl :: "Env \<Rightarrow> string \<Rightarrow> string" where
  \<comment> \<open>\<open>githubTree?.repoUrl ?? rawSource\<close>\<close>
  "normalizedGitUrl env rawSource =
     (case parseGitHubTreeUrl env rawSource of Some g \<Rightarrow> repoUrl g | None \<Rightarrow> rawSource)"

definition isGit :: "Env \<Rightarrow> string \<Rightarrow> bool" where
  "isGit env rawSource =
     (isUrlLike (normalizedGitUrl env rawSource) \<or> isGitSshLike (normalizedGitUrl env rawSource) \<or>
      endsWithCI ''.git'' rawSource)"

definition importTimeout :: "SkillsImportRequest \<Rightarrow> int" where
  \<comment> \<open>the value of \<open>timeoutMs\<close> in \<open>resolveSource\<close>\<close>
  "importTimeout params =
     (case timeoutMs params of
        Some t \<Rightarrow> max 1000 (floor t)
      | None \<Rightarrow> DEFAULT_IMPORT_TIMEOUT_MS)"

definition shallowCloneArgs :: "string option \<Rightarrow> string \<Rightarrow> string \<Rightarrow> string list" where
  "shallowCloneArgs normalizedRef gitUrl repoDir =
     [''git'', ''clone'', ''--depth'', ''1''] @
     (if truthy normalizedRef then [''--branch'', orEmpty normalizedRef] else []) @
     [gitUrl, repoDir]"

definition fullCloneFallback ::
  "Env \<Rightarrow> int \<Rightarrow> string \<Rightarrow> string \<Rightarrow> CommandResult \<Rightarrow> filesystem \<Rightarrow> CommandResult \<times> filesystem" where
  \<comment> \<open>the full clone tried after a failed shallow clone; after a successful one, the
      shallow clone's own outcome\<close>
  "fullCloneFallback env timeout gitUrl repoDir clone fs =
     (if exitCode clone \<noteq> Some 0
      then tryClone env timeout [''git'', ''clone'', gitUrl, repoDir] None fs
      else (clone, fs))"

definition checkoutRef ::
  "Env \<Rightarrow> int \<Rightarrow> string option \<Rightarrow> string \<Rightarrow> filesystem \<Rightarrow> string list \<times> filesystem" where
  \<comment> \<open>\<open>git checkout\<close> of a requested ref: the warning it adds, if any\<close>
  "checkoutRef env timeout normalizedRef repoDir fs =
     (if truthy normalizedRef
      then
        (case tryClone env timeout [''git'', ''checkout'', orEmpty normalizedRef] (Some repoDir) fs of
           (checkout, fs') \<Rightarrow>
             ((if exitCode checkout \<noteq> Some 0 then [checkoutFailedMessage checkout] else []), fs'))
      else ([], fs))"

definition cloneSource ::
  "Env \<Rightarrow> SkillsImportRequest \<Rightarrow> string list \<Rightarrow> string \<Rightarrow> string option \<Rightarrow> string option \<Rightarrow>
     filesystem \<Rightarrow> (Fault + Resolved) \<times> filesystem" where
  \<comment> \<open>the second half of \<open>resolveSource\<close>, from \<open>fs.mkdtemp\<close> on, for the warnings
      collected so far and the normalised URL, ref and subdirectory\<close>
  "cloneSource env params warnings0 gitUrl normalizedRef normalizedSubdir fs =
     (case mkdtemp env (pathJoin (tmpdir env) ''openclaw-skill-import-'') of
        None \<Rightarrow> (Inl MkdtempFailed, fs)
      | Some tmpDir \<Rightarrow>
          (case tryClone env (importTimeout params)
                  (shallowCloneArgs normalizedRef gitUrl (pathJoin tmpDir ''repo'')) None
                  (fs(tmpDir \<mapsto> Dir [])) of
             (clone, fs1) \<Rightarrow>
               (case fullCloneFallback env (importTimeout params) gitUrl (pathJoin tmpDir ''repo'')
                       clone fs1 of
                  (fullClone, fs2) \<Rightarrow>
                    if exitCode clone \<noteq> Some 0 \<and> exitCode fullClone \<noteq> Some 0
                    then
                      if \<not> rmOk env tmpDir then (Inl RmFailed, fs2)
                      else (Inr \<lparr>rootDir = [], cleanupDir = None,
                                 resolvedWarnings =
                                   warnings0 @ [cloneFailedMessage clone fullClone]\<rparr>,
                            rmTree tmpDir fs2)
                    else
                      (case checkoutRef env (importTimeout params) normalizedRef
                              (pathJoin tmpDir ''repo'') fs2 of
                         (w3, fs3) \<Rightarrow>
                           (Inr \<lparr>rootDir = (if truthy normalizedSubdir
                                             then pathJoin (pathJoin tmpDir ''repo'')
                                                    (orEmpty normalizedSubdir)
                                             else pathJoin tmpDir ''repo''),
                                  cleanupDir = Some tmpDir,
                                  resolvedWarnings = warnings0 @ w3\<rparr>, fs3)))))"

definition resolveSource ::
  "Env \<Rightarrow> SkillsImportRequest \<Rightarrow> filesystem \<Rightarrow> (Fault + Resolved) \<times> filesystem" where
  "resolveSource env params fs =
     (let rawSource = trim (source params) in
      if rawSource = []
      then (Inr \<lparr>rootDir = [], cleanupDir = None, resolvedWarnings = [''missing source'']\<rparr>, fs)
      else
        let githubTree = parseGitHubTreeUrl env rawSource;
            urlRef = (case githubTree of Some g \<Rightarrow> treeRef g | None \<Rightarrow> None);
            urlSubdir = (case githubTree of Some g \<Rightarrow> treeSubdir g | None \<Rightarrow> None);
            normalizedRef = (case urlRef of Some r \<Rightarrow> Some r | None \<Rightarrow> ref params);
            normalizedSubdir = (case urlSubdir of Some d \<Rightarrow> Some d | None \<Rightarrow> subdir params);
            w1 = (if truthy urlSubdir \<and> truthy (subdir params)
                  then [''Both source URL subdir and params.subdir were provided; using the URL subdir.'']
                  else []);
            w2 = (if truthy urlRef \<and> truthy (ref params)
                  then [''Both source URL ref and params.ref were provided; using the URL ref.'']
                  else []);
            warnings0 = w1 @ w2;
            resolvedLocalPath = resolveUserPath env rawSource
        in
          if pathExists fs resolvedLocalPath
          then
            let root0 = (if endsWith ''/SKILL.md'' rawSource then dirname resolvedLocalPath
                         else resolvedLocalPath);
                withSubdir = (if truthy normalizedSubdir then pathJoin root0 (orEmpty normalizedSubdir)
                              else root0)
            in (Inr \<lparr>rootDir = withSubdir, cleanupDir = None, resolvedWarnings = warnings0\<rparr>, fs)
          else if \<not> isGit env rawSource
          then (Inr \<lparr>rootDir = [], cleanupDir = None,
                     resolvedWarnings =
                       warnings0 @ [''source path does not exist: '' @ resolvedLocalPath]\<rparr>, fs)
          else cloneSource env params warnings0 (normalizedGitUrl env rawSource)
                 normalizedRef normalizedSubdir fs)"

definition resolveTargetDir :: "Env \<Rightarrow> SkillsImportRequest \<Rightarrow> string option" where
  "resolveTargetDir env params =
     (if target params = Managed
      then
        (case managedSkillsDir params of
           Some d \<Rightarrow>
             if trim d \<noteq> [] then Some (resolveUserPath env d)
             else Some (pathJoin (CONFIG_DIR env) ''skills'')
         | None \<Rightarrow> Some (pathJoin (CONFIG_DIR env) ''skills''))
      else
        (case workspaceDir params of
           None \<Rightarrow> None
         | Some w \<Rightarrow>
             if trim w = [] then None
             else Some (pathJoin (resolveUserPath env (trim w)) ''skills'')))"

subsection \<open>importSkills\<close>

definition declaredName :: "Env \<Rightarrow> string \<Rightarrow> string option" where
  \<comment> \<open>the \<open>name\<close> of the frontmatter, trimmed, when it parses and is not blank\<close>
  "declaredName env content =
     (case parseFrontmatter env content of
        None \<Rightarrow> None
      | Some fm \<Rightarrow>
          (case fm ''name'' of
             None \<Rightarrow> None
           | Some v \<Rightarrow> if trim v \<noteq> [] then Some (trim v) else None))"

definition destDirName :: "string list \<Rightarrow> string \<Rightarrow> string" where
  \<comment> \<open>\<open>usedDestNames.has(dirNameBase) ? `${dirNameBase}-${usedDestNames.size + 1}` : dirNameBase\<close>\<close>
  "destDirName usedDestNames dirNameBase =
     (if dirNameBase \<in> set usedDestNames
      then dirNameBase @ ''-'' @ showNat (length usedDestNames + 1)
      else dirNameBase)"

type_synonym ImportState =
  "SkillsImportEntry list \<times> SkillsImportSkippedEntry list \<times> string list \<times> filesystem"

definition importOne ::
  "Env \<Rightarrow> SkillsImportRequest \<Rightarrow> string \<Rightarrow> string \<Rightarrow> relpath \<Rightarrow> ImportState \<Rightarrow> Fault + ImportState" where
  \<comment> \<open>one iteration of the loop over \<open>skillDirs\<close>: the lists \<open>imported\<close> and \<open>skipped\<close>,
      the set \<open>usedDestNames\<close> and the file system, before and after\<close>
  "importOne env params tgtDir rootD skillDir st =
     (case st of (imp, skp, used, fs) \<Rightarrow>
      let srcDir = pathString rootD skillDir in
      case (case fs rootD of None \<Rightarrow> None | Some tr \<Rightarrow> readFile tr (skillDir @ [''SKILL.md''])) of
        None \<Rightarrow>
          Inr (imp,
               skp @ [\<lparr>skippedSourceDir = srcDir, reason = InvalidSkill,
                       skippedMessage = ''failed to read SKILL.md: '' @
                                          errorText env (pathJoin srcDir ''SKILL.md'')\<rparr>],
               used, fs)
      | Some content \<Rightarrow>
          let nm = declaredName env content;
              dirNameBase = sanitizeSkillDirName (case nm of Some n \<Rightarrow> n | None \<Rightarrow> basename srcDir);
              dirName = destDirName used dirNameBase;
              used' = setAdd used dirName;
              dest = pathJoin tgtDir dirName;
              exists = pathExists fs dest
          in
            if exists \<and> overwrite params \<noteq> Some True
            then Inr (imp,
                      skp @ [\<lparr>skippedSourceDir = srcDir, reason = Conflict,
                              skippedMessage = ''destination exists: '' @ dest\<rparr>],
                      used', fs)
            else if exists \<and> overwrite params = Some True \<and> \<not> rmOk env dest
            then Inl RmFailed
            else
              let fs1 = (if exists \<and> overwrite params = Some True then rmTree dest fs else fs) in
                case cp fs1 rootD skillDir dest of
                  (False, fs2) \<Rightarrow>
                    Inr (imp,
                         skp @ [\<lparr>skippedSourceDir = srcDir, reason = CopyFailed,
                                 skippedMessage = ''copy failed: '' @ errorText env srcDir\<rparr>],
                         used', fs2)
                | (True, fs2) \<Rightarrow>
                    Inr (imp @ [\<lparr>name = nm, sourceDir = srcDir, destDir = dest,
                                  skillPath = pathJoin dest ''SKILL.md''\<rparr>],
                         skp, used', fs2))"

fun importLoop ::
  "Env \<Rightarrow> SkillsImportRequest \<Rightarrow> string \<Rightarrow> string \<Rightarrow> relpath list \<Rightarrow> ImportState \<Rightarrow> Fault + ImportState" where
  "importLoop env params tgtDir rootD [] st = Inr st"
| "importLoop env params tgtDir rootD (skillDir # rest) st =
     (case importOne env params tgtDir rootD skillDir st of
        Inl fault \<Rightarrow> Inl fault
      | Inr st' \<Rightarrow> importLoop env params tgtDir rootD rest st')"

definition failure :: "string \<Rightarrow> string \<Rightarrow> string list \<Rightarrow> SkillsImportResult" where
  \<comment> \<open>the early returns: nothing imported, nothing skipped\<close>
  "failure msg tgtDir ws =
     \<lparr>ok = False, message = msg, targetDir = tgtDir, imported = [], skipped = [], warnings = ws\<rparr>"

definition finish :: "string \<Rightarrow> string list \<Rightarrow> ImportState \<Rightarrow> SkillsImportResult" where
  \<comment> \<open>the statements after the \<open>try\<close> block\<close>
  "finish tgtDir ws st =
     (case st of (imp, skp, used, fs) \<Rightarrow>
        let isOk = (length imp > 0);
            msg = (if isOk
                   then ''Imported '' @ showNat (length imp) @ '' skill(s) into '' @ tgtDir
                   else if length skp > 0 then ''No skills imported (see skipped entries)''
                   else ''No skills imported'')
        in \<lparr>ok = isOk, message = msg, targetDir = tgtDir, imported = imp, skipped = skp,
            warnings = ws\<rparr>)"

definition tryBlock ::
  "Env \<Rightarrow> SkillsImportRequest \<Rightarrow> string \<Rightarrow> Resolved \<Rightarrow> filesystem \<Rightarrow>
     (Fault + SkillsImportResult) \<times> filesystem" where
  \<comment> \<open>the \<open>try\<close> block, followed on its normal exit by the statements after it\<close>
  "tryBlock env params tgtDir resolved fs =
     (let ws = resolvedWarnings resolved in
      if \<not> pathExists fs (rootDir resolved)
      then (Inr (failure (''source not found: '' @ rootDir resolved) tgtDir ws), fs)
      else if \<not> ensureDirOk env tgtDir then (Inl EnsureDirFailed, fs)
      else
        let fs1 = (if pathExists fs tgtDir then fs else fs(tgtDir \<mapsto> Dir []));
            skillDirs = collectSkillDirs fs1 (rootDir resolved)
        in
          if length skillDirs = 0
          then (Inr (failure ''no SKILL.md found in source'' tgtDir ws), fs1)
          else
            case importLoop env params tgtDir (rootDir resolved) skillDirs ([], [], [], fs1) of
              Inl fault \<Rightarrow> (Inl fault, fs1)
            | Inr st \<Rightarrow> (Inr (finish tgtDir ws st), snd (snd (snd st))))"

definition cleanup :: "Env \<Rightarrow> Resolved \<Rightarrow> (Fault + 'a) \<times> filesystem \<Rightarrow> (Fault + 'a) \<times> filesystem" where
  \<comment> \<open>the \<open>finally\<close> block: \<open>resolved.cleanup()\<close> runs on every exit of the \<open>try\<close> block;
      when it throws, its exception replaces the outcome\<close>
  "cleanup env resolved outcome =
     (case cleanupDir resolved of
        None \<Rightarrow> outcome
      | Some tmpDir \<Rightarrow>
          if rmOk env tmpDir then (fst outcome, rmTree tmpDir (snd outcome))
          else (Inl RmFailed, snd outcome))"

definition importSkills ::
  "Env \<Rightarrow> SkillsImportRequest \<Rightarrow> filesystem \<Rightarrow> (Fault + SkillsImportResult) \<times> filesystem" where
  \<comment> \<open>one call, run alone (\<open>serializeByKey\<close> runs the calls for one target directory one
      after the other): the result, or the exception that escapes, and the file system
      left behind\<close>
  "importSkills env params fs =
     (case resolveTargetDir env params of
        None \<Rightarrow> (Inr (failure ''workspaceDir required when target=workspace'' [] []), fs)
      | Some tgtDir \<Rightarrow>
          (case resolveSource env params fs of
             (Inl fault, fs') \<Rightarrow> (Inl fault, fs')
           | (Inr resolved, fs') \<Rightarrow>
               if rootDir resolved = []
               then (Inr (failure
                            (case resolvedWarnings resolved of
                               [] \<Rightarrow> ''failed to resolve source''
                             | ws \<Rightarrow> last ws)
                            tgtDir (resolvedWarnings resolved)), fs')
               else cleanup env resolved (tryBlock env params tgtDir resolved fs')))"

section \<open>Validation (skills-validate.ts)\<close>

record PiDiagnostic =
  diagType :: string
  diagMessage :: string
  diagPath :: "string option"

record Skill =
  skillName :: string
  skillDescription :: string
  filePath :: string
  skillSource :: string

record SkillEntry =
  skill :: Skill

record Missing =
  bins :: "string list"
  anyBins :: "string list"
  env :: "string list"
  config :: "string list"
  os :: "string list"

record InstallOption =
  installId :: string  \<comment> \<open>the field \<open>id\<close>\<close>
  installLabel :: string

record SkillStatusEntry =
  statusName :: string  \<comment> \<open>the field \<open>name\<close>\<close>
  statusFilePath :: string  \<comment> \<open>the field \<open>filePath\<close>\<close>
  eligible :: bool
  missing :: Missing
  install :: "InstallOption list"

datatype Json = JObject "(string \<times> Json) list" | JArray "Json list" | JOther

datatype PiLoadResult = PiArray "Skill list" | PiObject "Skill list" "PiDiagnostic list option" | PiOther

text \<open>
  The host the validation runs against: \<open>path.resolve\<close>, the skill loaders and the
  status report of the host (for the configuration and eligibility context of the call),
  \<open>fs.readFile\<close> on a path name, \<open>JSON5.parse\<close> (\<open>Inl\<close> the message of the exception it
  throws) and the manifest keys of \<open>../compat/legacy-names.js\<close>.
\<close>

record Host =
  normalizePath :: "string \<Rightarrow> string"
  loadWorkspaceSkillEntries :: "string \<Rightarrow> SkillEntry list"
  buildWorkspaceSkillStatus :: "string \<Rightarrow> SkillStatusEntry list"
  loadSkillsFromDir :: "string \<Rightarrow> PiLoadResult"
  readFileText :: "string \<Rightarrow> string option"
  JSON5parse :: "string \<Rightarrow> string + Json"
  MANIFEST_KEY :: string
  LEGACY_MANIFEST_KEYS :: "string list"

definition normalizePiLoadResult :: "PiLoadResult \<Rightarrow> Skill list \<times> PiDiagnostic list" where
  "normalizePiLoadResult r =
     (case r of
        PiArray sk \<Rightarrow> (sk, [])
      | PiObject sk ds \<Rightarrow> (sk, (case ds of Some d \<Rightarrow> d | None \<Rightarrow> []))
      | PiOther \<Rightarrow> ([], []))"

record MetadataInspection =
  present :: bool
  parseOk :: bool
  manifestFound :: bool
  metadataError :: "string option"

fun isJsonObject :: "Json \<Rightarrow> bool" where
  \<comment> \<open>\<open>value && typeof value === "object"\<close>\<close>
  "isJsonObject (JObject kvs) = True"
| "isJsonObject (JArray vs) = True"
| "isJsonObject JOther = False"

fun jsonField :: "Json \<Rightarrow> string \<Rightarrow> Json option" where
  \<comment> \<open>\<open>parsedObj[key]\<close> for a key that is not an array index\<close>
  "jsonField (JObject kvs) k = map_of kvs k"
| "jsonField j k = None"

definition inspectOpenClawMetadata :: "Host \<Rightarrow> (string \<rightharpoonup> string) \<Rightarrow> MetadataInspection" where
  "inspectOpenClawMetadata host frontmatter =
     (let raw = (case frontmatter ''metadata'' of Some m \<Rightarrow> trim m | None \<Rightarrow> []) in
      if raw = []
      then \<lparr>present = False, parseOk = True, manifestFound = False, metadataError = None\<rparr>
      else
        case JSON5parse host raw of
          Inl err \<Rightarrow>
            \<lparr>present = True, parseOk = False, manifestFound = False, metadataError = Some err\<rparr>
        | Inr parsed \<Rightarrow>
            if \<not> isJsonObject parsed
            then \<lparr>present = True, parseOk = False, manifestFound = False,
                  metadataError = Some ''metadata must be a JSON object''\<rparr>
            else
              let candidates = MANIFEST_KEY host # LEGACY_MANIFEST_KEYS host;
                  found = list_ex (\<lambda>key. case jsonField parsed key of
                                             Some v \<Rightarrow> isJsonObject v | None \<Rightarrow> False) candidates
              in \<lparr>present = True, parseOk = True, manifestFound = found, metadataError = None\<rparr>)"

definition findSkillEntryByPath :: "Host \<Rightarrow> SkillEntry list \<Rightarrow> string \<Rightarrow> SkillEntry option" where
  "findSkillEntryByPath host entries p =
     find (\<lambda>entry. normalizePath host (filePath (skill entry)) = normalizePath host p) entries"

definition findSkillStatusByPath :: "Host \<Rightarrow> SkillStatusEntry list \<Rightarrow> string \<Rightarrow> SkillStatusEntry option" where
  "findSkillStatusByPath host report p =
     find (\<lambda>entry. normalizePath host (statusFilePath entry) = normalizePath host p) report"

definition findAnyNameCollision ::
  "Host \<Rightarrow> SkillEntry list \<Rightarrow> string \<Rightarrow> string \<Rightarrow> (string \<times> string) option" where
  \<comment> \<open>the winner's path and source\<close>
  "findAnyNameCollision host entries importedPath nm =
     (let normalizedName = trim nm in
      if normalizedName = [] then None
      else
        case find (\<lambda>entry. skillName (skill entry) = normalizedName \<and>
                     normalizePath host (filePath (skill entry)) \<noteq> normalizePath host importedPath)
               entries of
          None \<Rightarrow> None
        | Some entry \<Rightarrow> Some (filePath (skill entry), skillSource (skill entry)))"

definition interestingDiagnostic :: "string \<Rightarrow> bool" where
  \<comment> \<open>the case-insensitive test of the five known messages\<close>
  "interestingDiagnostic msg =
     list_ex (includesStr (toLowerCase msg))
       [''description is required'', ''unknown frontmatter field'',
        ''name contains invalid characters'', ''does not match parent directory'',
        ''failed to parse'']"

definition shouldRecommendRewrite ::
  "bool \<Rightarrow> PiDiagnostic list \<Rightarrow> MetadataInspection \<Rightarrow> SkillStatusEntry option \<Rightarrow>
     (string \<times> string) option \<Rightarrow> bool \<times> string list" where
  "shouldRecommendRewrite isLoaded diagnostics metadataInspection status collision =
     (let r1 = (if \<not> isLoaded
                then [''Skill not loaded by OpenClaw (likely missing description or invalid frontmatter).'']
                else []);
          r2 = (case collision of
                  None \<Rightarrow> []
                | Some (winnerPath, winnerSource) \<Rightarrow>
                    [''Skill name collides with another loaded skill: '' @ winnerSource @
                     '' ('' @ winnerPath @ '').'']);
          r3 = (if present metadataInspection \<and> \<not> parseOk metadataInspection
                then [''Invalid JSON5 in frontmatter metadata: '' @
                      (case metadataError metadataInspection of
                         Some e \<Rightarrow> e | None \<Rightarrow> ''parse error'') @ ''.'']
                else []);
          r4 = (if present metadataInspection \<and> parseOk metadataInspection \<and>
                   \<not> manifestFound metadataInspection
                then [''Frontmatter metadata is present but does not include an OpenClaw manifest key.'']
                else []);
          interesting = filter interestingDiagnostic (map diagMessage diagnostics);
          r5 = map (\<lambda>msg. ''Agent Skills spec warning: '' @ msg) (take 5 (newSet interesting));
          r6 = (case status of
                  None \<Rightarrow> []
                | Some st \<Rightarrow>
                    if \<not> eligible st \<and>
                       (length (bins (missing st)) > 0 \<or> length (anyBins (missing st)) > 0) \<and>
                       length (install st) = 0
                    then [''Missing required binaries but no installer is declared in OpenClaw metadata.'']
                    else []);
          reasons = r1 @ r2 @ r3 @ r4 @ r5 @ r6;
          unique = newSet (filter (\<lambda>r. r \<noteq> []) (map trim reasons))
      in (length unique > 0, unique))"

record SkillValidationEntry =
  vDestDir :: string  \<comment> \<open>the field \<open>destDir\<close>\<close>
  vSkillPath :: string  \<comment> \<open>the field \<open>skillPath\<close>\<close>
  importedName :: "string option"
  vDeclaredName :: "string option"  \<comment> \<open>the field \<open>declaredName\<close>\<close>
  loadedName :: "string option"
  vDescription :: "string option"  \<comment> \<open>the field \<open>description\<close>\<close>
  loaded :: bool
  diagnostics :: "PiDiagnostic list"
  metadata :: MetadataInspection
  status :: "SkillStatusEntry option"
  ready :: bool
  rewriteRecommended :: bool
  rewriteReasons :: "string list"

record Summary =
  total :: nat
  loadedCount :: nat  \<comment> \<open>the field \<open>loaded\<close>\<close>
  readyCount :: nat  \<comment> \<open>the field \<open>ready\<close>\<close>
  rewriteCount :: nat  \<comment> \<open>the field \<open>rewriteRecommended\<close>\<close>

record SkillsValidationReport = Result +
  summary :: Summary
  skills :: "SkillValidationEntry list"

datatype ValidationFault = ParseFrontmatterThrew

definition validateOne ::
  "Env \<Rightarrow> Host \<Rightarrow> SkillEntry list \<Rightarrow> SkillStatusEntry list \<Rightarrow> SkillsImportEntry \<Rightarrow>
     ValidationFault + SkillValidationEntry" where
  \<comment> \<open>one iteration of the loop over \<open>params.imported\<close>; \<open>parseFrontmatter\<close> is called
      outside any \<open>try\<close> here\<close>
  "validateOne e host entries report imp =
     (let sp = normalizePath host (skillPath imp) in
      case readFileText host sp of
        None \<Rightarrow>
          Inr \<lparr>vDestDir = destDir imp, vSkillPath = skillPath imp, importedName = name imp,
               vDeclaredName = None, loadedName = None, vDescription = None, loaded = False,
               diagnostics =
                 [\<lparr>diagType = ''error'',
                   diagMessage = ''Failed to read SKILL.md: '' @ errorText e sp,
                   diagPath = Some (skillPath imp)\<rparr>],
               metadata = \<lparr>present = False, parseOk = True, manifestFound = False,
                            metadataError = None\<rparr>,
               status = None, ready = False, rewriteRecommended = True,
               rewriteReasons = [''Failed to read SKILL.md.'']\<rparr>
      | Some content \<Rightarrow>
          (case parseFrontmatter e content of
             None \<Rightarrow> Inl ParseFrontmatterThrew
           | Some frontmatter \<Rightarrow>
               let declared = (case frontmatter ''name'' of Some n \<Rightarrow> Some (trim n) | None \<Rightarrow> None);
                   metadataInspection = inspectOpenClawMetadata host frontmatter;
                   piLoad = normalizePiLoadResult (loadSkillsFromDir host (destDir imp));
                   piDiagnostics =
                     filter (\<lambda>d. case diagPath d of
                                    None \<Rightarrow> False
                                  | Some dp \<Rightarrow> dp \<noteq> [] \<and> normalizePath host dp = sp)
                       (snd piLoad);
                   piSkill = find (\<lambda>s. normalizePath host (filePath s) = sp) (fst piLoad);
                   entry = findSkillEntryByPath host entries sp;
                   st = findSkillStatusByPath host report sp;
                   lname = (case piSkill of
                              Some s \<Rightarrow> Some (skillName s)
                            | None \<Rightarrow> (case entry of Some en \<Rightarrow> Some (skillName (skill en))
                                                     | None \<Rightarrow> None));
                   collision = (if entry = None \<and> truthy lname
                                then findAnyNameCollision host entries sp (orEmpty lname)
                                else None);
                   isLoaded = (entry \<noteq> None);
                   isReady = (isLoaded \<and> (case st of Some x \<Rightarrow> eligible x | None \<Rightarrow> False));
                   rewrite = shouldRecommendRewrite isLoaded piDiagnostics metadataInspection st collision
               in Inr \<lparr>vDestDir = destDir imp, vSkillPath = skillPath imp, importedName = name imp,
                        vDeclaredName = declared,
                        loadedName = (if truthy lname then lname else None),
                        vDescription = (case piSkill of
                                          Some s \<Rightarrow> (if skillDescription s \<noteq> []
                                                      then Some (skillDescription s) else None)
                                        | None \<Rightarrow> None),
                        loaded = isLoaded, diagnostics = piDiagnostics,
                        metadata = metadataInspection, status = st, ready = isReady,
                        rewriteRecommended = fst rewrite, rewriteReasons = snd rewrite\<rparr>))"

fun validateAll ::
  "Env \<Rightarrow> Host \<Rightarrow> SkillEntry list \<Rightarrow> SkillStatusEntry list \<Rightarrow> SkillsImportEntry list \<Rightarrow>
     ValidationFault + SkillValidationEntry list" where
  "validateAll e host entries report [] = Inr []"
| "validateAll e host entries report (imp # rest) =
     (case validateOne e host entries report imp of
        Inl fault \<Rightarrow> Inl fault
      | Inr v \<Rightarrow>
          (case validateAll e host entries report rest of
             Inl fault \<Rightarrow> Inl fault
           | Inr vs \<Rightarrow> Inr (v # vs)))"

definition validateImportedSkills ::
  "Env \<Rightarrow> Host \<Rightarrow> string \<Rightarrow> SkillsImportEntry list \<Rightarrow> ValidationFault + SkillsValidationReport" where
  "validateImportedSkills e host wsDir imps =
     (let entries = loadWorkspaceSkillEntries host wsDir;
          report = buildWorkspaceSkillStatus host wsDir
      in case validateAll e host entries report imps of
           Inl fault \<Rightarrow> Inl fault
         | Inr validations \<Rightarrow>
             let tot = length validations;
                 nLoaded = length (filter loaded validations);
                 nReady = length (filter ready validations);
                 nRewrite = length (filter rewriteRecommended validations);
                 isOk = (tot > 0 \<and> nReady = tot);
                 parts = [''Validated '' @ showNat tot @ '' imported skill(s)''] @
                         (if nReady \<noteq> tot then [showNat nReady @ ''/'' @ showNat tot @ '' ready'']
                          else []) @
                         (if nRewrite > 0 then [showNat nRewrite @ '' need rewrite/patch-up'']
                          else [])
             in Inr \<lparr>ok = isOk, message = joinWith ''; '' parts,
                      summary = \<lparr>total = tot, loadedCount = nLoaded, readyCount = nReady,
                                  rewriteCount = nRewrite\<rparr>,
                      skills = validations\<rparr>)"

section \<open>Auto-install in the gateway (server-methods/skills.ts, skills.import)\<close>

record ImportParams =
  pSource :: string
  pTarget :: "SkillsImportTarget option"
  pRef :: "string option"
  pSubdir :: "string option"
  pOverwrite :: "bool option"
  pAutoInstall :: "bool option"
  pTimeoutMs :: "rat option"

record InstallResult = Result +
  installStdout :: string
  installStderr :: string
  installCode :: "int option"

record AutoInstallResult =
  aiName :: string  \<comment> \<open>the field \<open>name\<close>\<close>
  aiInstallId :: string  \<comment> \<open>the field \<open>installId\<close>\<close>
  aiResult :: InstallResult  \<comment> \<open>the spread \<open>...installResult\<close>\<close>

datatype Call =
    ImportCall SkillsImportRequest
  | ValidateCall string "SkillsImportEntry list"
  | InstallCall string string
  | BumpCall

datatype ErrorCode = INVALID_REQUEST | UNAVAILABLE

record Response =
  respOk :: bool
  respResult :: "SkillsImportResult option"
  respValidation :: "SkillsValidationReport option"
  respAutoInstall :: "(nat \<times> AutoInstallResult list) option"
  respError :: "(ErrorCode \<times> string) option"

text \<open>
  The handler runs against its collaborators, which act on the state \<open>'w\<close> of the host
  (disk, configuration, installed programs): the parameter check of the protocol layer
  (\<open>Inl\<close> the formatted errors), the default agent's workspace directory
  (\<open>resolveAgentWorkspaceDir(cfg, resolveDefaultAgentId(cfg))\<close>), \<open>importSkills\<close>,
  \<open>validateImportedSkills\<close>, \<open>installSkill\<close> and \<open>bumpSkillsSnapshotVersion\<close>. The
  handler's result is its response, the state it leaves and the calls it made to its
  collaborators, in order.
\<close>

record ('w, 'r) Gateway =
  validateSkillsImportParams :: "'r \<Rightarrow> string + ImportParams"
  workspaceDirRaw :: string
  gwImportSkills :: "SkillsImportRequest \<Rightarrow> 'w \<Rightarrow> SkillsImportResult \<times> 'w"
  gwValidateImportedSkills :: "string \<Rightarrow> SkillsImportEntry list \<Rightarrow> 'w \<Rightarrow> SkillsValidationReport \<times> 'w"
  gwInstallSkill :: "string \<Rightarrow> string \<Rightarrow> rat option \<Rightarrow> 'w \<Rightarrow> InstallResult \<times> 'w"
  bumpSkillsSnapshotVersion :: "'w \<Rightarrow> 'w"

type_synonym 'w AutoInstallState = "AutoInstallResult list \<times> 'w \<times> Call list"

definition autoInstallStep ::
  "('w, 'r) Gateway \<Rightarrow> ImportParams \<Rightarrow> SkillValidationEntry \<Rightarrow> 'w AutoInstallState \<Rightarrow> 'w AutoInstallState" where
  \<comment> \<open>the body of \<open>for (const entry of validation.skills)\<close>\<close>
  "autoInstallStep gw p entry st =
     (case st of (results, w, calls) \<Rightarrow>
      case status entry of
        None \<Rightarrow> st
      | Some stat \<Rightarrow>
          if eligible stat then st
          else if length (install stat) = 0 then st
          else if length (os (missing stat)) > 0 then st
          else
            let missingBins = (length (bins (missing stat)) > 0 \<or> length (anyBins (missing stat)) > 0) in
              if \<not> missingBins then st
              else
                case install stat of
                  [] \<Rightarrow> st
                | first # others \<Rightarrow>
                    if installId first = [] then st
                    else
                      case gwInstallSkill gw (statusName stat) (installId first) (pTimeoutMs p) w of
                        (installResult, w') \<Rightarrow>
                          (results @ [\<lparr>aiName = statusName stat, aiInstallId = installId first,
                                        aiResult = installResult\<rparr>],
                           w',
                           calls @ [InstallCall (statusName stat) (installId first)]))"

fun autoInstallLoop ::
  "('w, 'r) Gateway \<Rightarrow> ImportParams \<Rightarrow> SkillValidationEntry list \<Rightarrow> 'w AutoInstallState \<Rightarrow> 'w AutoInstallState" where
  "autoInstallLoop gw p [] st = st"
| "autoInstallLoop gw p (entry # rest) st = autoInstallLoop gw p rest (autoInstallStep gw p entry st)"

definition skillsImportHandler ::
  "('w, 'r) Gateway \<Rightarrow> 'r \<Rightarrow> 'w \<Rightarrow> Response \<times> 'w \<times> Call list" where
  \<comment> \<open>\<open>skillsHandlers["skills.import"]\<close>\<close>
  "skillsImportHandler gw params w0 =
     (case validateSkillsImportParams gw params of
        Inl errors \<Rightarrow>
          (\<lparr>respOk = False, respResult = None, respValidation = None, respAutoInstall = None,
            respError = Some (INVALID_REQUEST, ''invalid skills.import params: '' @ errors)\<rparr>,
           w0, [])
      | Inr p \<Rightarrow>
          let request = \<lparr>source = pSource p,
                         target = (case pTarget p of Some t \<Rightarrow> t | None \<Rightarrow> Workspace),
                         workspaceDir = Some (workspaceDirRaw gw), managedSkillsDir = None,
                         ref = pRef p, subdir = pSubdir p, overwrite = pOverwrite p,
                         timeoutMs = pTimeoutMs p\<rparr>;
              (result, w1) = gwImportSkills gw request w0;
              calls1 = [ImportCall request];
              (validation, w2, calls2) =
                (if ok result
                 then (case gwValidateImportedSkills gw (workspaceDirRaw gw) (imported result) w1 of
                         (v, w') \<Rightarrow>
                           (Some v, w', calls1 @ [ValidateCall (workspaceDirRaw gw) (imported result)]))
                 else (None, w1, calls1));
              (autoInstallResults, validation', w3, calls3) =
                (case validation of
                   Some v \<Rightarrow>
                     if ok result \<and> pAutoInstall p = Some True
                     then
                       (case autoInstallLoop gw p (skills v) ([], w2, calls2) of
                          (results, wa, callsa) \<Rightarrow>
                            (case gwValidateImportedSkills gw (workspaceDirRaw gw) (imported result) wa of
                               (v', wb) \<Rightarrow>
                                 (results, Some v', wb,
                                  callsa @ [ValidateCall (workspaceDirRaw gw) (imported result)])))
                     else ([], validation, w2, calls2)
                 | None \<Rightarrow> ([], validation, w2, calls2));
              (w4, calls4) = (if ok result then (bumpSkillsSnapshotVersion gw w3, calls3 @ [BumpCall])
                              else (w3, calls3))
          in (\<lparr>respOk = ok result, respResult = Some result, respValidation = validation',
               respAutoInstall = (if length autoInstallResults > 0
                                  then Some (length autoInstallResults, autoInstallResults)
                                  else None),
               respError = (if ok result then None else Some (UNAVAILABLE, message result))\<rparr>,
              w4, calls4))"

section \<open>Discovery (skills-discover.ts)\<close>

datatype SkillsDiscoverMode = Auto | SkillPool | GitHub | OtherMode string

record SkillsDiscoverRequest =
  prompt :: string
  limit :: "rat option"  \<comment> \<open>\<open>None\<close>: absent or not a finite number\<close>
  mode :: "SkillsDiscoverMode option"
  githubToken :: "string option"
  discoverTimeoutMs :: "rat option"  \<comment> \<open>the field \<open>timeoutMs\<close>\<close>

datatype Provider = ProviderSkillPool | ProviderGitHub

record SkillsDiscoverCandidate =
  candSource :: string  \<comment> \<open>the field \<open>source\<close>\<close>
  score :: rat
  provider :: Provider
  candReason :: string  \<comment> \<open>the field \<open>reason\<close>\<close>
  candSkillName :: "string option"
  candDescription :: "string option"
  repoFullName :: "string option"
  repoStars :: "rat option"
  repoDefaultBranch :: "string option"
  candSubdir :: "string option"

record SkillsDiscoverResult = Result +
  candidates :: "SkillsDiscoverCandidate list"
  discoverWarnings :: "string list"  \<comment> \<open>the field \<open>warnings\<close>\<close>

record SkillPoolEntry =
  poolName :: "string option"
  poolDescription :: "string option"
  poolUrl :: "string option"
  poolKeywords :: "string list option"

record GitHubRepo =
  full_name :: "string option"
  clone_url :: "string option"
  default_branch :: "string option"
  stargazers_count :: "rat option"

datatype NetCall = HttpGet string | GitCommand "string list"

text \<open>
  The network side of discovery: \<open>fetch\<close> on the index and on the repository search (the
  JSON read as the type the code casts it to: the \<open>skills\<close> and \<open>items\<close> members when
  they are arrays; \<open>Inl\<close> the error text of \<open>fetchJsonWithTimeout\<close>), the encoding of
  \<open>URLSearchParams\<close>, and the two environment variables. A call of \<open>discoverSkills\<close>
  also returns the requests it made, in order.
\<close>

record Net =
  fetchIndexJson :: "string \<Rightarrow> int \<Rightarrow> string + SkillPoolEntry list option"
  fetchSearchJson :: "string \<Rightarrow> string option \<Rightarrow> int \<Rightarrow> string + GitHubRepo list option"
  urlSearchParams :: "(string \<times> string) list \<Rightarrow> string"
  GITHUB_TOKEN :: "string option"
  GH_TOKEN :: "string option"

definition SKILL_POOL_INDEX_URL :: string where
  "SKILL_POOL_INDEX_URL =
     ''https://raw.githubusercontent.com/AlataChan/skill-pool/main/awesome_claude_skills_index.json''"

definition DEFAULT_TIMEOUT_MS :: int where
  "DEFAULT_TIMEOUT_MS = 20000"

definition rankSkillPoolIndex ::
  "string \<Rightarrow> SkillPoolEntry list option \<Rightarrow> nat \<Rightarrow> rat \<Rightarrow> SkillsDiscoverCandidate list" where
  "rankSkillPoolIndex prmpt index lmt threshold =
     (let entries = (case index of Some es \<Rightarrow> es | None \<Rightarrow> []);
          scoreEntry = (\<lambda>entry.
            let url = (case poolUrl entry of Some u \<Rightarrow> trim u | None \<Rightarrow> []) in
            if url = [] then []
            else
              let nm = map_option trim (poolName entry);
                  description = map_option trim (poolDescription entry);
                  keywords = map_option (\<lambda>ks. filter (\<lambda>k. k \<noteq> []) (map trim ks)) (poolKeywords entry);
                  sc = scoreSkillMatch prmpt nm description keywords
              in if sc < threshold then []
                 else [\<lparr>candSource = url, score = sc, provider = ProviderSkillPool,
                         candReason = ''Matched AlataChan/skill-pool index'',
                         candSkillName = nm, candDescription = description,
                         repoFullName = None, repoStars = None, repoDefaultBranch = None,
                         candSubdir = None\<rparr>]);
          scored = concat (map scoreEntry entries);
          sorted = sort_key (\<lambda>c. - score c) scored
      in take (max 1 lmt) sorted)"

definition buildGitHubRepoSearchQuery :: "string \<Rightarrow> string" where
  "buildGitHubRepoSearchQuery prmpt =
     trim (joinWith '' '' (pickQueryTokens prmpt 6 @ [''SKILL.md'', ''in:readme'']))"

definition buildTreeUrl :: "string \<Rightarrow> string \<Rightarrow> string option \<Rightarrow> string" where
  "buildTreeUrl fullName branch sub =
     (let base = ''https://github.com/'' @ fullName @ ''/tree/'' @ branch;
          sd = (case sub of Some d \<Rightarrow> dropWhile (\<lambda>c. c = CHR ''/'') (trim d) | None \<Rightarrow> [])
      in if sd = [] then base else base @ ''/'' @ sd)"

fun pickBest ::
  "Env \<Rightarrow> string \<Rightarrow> rat \<Rightarrow> string \<Rightarrow> string \<Rightarrow> rat option \<Rightarrow> node \<Rightarrow> relpath list \<Rightarrow>
     SkillsDiscoverCandidate option \<Rightarrow> SkillsDiscoverCandidate option" where
  \<comment> \<open>the loop \<open>for (const dir of skillDirs)\<close> over the clone whose tree is \<open>repo\<close>\<close>
  "pickBest e prmpt threshold fullName branch stars repo [] best = best"
| "pickBest e prmpt threshold fullName branch stars repo (dir # dirs) best =
     (case readFile repo (dir @ [''SKILL.md'']) of
        None \<Rightarrow> pickBest e prmpt threshold fullName branch stars repo dirs best
      | Some content \<Rightarrow>
          let fm = parseFrontmatter e content;
              nm = (case fm of
                      None \<Rightarrow> None
                    | Some f \<Rightarrow> (case f ''name'' of
                                   Some v \<Rightarrow> if trim v \<noteq> [] then Some (trim v) else None
                                 | None \<Rightarrow> None));
              description = (case fm of
                      None \<Rightarrow> None
                    | Some f \<Rightarrow> (case f ''description'' of
                                   Some v \<Rightarrow> if trim v \<noteq> [] then Some (trim v) else None
                                 | None \<Rightarrow> None));
              rel = joinWith ''/'' dir;
              sub = (if rel = ''.'' then None else Some rel);
              sc = scoreSkillMatch prmpt nm description None
          in if sc < threshold
             then pickBest e prmpt threshold fullName branch stars repo dirs best
             else
               let candidate = \<lparr>candSource = buildTreeUrl fullName branch sub, score = sc,
                                  provider = ProviderGitHub,
                                  candReason = ''Matched GitHub repo search (sorted by stars)'',
                                  candSkillName = nm, candDescription = description,
                                  repoFullName = Some fullName, repoStars = stars,
                                  repoDefaultBranch = Some branch, candSubdir = sub\<rparr>
               in pickBest e prmpt threshold fullName branch stars repo dirs
                    (case best of
                       None \<Rightarrow> Some candidate
                     | Some b \<Rightarrow> if score candidate > score b then Some candidate else Some b))"

type_synonym DiscoverState = "string list \<times> filesystem \<times> NetCall list"

definition exploreRepo ::
  "Env \<Rightarrow> string \<Rightarrow> int \<Rightarrow> rat \<Rightarrow> string \<Rightarrow> string \<Rightarrow> string \<Rightarrow> rat option \<Rightarrow> string \<Rightarrow>
     DiscoverState \<Rightarrow> SkillsDiscoverCandidate option \<times> DiscoverState" where
  \<comment> \<open>the \<open>try\<close> and \<open>catch\<close> blocks for one repository, cloned below \<open>tmpDir\<close>: the
      candidate returned, if any, and the warnings, file system and requests after it\<close>
  "exploreRepo e prmpt timeout threshold fullName cloneUrl branch stars tmpDir st =
     (case st of (ws, fs, reqs) \<Rightarrow>
      let repoDir = pathJoin tmpDir ''repo'';
          argv1 = [''git'', ''clone'', ''--depth'', ''1'', ''--branch'', branch, cloneUrl, repoDir];
          argv2 = [''git'', ''clone'', ''--depth'', ''1'', cloneUrl, repoDir];
          failed = (\<lambda>err. ''GitHub discovery failed for '' @ fullName @ '': '' @ err);
          scan = (\<lambda>fs' reqs'.
            let skillDirs = collectSkillDirsDiscovery fs' repoDir in
              if length skillDirs = 0 then (None, ws, fs', reqs')
              else
                case fs' repoDir of
                  None \<Rightarrow> (None, ws, fs', reqs')
                | Some repo \<Rightarrow>
                    (pickBest e prmpt threshold fullName branch stars repo skillDirs None,
                     ws, fs', reqs'))
      in
        case runCommandWithTimeout e argv1 timeout None fs of
          (Inl err, fs1) \<Rightarrow> (None, ws @ [failed err], fs1, reqs @ [GitCommand argv1])
        | (Inr clone, fs1) \<Rightarrow>
            if exitCode clone \<noteq> Some 0
            then
              (case runCommandWithTimeout e argv2 timeout None fs1 of
                 (Inl err, fs2) \<Rightarrow>
                   (None, ws @ [failed err], fs2, reqs @ [GitCommand argv1, GitCommand argv2])
               | (Inr fallback, fs2) \<Rightarrow>
                   if exitCode fallback \<noteq> Some 0
                   then (None,
                         ws @ [''git clone failed for '' @ fullName @ '': '' @
                               orElse (trim (stderr fallback)) (orElse (trim (stdout fallback))
                                 (''exit '' @ (case exitCode fallback of
                                                 Some c \<Rightarrow> showInt c | None \<Rightarrow> ''null'')))],
                         fs2, reqs @ [GitCommand argv1, GitCommand argv2])
                   else scan fs2 (reqs @ [GitCommand argv1, GitCommand argv2]))
            else scan fs1 (reqs @ [GitCommand argv1]))"

fun exploreRepos ::
  "Env \<Rightarrow> string \<Rightarrow> int \<Rightarrow> rat \<Rightarrow> GitHubRepo list \<Rightarrow> DiscoverState \<Rightarrow>
     Fault + (SkillsDiscoverCandidate list \<times> DiscoverState)" where
  \<comment> \<open>the loop \<open>for (const repo of repos)\<close>\<close>
  "exploreRepos e prmpt timeout threshold [] st = Inr ([], st)"
| "exploreRepos e prmpt timeout threshold (repo # repos) st =
     (let fullName = (case full_name repo of Some n \<Rightarrow> trim n | None \<Rightarrow> []);
          cloneUrl = (case clone_url repo of Some u \<Rightarrow> trim u | None \<Rightarrow> []);
          branch = (case default_branch repo of Some b \<Rightarrow> trim b | None \<Rightarrow> ''main'')
      in
        if fullName = [] \<or> cloneUrl = [] then exploreRepos e prmpt timeout threshold repos st
        else
          case mkdtemp e (pathJoin (tmpdir e) ''openclaw-skill-discover-'') of
            None \<Rightarrow> Inl MkdtempFailed
          | Some tmpDir \<Rightarrow>
              (case st of (ws, fs, reqs) \<Rightarrow>
               case exploreRepo e prmpt timeout threshold fullName cloneUrl branch
                      (stargazers_count repo) tmpDir (ws, fs(tmpDir \<mapsto> Dir []), reqs) of
                 (best, ws', fs', reqs') \<Rightarrow>
                   if \<not> rmOk e tmpDir then Inl RmFailed
                   else
                     (case best of
                        Some b \<Rightarrow> Inr ([b], ws', rmTree tmpDir fs', reqs')
                      | None \<Rightarrow>
                          exploreRepos e prmpt timeout threshold repos
                            (ws', rmTree tmpDir fs', reqs'))))"

definition discoverFromGitHub ::
  "Env \<Rightarrow> Net \<Rightarrow> string \<Rightarrow> nat \<Rightarrow> string option \<Rightarrow> int \<Rightarrow> rat \<Rightarrow> filesystem \<Rightarrow> NetCall list \<Rightarrow>
     Fault + (SkillsDiscoverCandidate list \<times> DiscoverState)" where
  "discoverFromGitHub e net prmpt lmt token timeout threshold fs reqs =
     (let query = buildGitHubRepoSearchQuery prmpt;
          url = ''https://api.github.com/search/repositories?'' @
                urlSearchParams net [(''q'', query), (''sort'', ''stars''), (''order'', ''desc''),
                                     (''per_page'', showNat (max 1 (min 10 lmt)))];
          bearer = (case token of
                      Some t \<Rightarrow> if trim t \<noteq> [] then Some (trim t) else None
                    | None \<Rightarrow> None);
          reqs1 = reqs @ [HttpGet url]
      in
        case fetchSearchJson net url bearer (max 1000 timeout) of
          Inl err \<Rightarrow> Inr ([], [''GitHub repo search failed: '' @ err], fs, reqs1)
        | Inr items \<Rightarrow>
            let repos = (case items of Some rs \<Rightarrow> rs | None \<Rightarrow> []) in
              if length repos = 0 then Inr ([], [], fs, reqs1)
              else exploreRepos e prmpt timeout threshold repos ([], fs, reqs1))"

definition firstTruthy :: "string option \<Rightarrow> string option \<Rightarrow> string option" where
  \<comment> \<open>\<open>a || b\<close> on optional strings\<close>
  "firstTruthy a b = (if truthy a then a else b)"

definition discoverSkills ::
  "Env \<Rightarrow> Net \<Rightarrow> SkillsDiscoverRequest \<Rightarrow> filesystem \<Rightarrow>
     (Fault + SkillsDiscoverResult) \<times> filesystem \<times> NetCall list" where
  \<comment> \<open>one call, run alone: the result or the exception that escapes, the file system left
      behind, and the requests made\<close>
  "discoverSkills e net params fs =
     (let prmpt = trim (prompt params) in
      if prmpt = []
      then (Inr \<lparr>ok = False, message = ''prompt is required'', candidates = [],
                 discoverWarnings = []\<rparr>, fs, [])
      else
        let lmt = (case limit params of
                     Some l \<Rightarrow> nat (max 1 (min 10 (floor l)))
                   | None \<Rightarrow> 5);
            md = (case mode params of Some m \<Rightarrow> m | None \<Rightarrow> Auto);
            timeout = (case discoverTimeoutMs params of
                         Some t \<Rightarrow> max 1000 (floor t)
                       | None \<Rightarrow> DEFAULT_TIMEOUT_MS);
            thresholdSkillPool = 25 / 100;
            thresholdGitHub = 35 / 100;
            usePool = (md = Auto \<or> md = SkillPool);
            idx = fetchIndexJson net SKILL_POOL_INDEX_URL (max 1000 timeout);
            ranked = (case idx of
                        Inr index \<Rightarrow> rankSkillPoolIndex prmpt index lmt thresholdSkillPool
                      | Inl err \<Rightarrow> []);
            ws0 = (if usePool
                   then (case idx of
                           Inl err \<Rightarrow> [''skill-pool index fetch failed: '' @ err]
                         | Inr index \<Rightarrow> [])
                   else []);
            reqs0 = (if usePool then [HttpGet SKILL_POOL_INDEX_URL] else [])
        in
          if usePool \<and> length ranked > 0
          then (Inr \<lparr>ok = True,
                     message = ''Found '' @ showNat (length ranked) @ '' candidate(s) via skill-pool'',
                     candidates = ranked, discoverWarnings = ws0\<rparr>, fs, reqs0)
          else if md = SkillPool
          then (Inr \<lparr>ok = False, message = ''No candidates found via skill-pool'',
                     candidates = [], discoverWarnings = ws0\<rparr>, fs, reqs0)
          else if md = Auto \<or> md = GitHub
          then
            let token = firstTruthy (map_option trim (githubToken params))
                          (firstTruthy (GITHUB_TOKEN net) (GH_TOKEN net))
            in
              case discoverFromGitHub e net prmpt lmt token timeout thresholdGitHub fs reqs0 of
                Inl fault \<Rightarrow> (Inl fault, fs, reqs0)
              | Inr (found, ghWarnings, fs', reqs') \<Rightarrow>
                  if length found > 0
                  then (Inr \<lparr>ok = True,
                             message = ''Found '' @ showNat (length found) @ '' candidate(s) via GitHub'',
                             candidates = found, discoverWarnings = ws0 @ ghWarnings\<rparr>, fs', reqs')
                  else (Inr \<lparr>ok = False, message = ''No candidates found via GitHub'',
                             candidates = [], discoverWarnings = ws0 @ ghWarnings\<rparr>, fs', reqs')
          else (Inr \<lparr>ok = False,
                     message = ''Unknown mode: '' @ (case md of OtherMode m \<Rightarrow> m | _ \<Rightarrow> []),
                     candidates = [], discoverWarnings = ws0\<rparr>, fs, reqs0))"

section \<open>Notions used by the properties\<close>

text \<open>
  A well-formed tree lists each name once in every directory, as \<open>readdir\<close> does.
\<close>

fun wfNode :: "node \<Rightarrow> bool" and wfEntries :: "(string \<times> node) list \<Rightarrow> bool" where
  "wfNode (Dir es) = (distinct (map fst es) \<and> wfEntries es)"
| "wfNode (File c) = True"
| "wfNode NoReadFile = True"
| "wfNode NoReadDir = True"
| "wfNode Other = True"
| "wfEntries [] = True"
| "wfEntries ((n, e) # es) = (wfNode e \<and> wfEntries es)"
| "wfNode Link = True"

definition strictDescendant :: "relpath \<Rightarrow> relpath \<Rightarrow> bool" where
  \<comment> \<open>the directory \<open>d\<close> lies strictly below the directory \<open>a\<close>\<close>
  "strictDescendant d a = (length a < length d \<and> take (length a) d = a)"

text \<open>
  The guards of the auto-install loop (the \<open>continue\<close> statements of its body) as one
  predicate on a validation entry, and the installer call the body makes for an entry.
\<close>

definition autoInstallCondition :: "SkillValidationEntry \<Rightarrow> bool" where
  "autoInstallCondition entry =
     (case status entry of
        None \<Rightarrow> False
      | Some stat \<Rightarrow>
          \<not> eligible stat \<and> install stat \<noteq> [] \<and> os (missing stat) = [] \<and>
          (bins (missing stat) \<noteq> [] \<or> anyBins (missing stat) \<noteq> []) \<and>
          (case install stat of [] \<Rightarrow> False | first # others \<Rightarrow> installId first \<noteq> []))"

definition installCalls :: "SkillValidationEntry \<Rightarrow> Call list" where
  "installCalls entry =
     (if autoInstallCondition entry
      then (case status entry of
              None \<Rightarrow> []
            | Some stat \<Rightarrow>
                (case install stat of
                   [] \<Rightarrow> []
                 | first # others \<Rightarrow> [InstallCall (statusName stat) (installId first)]))
      else [])"

text \<open>
  The condition as the specification words it: not eligible, at least one declared
  installer, no missing OS-level requirement, and missing only binaries (nothing missing
  in env or config).
\<close>

definition specAutoInstallCondition :: "SkillValidationEntry \<Rightarrow> bool" where
  "specAutoInstallCondition entry =
     (case status entry of
        None \<Rightarrow> False
      | Some stat \<Rightarrow>
          \<not> eligible stat \<and> install stat \<noteq> [] \<and> os (missing stat) = [] \<and>
          (bins (missing stat) \<noteq> [] \<or> anyBins (missing stat) \<noteq> []) \<and>
          env (missing stat) = [] \<and> config (missing stat) = [])"

text \<open>
  What every result of \<open>importSkills\<close> satisfies: \<open>ok\<close> says that something was
  imported, and the message is not empty.
\<close>

definition wellFormedResult :: "SkillsImportResult \<Rightarrow> bool" where
  "wellFormedResult r = ((ok r \<longleftrightarrow> imported r \<noteq> []) \<and> message r \<noteq> [])"

section \<open>A concrete host\<close>

text \<open>
  One instance of every parameter, for the concrete runs below: a frontmatter reader that
  knows a single \<open>name: ...\<close> line, a \<open>git\<close> that finds no repository, a workspace
  \<open>/w\<close> with two loaded skills (\<open>notes\<close>, eligible; \<open>pdf-tools\<close>, which misses the
  binary \<open>qpdf\<close> and the variable \<open>PDF_API_KEY\<close> and declares one installer).
\<close>

definition exampleParseFrontmatter :: "string \<Rightarrow> (string \<rightharpoonup> string) option" where
  "exampleParseFrontmatter content =
     (if take 6 content = ''name: '' then Some [''name'' \<mapsto> drop 6 content] else Some Map.empty)"

definition exampleEnv :: Env where
  "exampleEnv =
     \<lparr>resolveUserPath = (\<lambda>p. p), CONFIG_DIR = ''/home/u/.openclaw'', tmpdir = ''/tmp'',
      parseURL = (\<lambda>s. None),
      parseFrontmatter = exampleParseFrontmatter,
      runCommandWithTimeout =
        (\<lambda>argv timeout cwd fs.
           (Inr \<lparr>stdout = [], stderr = ''fatal: repository not found'', exitCode = Some 128\<rparr>, fs)),
      mkdtemp = (\<lambda>prefix. Some (prefix @ ''Ab12Cd'')),
      ensureDirOk = (\<lambda>d. True), rmOk = (\<lambda>d. True),
      errorText = (\<lambda>p. ''Error: EACCES: permission denied, open '' @ p)\<rparr>"

definition exampleNet :: Net where
  "exampleNet =
     \<lparr>fetchIndexJson = (\<lambda>url timeout. Inl ''TypeError: fetch failed''),
      fetchSearchJson = (\<lambda>url token timeout. Inl ''TypeError: fetch failed''),
      urlSearchParams = (\<lambda>kvs. joinWith ''&'' (map (\<lambda>(k, v). k @ ''='' @ v) kvs)),
      GITHUB_TOKEN = None, GH_TOKEN = None\<rparr>"

definition notesStatus :: SkillStatusEntry where
  "notesStatus =
     \<lparr>statusName = ''notes'', statusFilePath = ''/w/skills/notes/SKILL.md'', eligible = True,
      missing = \<lparr>bins = [], anyBins = [], env = [], config = [], os = []\<rparr>, install = []\<rparr>"

definition pdfStatus :: SkillStatusEntry where
  "pdfStatus =
     \<lparr>statusName = ''pdf-tools'', statusFilePath = ''/w/skills/pdf-tools/SKILL.md'',
      eligible = False,
      missing = \<lparr>bins = [''qpdf''], anyBins = [], env = [''PDF_API_KEY''], config = [], os = []\<rparr>,
      install = [\<lparr>installId = ''brew'', installLabel = ''Install qpdf (brew)''\<rparr>]\<rparr>"

definition exampleHost :: Host where
  "exampleHost =
     \<lparr>normalizePath = (\<lambda>p. p),
      loadWorkspaceSkillEntries =
        (\<lambda>w. [\<lparr>skill = \<lparr>skillName = ''notes'', skillDescription = ''Take notes'',
                          filePath = ''/w/skills/notes/SKILL.md'',
                          skillSource = ''openclaw-workspace''\<rparr>\<rparr>,
               \<lparr>skill = \<lparr>skillName = ''pdf-tools'', skillDescription = ''Merge PDF files'',
                          filePath = ''/w/skills/pdf-tools/SKILL.md'',
                          skillSource = ''openclaw-workspace''\<rparr>\<rparr>]),
      buildWorkspaceSkillStatus = (\<lambda>w. [notesStatus, pdfStatus]),
      loadSkillsFromDir = (\<lambda>d. PiOther),
      readFileText =
        (\<lambda>p. if p = ''/w/skills/notes/SKILL.md'' then Some ''name: notes''
              else if p = ''/w/skills/pdf-tools/SKILL.md'' then Some ''name: pdf-tools''
              else None),
      JSON5parse = (\<lambda>s. Inl ''JSON5: invalid character''),
      MANIFEST_KEY = ''openclaw'',
      LEGACY_MANIFEST_KEYS = [''clawdbot'', ''moltbot'']\<rparr>"

definition notesImport :: SkillsImportEntry where
  "notesImport =
     \<lparr>name = Some ''notes'', sourceDir = ''/src/notes'', destDir = ''/w/skills/notes'',
      skillPath = ''/w/skills/notes/SKILL.md''\<rparr>"

definition pdfImport :: SkillsImportEntry where
  "pdfImport =
     \<lparr>name = Some ''pdf-tools'', sourceDir = ''/src/pdf-tools'', destDir = ''/w/skills/pdf-tools'',
      skillPath = ''/w/skills/pdf-tools/SKILL.md''\<rparr>"

definition pdfValidation :: SkillValidationEntry where
  "pdfValidation =
     \<lparr>vDestDir = ''/w/skills/pdf-tools'', vSkillPath = ''/w/skills/pdf-tools/SKILL.md'',
      importedName = Some ''pdf-tools'', vDeclaredName = Some ''pdf-tools'',
      loadedName = Some ''pdf-tools'', vDescription = None, loaded = True, diagnostics = [],
      metadata = \<lparr>present = False, parseOk = True, manifestFound = False, metadataError = None\<rparr>,
      status = Some pdfStatus, ready = False, rewriteRecommended = False, rewriteReasons = []\<rparr>"

definition exampleParams :: ImportParams where
  "exampleParams =
     \<lparr>pSource = ''/src/pdf-tools'', pTarget = None, pRef = None, pSubdir = None,
      pOverwrite = None, pAutoInstall = Some True, pTimeoutMs = None\<rparr>"

definition exampleRequest :: SkillsImportRequest where
  "exampleRequest =
     \<lparr>source = ''/src/pdf-tools'', target = Workspace, workspaceDir = Some ''/w'',
      managedSkillsDir = None, ref = None, subdir = None, overwrite = None, timeoutMs = None\<rparr>"

definition exampleImportResult :: SkillsImportResult where
  "exampleImportResult =
     \<lparr>ok = True, message = ''Imported 1 skill(s) into /w/skills'', targetDir = ''/w/skills'',
      imported = [pdfImport], skipped = [], warnings = []\<rparr>"

definition exampleReport :: SkillsValidationReport where
  "exampleReport =
     \<lparr>ok = False, message = ''Validated 1 imported skill(s); 0/1 ready'',
      summary = \<lparr>total = 1, loadedCount = 1, readyCount = 0, rewriteCount = 0\<rparr>,
      skills = [pdfValidation]\<rparr>"

definition exampleGateway :: "(nat, ImportParams) Gateway" where
  \<comment> \<open>the state of the host counts the installers run\<close>
  "exampleGateway =
     \<lparr>validateSkillsImportParams = (\<lambda>raw. Inr raw),
      workspaceDirRaw = ''/w'',
      gwImportSkills = (\<lambda>request w. (exampleImportResult, w)),
      gwValidateImportedSkills = (\<lambda>wsDir imps w. (exampleReport, w)),
      gwInstallSkill =
        (\<lambda>skillNm instId timeout w.
           (\<lparr>ok = True, message = ''Installed'', installStdout = [], installStderr = [],
             installCode = Some 0\<rparr>, Suc w)),
      bumpSkillsSnapshotVersion = (\<lambda>w. w)\<rparr>"

definition nestedTree :: node where
  \<comment> \<open>a skill directory with a second skill directory inside it\<close>
  "nestedTree =
     Dir [(''SKILL.md'', File ''name: outer''),
          (''sub'', Dir [(''SKILL.md'', File ''name: inner'')])]"

definition nestedFs :: filesystem where
  "nestedFs = (\<lambda>p. if p = ''/repo'' then Some nestedTree else None)"

definition vendorTree :: node where
  \<comment> \<open>one skill below \<open>skills/\<close>, one manifest inside \<open>node_modules/\<close>\<close>
  "vendorTree =
     Dir [(''node_modules'', Dir [(''pkg'', Dir [(''SKILL.md'', File ''name: vendored'')])]),
          (''skills'', Dir [(''pdf'', Dir [(''SKILL.md'', File ''name: pdf-tools'')])])]"

definition vendorFs :: filesystem where
  "vendorFs = (\<lambda>p. if p = ''/repo'' then Some vendorTree else None)"

definition clashTree :: node where
  \<comment> \<open>three skills whose declared names are \<open>a-3\<close>, \<open>a\<close> and \<open>a\<close>\<close>
  "clashTree =
     Dir [(''x1'', Dir [(''SKILL.md'', File ''name: a-3'')]),
          (''x2'', Dir [(''SKILL.md'', File ''name: a'')]),
          (''x3'', Dir [(''SKILL.md'', File ''name: a'')])]"

definition clashFs :: filesystem where
  "clashFs = (\<lambda>p. if p = ''/src/repo'' then Some clashTree else None)"

definition clashRequest :: SkillsImportRequest where
  "clashRequest =
     \<lparr>source = ''/src/repo'', target = Workspace, workspaceDir = Some ''/w'',
      managedSkillsDir = None, ref = None, subdir = None, overwrite = Some True,
      timeoutMs = None\<rparr>"

definition notesReport :: SkillsValidationReport where
  "notesReport =
     \<lparr>ok = True, message = ''Validated 1 imported skill(s)'',
      summary = \<lparr>total = 1, loadedCount = 1, readyCount = 1, rewriteCount = 0\<rparr>,
      skills =
        [\<lparr>vDestDir = ''/w/skills/notes'', vSkillPath = ''/w/skills/notes/SKILL.md'',
          importedName = Some ''notes'', vDeclaredName = Some ''notes'',
          loadedName = Some ''notes'', vDescription = None, loaded = True, diagnostics = [],
          metadata = \<lparr>present = False, parseOk = True, manifestFound = False,
                       metadataError = None\<rparr>,
          status = Some notesStatus, ready = True, rewriteRecommended = False,
          rewriteReasons = []\<rparr>]\<rparr>"

definition blankRequest :: SkillsDiscoverRequest where
  "blankRequest =
     \<lparr>prompt = ''   '', limit = None, mode = None, githubToken = None,
      discoverTimeoutMs = None\<rparr>"

text \<open>
  Local sources for the import: a directory \<open>/src/pdf-tools\<close> with one skill at its
  root, a directory \<open>/src/docs\<close> without any manifest; nothing exists at
  \<open>/src/none\<close>, and \<open>git\<close> cannot clone \<open>https://example.com/skills.git\<close>.
\<close>

definition pdfTree :: node where
  \<comment> \<open>one skill at the root of the directory, beside a script and installed packages\<close>
  "pdfTree =
     Dir [(''SKILL.md'', File ''name: pdf-tools''),
          (''merge.sh'', File ''qpdf --empty --pages a.pdf b.pdf -- out.pdf''),
          (''node_modules'', Dir [(''left-pad'', Dir [(''index.js'', File ''module.exports = 0'')])])]"

definition pdfCopy :: node where
  \<comment> \<open>what the copy of \<open>pdfTree\<close> holds\<close>
  "pdfCopy =
     Dir [(''SKILL.md'', File ''name: pdf-tools''),
          (''merge.sh'', File ''qpdf --empty --pages a.pdf b.pdf -- out.pdf'')]"

definition staleCopy :: node where
  "staleCopy = Dir [(''SKILL.md'', File ''name: pdf-tools''), (''old.txt'', File ''stale'')]"

definition docsTree :: node where
  "docsTree = Dir [(''README.md'', File ''How to write a skill'')]"

definition localFs :: filesystem where
  "localFs =
     (\<lambda>p. if p = ''/src/pdf-tools'' then Some pdfTree
          else if p = ''/src/docs'' then Some docsTree
          else None)"

definition gitRequest :: SkillsImportRequest where
  "gitRequest =
     \<lparr>source = ''https://example.com/skills.git'', target = Workspace, workspaceDir = Some ''/w'',
      managedSkillsDir = None, ref = None, subdir = None, overwrite = None, timeoutMs = None\<rparr>"

definition docsRequest :: SkillsImportRequest where
  "docsRequest =
     \<lparr>source = ''/src/docs'', target = Workspace, workspaceDir = Some ''/w'',
      managedSkillsDir = None, ref = None, subdir = None, overwrite = None, timeoutMs = None\<rparr>"

definition missingRequest :: SkillsImportRequest where
  "missingRequest =
     \<lparr>source = ''/src/none'', target = Workspace, workspaceDir = Some ''/w'',
      managedSkillsDir = None, ref = None, subdir = None, overwrite = None, timeoutMs = None\<rparr>"

definition distFs :: filesystem where
  \<comment> \<open>the skill of \<open>pdfCopy\<close> in a directory named \<open>dist\<close>\<close>
  "distFs = (\<lambda>p. if p = ''/src/dist'' then Some pdfCopy else None)"

definition distRequest :: SkillsImportRequest where
  "distRequest =
     \<lparr>source = ''/src/dist'', target = Workspace, workspaceDir = Some ''/w'',
      managedSkillsDir = None, ref = None, subdir = None, overwrite = None, timeoutMs = None\<rparr>"

definition distImportResult :: SkillsImportResult where
  "distImportResult =
     \<lparr>ok = True, message = ''Imported 1 skill(s) into /w/skills'', targetDir = ''/w/skills'',
      imported = [\<lparr>name = Some ''pdf-tools'', sourceDir = ''/src/dist'',
                   destDir = ''/w/skills/pdf-tools'',
                   skillPath = ''/w/skills/pdf-tools/SKILL.md''\<rparr>],
      skipped = [], warnings = []\<rparr>"

section \<open>Properties of the scoring function\<close>

lemma set_foldl_setAdd: "set (foldl setAdd acc xs) = set acc \<union> set xs"
  by (induction xs arbitrary: acc) (auto simp: setAdd_def)

lemma set_newSet: "set (newSet xs) = set xs"
  by (simp add: newSet_def set_foldl_setAdd)

lemma distinct_foldl_setAdd: "distinct acc \<Longrightarrow> distinct (foldl setAdd acc xs)"
  by (induction xs arbitrary: acc) (auto simp: setAdd_def)

lemma distinct_newSet: "distinct (newSet xs)"
  by (simp add: newSet_def distinct_foldl_setAdd)

lemma overlap_Nil: "overlap [] b = 0"
  by (simp add: overlap_def)

lemma overlap_disjoint: "set a \<inter> set b = {} \<Longrightarrow> overlap a b = 0"
  by (auto simp: overlap_def filter_empty_conv)

lemma overlap_pos: "t \<in> set a \<Longrightarrow> t \<in> set b \<Longrightarrow> 0 < overlap a b"
  by (auto simp: overlap_def filter_empty_conv)

lemma normalizedScore_nonneg: "0 \<le> normalizedScore p n d k"
  by (simp add: normalizedScore_def Let_def)

lemma normalizedScore_le_1: "normalizedScore p n d k \<le> 1"
  by (simp add: normalizedScore_def Let_def)

lemma normalizedScore_no_query: "queryTokens p = [] \<Longrightarrow> normalizedScore p n d k = 0"
  by (simp add: normalizedScore_def Let_def overlap_Nil)

lemma includesStr_iff: "includesStr s n \<longleftrightarrow> (\<exists>pre post. s = pre @ n @ post)"
proof (induction s)
  case Nil
  then show ?case by auto
next
  case (Cons c cs)
  show ?case
  proof
    assume "includesStr (c # cs) n"
    then consider "take (length n) (c # cs) = n" | "includesStr cs n" by auto
    then show "\<exists>pre post. c # cs = pre @ n @ post"
    proof cases
      case 1
      then have "c # cs = [] @ n @ drop (length n) (c # cs)"
        by (metis append_Nil append_take_drop_id)
      then show ?thesis by blast
    next
      case 2
      then obtain pre post where "cs = pre @ n @ post" using Cons.IH by blast
      then have "c # cs = (c # pre) @ n @ post" by simp
      then show ?thesis by blast
    qed
  next
    assume "\<exists>pre post. c # cs = pre @ n @ post"
    then obtain pre post where eq: "c # cs = pre @ n @ post" by blast
    show "includesStr (c # cs) n"
    proof (cases pre)
      case Nil
      with eq have "take (length n) (c # cs) = n" by simp
      then show ?thesis by simp
    next
      case (Cons a pre')
      with eq have "cs = pre' @ n @ post" by simp
      then have "includesStr cs n" using Cons.IH by blast
      then show ?thesis by simp
    qed
  qed
qed

lemma scoreSkillMatch_range: "0 \<le> scoreSkillMatch p n d k \<and> scoreSkillMatch p n d k \<le> 1"
  using normalizedScore_nonneg [of p n d k] normalizedScore_le_1 [of p n d k]
  by (simp add: scoreSkillMatch_def Let_def)

lemma scoreSkillMatch_unfold:
  "scoreSkillMatch p n d k =
     (if nameNorm n \<noteq> [] \<and> (queryString p = nameNorm n \<or> includesStr (queryString p) (nameNorm n))
      then min 1 (normalizedScore p n d k + 15 / 100)
      else normalizedScore p n d k)"
proof (cases "queryTokens p = []")
  case True
  then have q: "queryString p = []" by (simp add: queryString_def)
  have "scoreSkillMatch p n d k = 0" using True by (simp add: scoreSkillMatch_def)
  moreover have "normalizedScore p n d k = 0" using True by (rule normalizedScore_no_query)
  moreover have "\<not> (nameNorm n \<noteq> [] \<and> (queryString p = nameNorm n \<or> includesStr (queryString p) (nameNorm n)))"
    using q by auto
  ultimately show ?thesis by simp
next
  case False
  then show ?thesis by (simp add: scoreSkillMatch_def Let_def)
qed

lemma last_dropWhile: "dropWhile P xs \<noteq> [] \<Longrightarrow> last (dropWhile P xs) = last xs"
  by (metis append_self_conv2 last_appendR takeWhile_dropWhile_id)

lemma trim_idem: "trim (trim s) = trim s"
proof -
  define a where "a = dropWhile isWhiteSpace s"
  define b where "b = dropWhile isWhiteSpace (rev a)"
  have t: "trim s = rev b" by (simp add: trim_def a_def b_def)
  have c1: "dropWhile isWhiteSpace (rev b) = rev b"
  proof (cases "b = []")
    case True
    then show ?thesis by simp
  next
    case False
    then have "rev a \<noteq> []" unfolding b_def by auto
    then have an: "a \<noteq> []" by simp
    have "last b = last (rev a)" using False unfolding b_def by (rule last_dropWhile)
    also have "\<dots> = hd a" using an by (simp add: last_rev)
    finally have "last b = hd a" .
    moreover have "\<not> isWhiteSpace (hd a)" using an unfolding a_def by (rule hd_dropWhile)
    ultimately have "\<not> isWhiteSpace (hd (rev b))" using False by (simp add: hd_rev)
    then show ?thesis by (cases "rev b") auto
  qed
  have c2: "dropWhile isWhiteSpace b = b" unfolding b_def by simp
  have "trim (rev b) = rev (dropWhile isWhiteSpace (rev (dropWhile isWhiteSpace (rev b))))"
    by (simp add: trim_def)
  also have "\<dots> = rev b" by (simp add: c1 c2)
  finally show ?thesis by (simp add: t)
qed

lemma matchRuns_map_cong:
  assumes "\<And>c. p (g c) = p (h c)" and "\<And>c. p (h c) \<Longrightarrow> g c = h c"
  shows "matchRuns p cur (map g s) = matchRuns p cur (map h s)"
  using assms by (induction s arbitrary: cur) auto

lemma tokenize_replace_hyphen:
  "tokenize (replaceAllChar (CHR ''-'') (CHR '' '') s) = tokenize s"
proof -
  let ?f = "\<lambda>c. if c = CHR ''-'' then CHR '' '' else c"
  have sp: "toLowerChar (CHR '' '') = CHR '' ''" by (simp add: toLowerChar_def Let_def code_def)
  have hy: "toLowerChar (CHR ''-'') = CHR ''-''" by (simp add: toLowerChar_def Let_def code_def)
  have nsp: "\<not> isLetterOrNumber (CHR '' '')" by (simp add: isLetterOrNumber_def Let_def code_def)
  have nhy: "\<not> isLetterOrNumber (CHR ''-'')" by (simp add: isLetterOrNumber_def Let_def code_def)
  have "matchRuns isLetterOrNumber [] (map (toLowerChar \<circ> ?f) s) =
        matchRuns isLetterOrNumber [] (map toLowerChar s)"
    by (rule matchRuns_map_cong) (auto simp: sp hy nsp nhy)
  then show ?thesis
    by (simp add: tokenize_def toLowerCase_def replaceAllChar_def comp_def)
qed

lemma tokenize_trim_fixed: "t \<in> set (tokenize s) \<Longrightarrow> trim t = t"
  by (auto simp: tokenize_def trim_idem)

lemma pickQueryTokens_subset: "set (pickQueryTokens p m) \<subseteq> set (tokenize p)"
proof
  fix t assume "t \<in> set (pickQueryTokens p m)"
  then have "t \<in> set (take (max 1 m) (sort_key (\<lambda>t. - int (length t))
      (newSet (filter (\<lambda>t. if isMostlyAscii (tokenize p) then t \<notin> set ENGLISH_STOPWORDS else True)
                       (filter (\<lambda>t. t \<noteq> []) (map trim (tokenize p)))))))"
    by (simp add: pickQueryTokens_def Let_def)
  then have "t \<in> set (sort_key (\<lambda>t. - int (length t))
      (newSet (filter (\<lambda>t. if isMostlyAscii (tokenize p) then t \<notin> set ENGLISH_STOPWORDS else True)
                       (filter (\<lambda>t. t \<noteq> []) (map trim (tokenize p))))))"
    by (rule in_set_takeD)
  then have "t \<in> trim ` set (tokenize p)"
    by (auto simp: set_newSet)
  then show "t \<in> set (tokenize p)" by (auto simp: tokenize_trim_fixed)
qed

lemma queryTokens_subset: "set (queryTokens p) \<subseteq> set (tokenize p)"
  using pickQueryTokens_subset [of p 24] by (simp add: queryTokens_def set_newSet)

lemma normalizedScore_unrelated:
  assumes "set (queryTokens p) \<inter> set (tokenize (replaceAllChar (CHR ''-'') (CHR '' '') (case n of None \<Rightarrow> [] | Some x \<Rightarrow> x))) = {}"
    and "set (queryTokens p) \<inter> set (tokenize (case d of None \<Rightarrow> [] | Some x \<Rightarrow> x)) = {}"
    and "set (queryTokens p) \<inter> set (concat (map tokenize (case k of None \<Rightarrow> [] | Some x \<Rightarrow> x))) = {}"
  shows "normalizedScore p n d k = 0"
proof -
  have "overlap (queryTokens p) (newSet (tokenize (replaceAllChar (CHR ''-'') (CHR '' '') (case n of None \<Rightarrow> [] | Some x \<Rightarrow> x)))) = 0"
    using assms(1) by (intro overlap_disjoint) (simp add: set_newSet)
  moreover have "overlap (queryTokens p) (newSet (tokenize (case d of None \<Rightarrow> [] | Some x \<Rightarrow> x))) = 0"
    using assms(2) by (intro overlap_disjoint) (simp add: set_newSet)
  moreover have "overlap (queryTokens p) (newSet (concat (map tokenize (case k of None \<Rightarrow> [] | Some x \<Rightarrow> x)))) = 0"
    using assms(3) by (intro overlap_disjoint) (simp only: set_newSet)
  ultimately show ?thesis by (simp add: normalizedScore_def Let_def)
qed

lemma score_pos_aux:
  "0 < a \<Longrightarrow> 0 \<le> b \<Longrightarrow> 0 \<le> c \<Longrightarrow> 0 < min ((a * 1 + b * (7 / 10) + c * (5 / 10)) / (22 / 10)) (1::rat)"
  by (simp add: add_pos_nonneg)

lemma normalizedScore_exact_pos:
  assumes "queryTokens p \<noteq> []"
  shows "0 < normalizedScore p (Some p) d k"
proof -
  obtain t where t: "t \<in> set (queryTokens p)" using assms by (cases "queryTokens p") auto
  then have "t \<in> set (tokenize p)" using queryTokens_subset by blast
  then have tn: "t \<in> set (newSet (tokenize (replaceAllChar (CHR ''-'') (CHR '' '') p)))"
    by (simp add: set_newSet tokenize_replace_hyphen)
  have "0 < overlap (queryTokens p) (newSet (tokenize (replaceAllChar (CHR ''-'') (CHR '' '') p)))"
    using t tn by (rule overlap_pos)
  then have r1: "0 < (of_nat (overlap (queryTokens p)
                       (newSet (tokenize (replaceAllChar (CHR ''-'') (CHR '' '') p)))) :: rat) /
                     of_nat (max 1 (length (newSet (tokenize (replaceAllChar (CHR ''-'') (CHR '' '') p)))))"
    by simp
  show ?thesis
    unfolding normalizedScore_def Let_def option.case
    by (rule score_pos_aux) (use r1 in simp_all)
qed

lemma scoreSkillMatch_exact_pos:
  assumes "queryTokens p \<noteq> []"
  shows "0 < scoreSkillMatch p (Some p) d k"
  using normalizedScore_exact_pos [OF assms, of d k] assms
  by (simp add: scoreSkillMatch_def Let_def)

text \<open>
  C5. As stated the claim fails: the bonus does not depend on the query being a substring
  of the name, and a name that normalises to the empty string never earns it. What the
  code does: \<open>scoreSkillMatch\<close> returns \<open>min(1, normalized + 0.15)\<close> exactly when the
  normalised candidate name (lower-cased, hyphens replaced by spaces, trimmed) is not
  empty and equals the query string (the query tokens joined by single spaces) or occurs
  in it as a substring; in every other case, also when the query has no token left, it
  returns the normalised weighted score unchanged.
\<close>

theorem scoreSkillMatch_bonus:
  "scoreSkillMatch p n d k =
     (if nameNorm n \<noteq> [] \<and> (queryString p = nameNorm n \<or> includesStr (queryString p) (nameNorm n))
      then min 1 (normalizedScore p n d k + 15 / 100)
      else normalizedScore p n d k)"
  by (rule scoreSkillMatch_unfold)

text \<open>
  An instance with the bonus: the name \<open>PDF\<close> normalises to \<open>pdf\<close>, which occurs in the
  query string \<open>tools pdf\<close>.
\<close>

theorem scoreSkillMatch_bonus_witness:
  "scoreSkillMatch ''tools pdf'' (Some ''PDF'') None None = 133 / 220
   \<and> normalizedScore ''tools pdf'' (Some ''PDF'') None None = 5 / 11
   \<and> nameNorm (Some ''PDF'') = ''pdf''
   \<and> queryString ''tools pdf'' = ''tools pdf''"
  using scoreSkillMatch_bonus [of "''tools pdf''" "Some ''PDF''" None None]
  by code_simp

text \<open>
  C5, the claim as stated fails. For the prompt \<open>pdf\<close> and the name \<open>pdf-tools\<close> the
  query \<open>pdf\<close> is a substring of the normalised name \<open>pdf tools\<close>, and no bonus is
  added: the score is the normalised score 5/22. For the prompt \<open>pdf tools\<close> and the
  name \<open>-\<close>, the name lower-cased with hyphens replaced by spaces is one space, which
  occurs in the query string \<open>tools pdf\<close>, and no bonus is added either: the score is 0.
\<close>

theorem scoreSkillMatch_bonus_counterexample:
  "queryString ''pdf'' = ''pdf''
   \<and> replaceAllChar (CHR ''-'') (CHR '' '') (toLowerCase ''pdf-tools'') = ''pdf tools''
   \<and> includesStr ''pdf tools'' ''pdf''
   \<and> normalizedScore ''pdf'' (Some ''pdf-tools'') None None = 5 / 22
   \<and> scoreSkillMatch ''pdf'' (Some ''pdf-tools'') None None = 5 / 22
   \<and> queryString ''pdf tools'' = ''tools pdf''
   \<and> replaceAllChar (CHR ''-'') (CHR '' '') (toLowerCase ''-'') = '' ''
   \<and> includesStr ''tools pdf'' '' ''
   \<and> normalizedScore ''pdf tools'' (Some ''-'') None None = 0
   \<and> scoreSkillMatch ''pdf tools'' (Some ''-'') None None = 0"
  by code_simp

text \<open>
  C2. As stated the claim fails for a prompt that has no query token. What the code does:
  for every prompt that keeps at least one query token (a token left after the stop-word
  filter), a candidate whose name is the prompt scores strictly higher than an unrelated
  candidate, one that shares no query token in its name, description or keywords and
  whose normalised name is empty or does not occur in the query string (such a candidate
  scores 0); and for every input the score lies in the closed interval [0,1].
\<close>

theorem scoreSkillMatch_exact_beats_unrelated:
  assumes "queryTokens prmpt \<noteq> []"
    and "set (queryTokens prmpt) \<inter> set (tokenize (replaceAllChar (CHR ''-'') (CHR '' '') uname)) = {}"
    and "set (queryTokens prmpt) \<inter> set (tokenize udesc) = {}"
    and "set (queryTokens prmpt) \<inter> set (concat (map tokenize ukeys)) = {}"
    and "nameNorm (Some uname) = [] \<or> \<not> includesStr (queryString prmpt) (nameNorm (Some uname))"
  shows "scoreSkillMatch prmpt (Some uname) (Some udesc) (Some ukeys)
           < scoreSkillMatch prmpt (Some prmpt) d k
         \<and> 0 \<le> scoreSkillMatch p' n' d' k' \<and> scoreSkillMatch p' n' d' k' \<le> 1"
proof -
  have "normalizedScore prmpt (Some uname) (Some udesc) (Some ukeys) = 0"
    by (rule normalizedScore_unrelated) (use assms in simp_all)
  moreover have "\<not> (nameNorm (Some uname) \<noteq> [] \<and>
       (queryString prmpt = nameNorm (Some uname) \<or>
        includesStr (queryString prmpt) (nameNorm (Some uname))))"
    using assms(5) includesStr_iff [of "queryString prmpt" "queryString prmpt"]
    by (metis append_Nil append_Nil2)
  ultimately have "scoreSkillMatch prmpt (Some uname) (Some udesc) (Some ukeys) = 0"
    using scoreSkillMatch_unfold [of prmpt "Some uname" "Some udesc" "Some ukeys"] by simp
  then show ?thesis
    using scoreSkillMatch_exact_pos [OF assms(1), of d k] scoreSkillMatch_range [of p' n' d' k']
    by simp
qed

text \<open>
  The instance of the repository's own test: the prompt about invoices against the
  candidate \<open>git-pushing\<close>.
\<close>

theorem scoreSkillMatch_exact_beats_unrelated_witness:
  "queryTokens ''organize my invoices and receipts'' \<noteq> []
   \<and> set (queryTokens ''organize my invoices and receipts'') \<inter>
       set (tokenize (replaceAllChar (CHR ''-'') (CHR '' '') ''git-pushing'')) = {}
   \<and> set (queryTokens ''organize my invoices and receipts'') \<inter>
       set (tokenize ''Helps you push git branches safely'') = {}
   \<and> set (queryTokens ''organize my invoices and receipts'') \<inter>
       set (concat (map tokenize [''git'', ''push''])) = {}
   \<and> \<not> includesStr (queryString ''organize my invoices and receipts'') (nameNorm (Some ''git-pushing''))
   \<and> scoreSkillMatch ''organize my invoices and receipts'' (Some ''git-pushing'')
        (Some ''Helps you push git branches safely'') (Some [''git'', ''push''])
      < scoreSkillMatch ''organize my invoices and receipts''
        (Some ''organize my invoices and receipts'') None None
   \<and> 0 \<le> scoreSkillMatch ''organize my invoices and receipts'' (Some ''invoice-organizer'')
        (Some ''Automatically organize invoices and receipts'') (Some [''invoice'', ''receipt'', ''organize''])
   \<and> scoreSkillMatch ''organize my invoices and receipts'' (Some ''invoice-organizer'')
        (Some ''Automatically organize invoices and receipts'') (Some [''invoice'', ''receipt'', ''organize'']) \<le> 1"
proof -
  have q: "queryTokens ''organize my invoices and receipts'' = [''organize'', ''invoices'', ''receipts'', ''my'']"
    by code_simp
  have h1: "queryTokens ''organize my invoices and receipts'' \<noteq> []" by (simp add: q)
  have h2: "set (queryTokens ''organize my invoices and receipts'') \<inter>
       set (tokenize (replaceAllChar (CHR ''-'') (CHR '' '') ''git-pushing'')) = {}"
    by code_simp
  have h3: "set (queryTokens ''organize my invoices and receipts'') \<inter>
       set (tokenize ''Helps you push git branches safely'') = {}"
    by code_simp
  have h4: "set (queryTokens ''organize my invoices and receipts'') \<inter>
       set (concat (map tokenize [''git'', ''push''])) = {}"
    by code_simp
  have h5: "\<not> includesStr (queryString ''organize my invoices and receipts'') (nameNorm (Some ''git-pushing''))"
    by code_simp
  from h5 have h5': "nameNorm (Some ''git-pushing'') = [] \<or>
      \<not> includesStr (queryString ''organize my invoices and receipts'') (nameNorm (Some ''git-pushing''))"
    by simp
  show ?thesis
    using scoreSkillMatch_exact_beats_unrelated [OF h1 h2 h3 h4 h5', of None None
        "''organize my invoices and receipts''" "Some ''invoice-organizer''"
        "Some ''Automatically organize invoices and receipts''"
        "Some [''invoice'', ''receipt'', ''organize'']"] h1 h2 h3 h4 h5
    by simp
qed

text \<open>
  C2, the claim as stated fails. The prompt \<open>help\<close> is a stop word, so it has no query
  token and every candidate scores 0: the candidate named \<open>help\<close> does not score
  strictly higher than \<open>git-pushing\<close>.
\<close>

theorem scoreSkillMatch_exact_name_counterexample:
  "\<not> scoreSkillMatch ''help'' (Some ''git-pushing'') (Some ''Helps you push git branches safely'')
        (Some [''git'', ''push''])
     < scoreSkillMatch ''help'' (Some ''help'') None None"
  by code_simp

text \<open>
  The condition on the name of the unrelated candidate is needed. The prompt
  \<open>please help with pdf\<close> has the query string \<open>pdf\<close>; the candidate named \<open>pd\<close>
  shares no token with it, but its name occurs in the query string, so it receives the
  bonus alone and scores more than the candidate named like the prompt.
\<close>

lemma scoreSkillMatch_substring_name_example:
  "scoreSkillMatch ''please help with pdf'' (Some ''please help with pdf'') None None = 5 / 44
   \<and> scoreSkillMatch ''please help with pdf'' (Some ''pd'') None None = 15 / 100
   \<and> queryString ''please help with pdf'' = ''pdf''
   \<and> includesStr (queryString ''please help with pdf'') (nameNorm (Some ''pd''))"
  by code_simp

section \<open>Properties of the scan\<close>

lemma walk_components:
  "rel \<in> set (walk ign dir depth n) \<Longrightarrow> \<exists>suf. rel = dir @ suf \<and> set suf \<inter> set ign = {}"
  "rel \<in> set (walkEntries ign dir depth es) \<Longrightarrow> \<exists>suf. rel = dir @ suf \<and> set suf \<inter> set ign = {}"
proof (induction ign dir depth n and ign dir depth es rule: walk_walkEntries.induct)
  case (1 ignored dir depth entries)
  then show ?case by (auto split: if_splits)
next
  case (7 ignored dir depth name e es)
  from "7.prems" consider
      (a) "isDirectory e" "name \<notin> set ignored" "rel \<in> set (walk ignored (dir @ [name]) (depth + 1) e)"
    | (b) "rel \<in> set (walkEntries ignored dir depth es)"
    by (auto split: if_splits)
  then show ?case
  proof cases
    case a
    then obtain suf where "rel = (dir @ [name]) @ suf" "set suf \<inter> set ignored = {}"
      using "7.IH"(1) by blast
    then have "rel = dir @ (name # suf) \<and> set (name # suf) \<inter> set ignored = {}"
      using a(2) by auto
    then show ?thesis by blast
  next
    case b
    then show ?thesis using "7.IH"(2) by blast
  qed
qed auto

lemma set_collectSkillDirsIn:
  "set (collectSkillDirsIn ign fs rd) =
     (case fs rd of None \<Rightarrow> {} | Some tr \<Rightarrow> set (walk ign [] 0 tr))"
  by (simp add: collectSkillDirsIn_def toSortedPaths_def set_newSet split: option.splits)

lemma lookup_Some_Dir_isDirectory:
  "lookup e suf = Some (Dir es') \<Longrightarrow> isDirectory e"
  by (cases e; cases suf) auto

lemma lookup_leaf: "(\<And>es. n \<noteq> Dir es) \<Longrightarrow> lookup n suf \<noteq> Some (Dir es')"
  by (cases n; cases suf) auto

lemma walk_iff:
  "wfNode n \<Longrightarrow>
     (rel \<in> set (walk ign dir depth n) \<longleftrightarrow>
        (\<exists>suf es'. rel = dir @ suf \<and> depth + length suf \<le> 12 \<and> set suf \<inter> set ign = {} \<and>
                   lookup n suf = Some (Dir es') \<and> hasManifest es'))"
  "wfEntries es \<Longrightarrow> distinct (map fst es) \<Longrightarrow>
     (rel \<in> set (walkEntries ign dir depth es) \<longleftrightarrow>
        (\<exists>x suf es'. rel = dir @ x # suf \<and> depth + 1 + length suf \<le> 12 \<and>
                     set (x # suf) \<inter> set ign = {} \<and>
                     lookup (Dir es) (x # suf) = Some (Dir es') \<and> hasManifest es'))"
proof (induction ign dir depth n and ign dir depth es arbitrary: rel and rel rule: walk_walkEntries.induct)
  case (1 ignored dir depth entries)
  have wf: "wfEntries entries" "distinct (map fst entries)" using "1.prems" by auto
  show ?case
  proof (cases "depth > 12")
    case True
    then show ?thesis by auto
  next
    case False
    note IH = "1.IH" [OF False wf, of rel]
    show ?thesis
    proof
      assume "rel \<in> set (walk ignored dir depth (Dir entries))"
      then consider (here) "hasManifest entries" "rel = dir"
        | (below) "rel \<in> set (walkEntries ignored dir depth entries)"
        using False by (auto split: if_splits)
      then show "\<exists>suf es'. rel = dir @ suf \<and> depth + length suf \<le> 12 \<and> set suf \<inter> set ignored = {} \<and>
                   lookup (Dir entries) suf = Some (Dir es') \<and> hasManifest es'"
      proof cases
        case here
        then have "rel = dir @ [] \<and> depth + length ([]::string list) \<le> 12 \<and> set [] \<inter> set ignored = {} \<and>
                   lookup (Dir entries) [] = Some (Dir entries) \<and> hasManifest entries"
          using False by simp
        then show ?thesis by blast
      next
        case below
        then obtain x suf es' where "rel = dir @ x # suf" "depth + 1 + length suf \<le> 12"
          "set (x # suf) \<inter> set ignored = {}" "lookup (Dir entries) (x # suf) = Some (Dir es')"
          "hasManifest es'"
          using IH by blast
        then have "rel = dir @ (x # suf) \<and> depth + length (x # suf) \<le> 12 \<and>
                   set (x # suf) \<inter> set ignored = {} \<and>
                   lookup (Dir entries) (x # suf) = Some (Dir es') \<and> hasManifest es'"
          by simp
        then show ?thesis by blast
      qed
    next
      assume "\<exists>suf es'. rel = dir @ suf \<and> depth + length suf \<le> 12 \<and> set suf \<inter> set ignored = {} \<and>
                   lookup (Dir entries) suf = Some (Dir es') \<and> hasManifest es'"
      then obtain suf es' where h: "rel = dir @ suf" "depth + length suf \<le> 12"
          "set suf \<inter> set ignored = {}" "lookup (Dir entries) suf = Some (Dir es')" "hasManifest es'"
        by blast
      show "rel \<in> set (walk ignored dir depth (Dir entries))"
      proof (cases suf)
        case Nil
        then show ?thesis using h False by simp
      next
        case (Cons x suf')
        then have "rel \<in> set (walkEntries ignored dir depth entries)"
          using IH h by auto
        then show ?thesis using False by simp
      qed
    qed
  qed
next
  case (2 ignored dir depth c)
  then show ?case using lookup_leaf [of "File c"] by simp
next
  case (3 ignored dir depth)
  then show ?case using lookup_leaf [of NoReadFile] by simp
next
  case (4 ignored dir depth)
  then show ?case using lookup_leaf [of NoReadDir] by simp
next
  case (5 ignored dir depth)
  then show ?case using lookup_leaf [of Other] by simp
next
  case (8 ignored dir depth)
  then show ?case using lookup_leaf [of Link] by simp
next
  case (6 ignored dir depth)
  then show ?case by simp
next
  case (7 ignored dir depth name e es)
  have wfe: "wfNode e" and wfes: "wfEntries es" and dist: "distinct (map fst es)"
    and fresh: "name \<notin> fst ` set es"
    using "7.prems" by auto
  note IHrest = "7.IH"(2) [OF wfes dist, of rel]
  show ?case
  proof
    assume "rel \<in> set (walkEntries ignored dir depth ((name, e) # es))"
    then consider
        (a) "isDirectory e" "name \<notin> set ignored" "rel \<in> set (walk ignored (dir @ [name]) (depth + 1) e)"
      | (b) "rel \<in> set (walkEntries ignored dir depth es)"
      by (auto split: if_splits)
    then show "\<exists>x suf es'. rel = dir @ x # suf \<and> depth + 1 + length suf \<le> 12 \<and>
                     set (x # suf) \<inter> set ignored = {} \<and>
                     lookup (Dir ((name, e) # es)) (x # suf) = Some (Dir es') \<and> hasManifest es'"
    proof cases
      case a
      have "\<not> \<not> isDirectory e" using a(1) by simp
      from "7.IH"(1) [OF this _ wfe, of rel] a
      obtain suf es' where "rel = (dir @ [name]) @ suf" "depth + 1 + length suf \<le> 12"
        "set suf \<inter> set ignored = {}" "lookup e suf = Some (Dir es')" "hasManifest es'"
        by auto
      then have "rel = dir @ name # suf \<and> depth + 1 + length suf \<le> 12 \<and>
                     set (name # suf) \<inter> set ignored = {} \<and>
                     lookup (Dir ((name, e) # es)) (name # suf) = Some (Dir es') \<and> hasManifest es'"
        using a(2) by simp
      then show ?thesis by blast
    next
      case b
      then obtain x suf es' where h: "rel = dir @ x # suf" "depth + 1 + length suf \<le> 12"
        "set (x # suf) \<inter> set ignored = {}" "lookup (Dir es) (x # suf) = Some (Dir es')" "hasManifest es'"
        using IHrest by blast
      from h(4) have "map_of es x \<noteq> None" by (auto split: option.splits)
      then have "x \<in> fst ` set es" by (simp add: map_of_eq_None_iff)
      then have "x \<noteq> name" using fresh by auto
      then have "lookup (Dir ((name, e) # es)) (x # suf) = Some (Dir es')" using h(4) by simp
      then show ?thesis using h by blast
    qed
  next
    assume "\<exists>x suf es'. rel = dir @ x # suf \<and> depth + 1 + length suf \<le> 12 \<and>
                     set (x # suf) \<inter> set ignored = {} \<and>
                     lookup (Dir ((name, e) # es)) (x # suf) = Some (Dir es') \<and> hasManifest es'"
    then obtain x suf es' where h: "rel = dir @ x # suf" "depth + 1 + length suf \<le> 12"
        "set (x # suf) \<inter> set ignored = {}"
        "lookup (Dir ((name, e) # es)) (x # suf) = Some (Dir es')" "hasManifest es'"
      by blast
    show "rel \<in> set (walkEntries ignored dir depth ((name, e) # es))"
    proof (cases "x = name")
      case True
      then have le: "lookup e suf = Some (Dir es')" using h(4) by simp
      then have isd: "isDirectory e" by (rule lookup_Some_Dir_isDirectory)
      have nign: "name \<notin> set ignored" using h(3) True by auto
      have "\<not> \<not> isDirectory e" using isd by simp
      from "7.IH"(1) [OF this nign wfe, of rel]
      have "rel \<in> set (walk ignored (dir @ [name]) (depth + 1) e)"
        using h True le by auto
      then show ?thesis using isd nign by simp
    next
      case False
      then have "lookup (Dir es) (x # suf) = Some (Dir es')" using h(4) by simp
      then have "rel \<in> set (walkEntries ignored dir depth es)" using IHrest h by blast
      then show ?thesis by simp
    qed
  qed
qed

text \<open>
  C8. No directory returned by the scan has, on its way down from the scanned root, a
  component whose name is on the ignore list (.git, node_modules, dist, build, out, .next,
  .turbo, .venv, venv, .idea, .vscode): a manifest directory inside such a directory is
  never returned, and neither is a directory of such a name. This holds for every file
  system and root, and for both copies of the scan.
\<close>

theorem collectSkillDirs_never_inside_ignored:
  "(rel \<in> set (collectSkillDirs fs rd) \<longrightarrow>
      set rel \<inter> {''.git'', ''node_modules'', ''dist'', ''build'', ''out'', ''.next'', ''.turbo'',
                 ''.venv'', ''venv'', ''.idea'', ''.vscode''} = {})
   \<and> (rel \<in> set (collectSkillDirsDiscovery fs rd) \<longrightarrow>
      set rel \<inter> {''.git'', ''node_modules'', ''dist'', ''build'', ''out'', ''.next'', ''.turbo'',
                 ''.venv'', ''venv'', ''.idea'', ''.vscode''} = {})"
proof -
  have ign: "set IMPORT_IGNORED_NAMES =
      {''.git'', ''node_modules'', ''dist'', ''build'', ''out'', ''.next'', ''.turbo'',
       ''.venv'', ''venv'', ''.idea'', ''.vscode''}"
    "set DISCOVERY_IGNORED_NAMES =
      {''.git'', ''node_modules'', ''dist'', ''build'', ''out'', ''.next'', ''.turbo'',
       ''.venv'', ''venv'', ''.idea'', ''.vscode''}"
    by (simp_all add: IMPORT_IGNORED_NAMES_def DISCOVERY_IGNORED_NAMES_def)
  have gen: "rel \<in> set (collectSkillDirsIn ign fs rd) \<Longrightarrow> set rel \<inter> set ign = {}" for ign
  proof -
    assume "rel \<in> set (collectSkillDirsIn ign fs rd)"
    then obtain tr where "rel \<in> set (walk ign [] 0 tr)"
      by (auto simp: set_collectSkillDirsIn split: option.splits)
    then show ?thesis using walk_components(1) [of rel ign "[]" 0 tr] by auto
  qed
  show ?thesis
    using gen [of IMPORT_IGNORED_NAMES] gen [of DISCOVERY_IGNORED_NAMES]
    unfolding collectSkillDirs_def collectSkillDirsDiscovery_def ign by blast
qed

text \<open>
  The repository \<open>vendorTree\<close>: the skill below \<open>skills/\<close> is returned, the manifest
  inside \<open>node_modules/\<close> is not.
\<close>

theorem collectSkillDirs_never_inside_ignored_witness:
  "[''skills'', ''pdf''] \<in> set (collectSkillDirs vendorFs ''/repo'')
   \<and> [''skills'', ''pdf''] \<in> set (collectSkillDirsDiscovery vendorFs ''/repo'')
   \<and> set [''skills'', ''pdf''] \<inter>
       {''.git'', ''node_modules'', ''dist'', ''build'', ''out'', ''.next'', ''.turbo'',
        ''.venv'', ''venv'', ''.idea'', ''.vscode''} = {}
   \<and> [''node_modules'', ''pkg''] \<notin> set (collectSkillDirs vendorFs ''/repo'')"
proof -
  have r1: "collectSkillDirs vendorFs ''/repo'' = [[''skills'', ''pdf'']]" by code_simp
  have r2: "collectSkillDirsDiscovery vendorFs ''/repo'' = [[''skills'', ''pdf'']]" by code_simp
  have m1: "[''skills'', ''pdf''] \<in> set (collectSkillDirs vendorFs ''/repo'')"
    and m2: "[''skills'', ''pdf''] \<in> set (collectSkillDirsDiscovery vendorFs ''/repo'')"
    and m3: "[''node_modules'', ''pkg''] \<notin> set (collectSkillDirs vendorFs ''/repo'')"
    by (simp_all add: r1 r2)
  have c: "set [''skills'', ''pdf''] \<inter>
       {''.git'', ''node_modules'', ''dist'', ''build'', ''out'', ''.next'', ''.turbo'',
        ''.venv'', ''venv'', ''.idea'', ''.vscode''} = {}"
    by (rule collectSkillDirs_never_inside_ignored
          [of "[''skills'', ''pdf'']" vendorFs "''/repo''", THEN conjunct1, THEN mp, OF m1])
  show ?thesis using m1 m2 m3 c by (intro conjI)
qed

text \<open>
  C6. As stated the claim fails: the scan does descend below a directory it has recorded.
  What the code does: a directory is returned exactly when it directly contains a file
  named SKILL.md and is reached from the root through at most 12 directory names, none
  of them on the ignore list; whether a directory above it holds a manifest plays no
  part, so the scan continues into the subdirectories of a recorded directory as it does
  into its siblings, and a returned directory may lie strictly below another one.
\<close>

theorem collectSkillDirs_characterisation:
  assumes "fs rd = Some tr" and "wfNode tr"
  shows "rel \<in> set (collectSkillDirs fs rd) \<longleftrightarrow>
           length rel \<le> 12 \<and> set rel \<inter> set IMPORT_IGNORED_NAMES = {} \<and>
           (\<exists>es. lookup tr rel = Some (Dir es) \<and> hasManifest es)"
proof -
  have "set (collectSkillDirs fs rd) = set (walk IMPORT_IGNORED_NAMES [] 0 tr)"
    using assms(1) by (simp add: collectSkillDirs_def set_collectSkillDirsIn)
  then show ?thesis
    using walk_iff(1) [OF assms(2), of rel IMPORT_IGNORED_NAMES "[]" 0] by simp
qed

text \<open>
  The nested repository: the inner directory \<open>sub\<close> is returned although the root above
  it holds a manifest too.
\<close>

theorem collectSkillDirs_characterisation_witness:
  "nestedFs ''/repo'' = Some nestedTree \<and> wfNode nestedTree
   \<and> [''sub''] \<in> set (collectSkillDirs nestedFs ''/repo'')
   \<and> lookup nestedTree [''sub''] = Some (Dir [(''SKILL.md'', File ''name: inner'')])
   \<and> hasManifest [(''SKILL.md'', File ''name: inner'')]"
proof -
  have h1: "nestedFs ''/repo'' = Some nestedTree" by (simp add: nestedFs_def)
  have h2: "wfNode nestedTree" by (simp add: nestedTree_def)
  have l: "lookup nestedTree [''sub''] = Some (Dir [(''SKILL.md'', File ''name: inner'')])"
    by (simp add: nestedTree_def)
  have m: "hasManifest [(''SKILL.md'', File ''name: inner'')]" by (simp add: hasManifest_def)
  have i: "set [''sub''] \<inter> set IMPORT_IGNORED_NAMES = {}"
    by (simp add: IMPORT_IGNORED_NAMES_def)
  have "[''sub''] \<in> set (collectSkillDirs nestedFs ''/repo'')"
    using collectSkillDirs_characterisation [of nestedFs "''/repo''" nestedTree "[''sub'']"]
      h1 h2 l m i
    by auto
  then show ?thesis using h1 h2 l m by simp
qed

text \<open>
  C6, the claim as stated fails. In the nested repository the scan returns the root and
  the directory \<open>sub\<close> inside it: a returned directory that lies strictly below another
  returned directory.
\<close>

theorem collectSkillDirs_nested_counterexample:
  "collectSkillDirs nestedFs ''/repo'' = [[], [''sub'']] \<and> strictDescendant [''sub''] []"
  by code_simp

section \<open>Properties of discovery\<close>

lemma trim_Nil_iff: "trim s = [] \<longleftrightarrow> (\<forall>c\<in>set s. isWhiteSpace c)"
proof -
  have "trim s = [] \<longleftrightarrow> dropWhile isWhiteSpace (rev (dropWhile isWhiteSpace s)) = []"
    by (simp add: trim_def)
  also have "\<dots> \<longleftrightarrow> (\<forall>c\<in>set (dropWhile isWhiteSpace s). isWhiteSpace c)"
    by (simp add: dropWhile_eq_Nil_conv)
  also have "\<dots> \<longleftrightarrow> dropWhile isWhiteSpace s = []"
  proof
    assume a: "\<forall>c\<in>set (dropWhile isWhiteSpace s). isWhiteSpace c"
    show "dropWhile isWhiteSpace s = []"
    proof (rule ccontr)
      assume n: "dropWhile isWhiteSpace s \<noteq> []"
      then have "\<not> isWhiteSpace (hd (dropWhile isWhiteSpace s))" by (rule hd_dropWhile)
      moreover have "hd (dropWhile isWhiteSpace s) \<in> set (dropWhile isWhiteSpace s)"
        using n by simp
      ultimately show False using a by blast
    qed
  next
    assume "dropWhile isWhiteSpace s = []"
    then show "\<forall>c\<in>set (dropWhile isWhiteSpace s). isWhiteSpace c"
      by (metis empty_iff empty_set)
  qed
  also have "\<dots> \<longleftrightarrow> (\<forall>c\<in>set s. isWhiteSpace c)"
    by (simp add: dropWhile_eq_Nil_conv)
  finally show ?thesis .
qed

text \<open>
  C10. For every discovery request whose prompt is empty or consists only of white space,
  \<open>discoverSkills\<close> returns \<open>{ ok: false, message: "prompt is required", candidates: [],
  warnings: [] }\<close>, makes no request (neither to the curated index nor to the code
  search, and no clone) and leaves the file system as it was.
\<close>

theorem discoverSkills_blank_prompt:
  assumes "\<forall>c\<in>set (prompt params). isWhiteSpace c"
  shows "discoverSkills e net params fs =
           (Inr \<lparr>ok = False, message = ''prompt is required'', candidates = [],
                 discoverWarnings = []\<rparr>, fs, [])"
proof -
  have "trim (prompt params) = []" using assms by (simp add: trim_Nil_iff)
  then show ?thesis by (simp add: discoverSkills_def)
qed

theorem discoverSkills_blank_prompt_witness:
  "prompt blankRequest = ''   '' \<and> list_all isWhiteSpace ''   ''
   \<and> discoverSkills exampleEnv exampleNet blankRequest nestedFs =
       (Inr \<lparr>ok = False, message = ''prompt is required'', candidates = [],
             discoverWarnings = []\<rparr>, nestedFs, [])"
proof -
  have h: "\<forall>c\<in>set (prompt blankRequest). isWhiteSpace c"
    by (simp add: blankRequest_def isWhiteSpace_def code_def)
  have p: "prompt blankRequest = ''   ''" by (simp add: blankRequest_def)
  have l: "list_all isWhiteSpace ''   ''" by (simp add: isWhiteSpace_def code_def)
  show ?thesis
    using discoverSkills_blank_prompt [OF h, of exampleEnv exampleNet nestedFs] p l
    by (intro conjI)
qed

section \<open>Properties of validation\<close>

lemma length_filter_eq_iff: "length (filter P xs) = length xs \<longleftrightarrow> (\<forall>x\<in>set xs. P x)"
proof (induction xs)
  case Nil
  then show ?case by simp
next
  case (Cons x xs)
  have le: "length (filter P xs) \<le> length xs" by simp
  show ?case
  proof (cases "P x")
    case True
    then show ?thesis using Cons by simp
  next
    case False
    have "length (filter P xs) \<noteq> Suc (length xs)" using le by linarith
    then show ?thesis using False by simp
  qed
qed

lemma validateOne_ready:
  "validateOne e host entries report imp = Inr v \<Longrightarrow>
     ready v = (loaded v \<and> (case status v of Some st \<Rightarrow> eligible st | None \<Rightarrow> False))"
  by (auto simp: validateOne_def Let_def split: option.splits)

lemma validateAll_ready:
  "validateAll e host entries report imps = Inr vs \<Longrightarrow>
     length vs = length imps \<and>
     (\<forall>v\<in>set vs. ready v = (loaded v \<and> (case status v of Some st \<Rightarrow> eligible st | None \<Rightarrow> False)))"
proof (induction imps arbitrary: vs)
  case Nil
  then show ?case by simp
next
  case (Cons imp imps)
  from Cons.prems obtain v vs' where v: "validateOne e host entries report imp = Inr v"
    and vs': "validateAll e host entries report imps = Inr vs'" and eq: "vs = v # vs'"
    by (auto split: sum.splits)
  show ?case using Cons.IH [OF vs'] validateOne_ready [OF v] eq by simp
qed

lemma validateOne_total:
  assumes "\<And>c. parseFrontmatter e c \<noteq> None"
  shows "\<exists>v. validateOne e host entries report imp = Inr v"
proof (cases "readFileText host (normalizePath host (skillPath imp))")
  case None
  then show ?thesis by (simp add: validateOne_def Let_def)
next
  case (Some content)
  obtain fm where "parseFrontmatter e content = Some fm" using assms [of content] by auto
  then show ?thesis using Some by (simp add: validateOne_def Let_def)
qed

lemma validateAll_total:
  assumes "\<And>c. parseFrontmatter e c \<noteq> None"
  shows "\<exists>vs. validateAll e host entries report imps = Inr vs"
proof (induction imps)
  case Nil
  then show ?case by simp
next
  case (Cons imp imps)
  obtain v where "validateOne e host entries report imp = Inr v"
    using validateOne_total [OF assms] by blast
  then show ?case using Cons by auto
qed

text \<open>
  C4. As stated the claim fails for an empty batch. What the code does: a report returned
  by \<open>validateImportedSkills\<close> has \<open>ok\<close> true if and only if the batch is not empty and
  every entry of the report is ready; the report has one entry per imported entry, and an
  entry is ready iff it was loaded by the host's skill loader and its status snapshot
  exists and reports eligible. The call returns a report whenever \<open>parseFrontmatter\<close> does
  not throw.
\<close>

theorem validateImportedSkills_ok:
  "(validateImportedSkills e host wsDir imps = Inr r \<longrightarrow>
      (ok r \<longleftrightarrow> imps \<noteq> [] \<and> (\<forall>v\<in>set (skills r). ready v)) \<and>
      length (skills r) = length imps \<and>
      (\<forall>v\<in>set (skills r).
         ready v \<longleftrightarrow> loaded v \<and> (\<exists>st. status v = Some st \<and> eligible st)))
   \<and> ((\<forall>c. parseFrontmatter e c \<noteq> None) \<longrightarrow>
        (\<exists>r'. validateImportedSkills e host wsDir imps = Inr r'))"
proof (intro conjI impI)
  assume a: "validateImportedSkills e host wsDir imps = Inr r"
  then obtain vs where vs: "validateAll e host (loadWorkspaceSkillEntries host wsDir)
        (buildWorkspaceSkillStatus host wsDir) imps = Inr vs"
    and sk: "skills r = vs" and okr: "ok r = (length vs > 0 \<and> length (filter ready vs) = length vs)"
    by (auto simp: validateImportedSkills_def Let_def split: sum.splits)
  note props = validateAll_ready [OF vs]
  have f1: "length (filter ready vs) = length vs \<longleftrightarrow> (\<forall>v\<in>set vs. ready v)"
    by (rule length_filter_eq_iff)
  have f2: "length vs > 0 \<longleftrightarrow> imps \<noteq> []" using props by auto
  show "ok r \<longleftrightarrow> imps \<noteq> [] \<and> (\<forall>v\<in>set (skills r). ready v)"
    by (simp only: okr sk f1 f2)
  show "length (skills r) = length imps" using sk props by simp
  show "\<forall>v\<in>set (skills r). ready v \<longleftrightarrow> loaded v \<and> (\<exists>st. status v = Some st \<and> eligible st)"
    using sk props by (auto split: option.splits)
next
  assume "\<forall>c. parseFrontmatter e c \<noteq> None"
  then obtain vs where "validateAll e host (loadWorkspaceSkillEntries host wsDir)
        (buildWorkspaceSkillStatus host wsDir) imps = Inr vs"
    using validateAll_total [of e host _ _ imps] by blast
  then show "\<exists>r'. validateImportedSkills e host wsDir imps = Inr r'"
    by (simp add: validateImportedSkills_def Let_def)
qed

theorem validateImportedSkills_ok_witness:
  "validateImportedSkills exampleEnv exampleHost ''/w'' [notesImport] = Inr notesReport
   \<and> ok notesReport \<and> [notesImport] \<noteq> []
   \<and> list_all ready (skills notesReport)
   \<and> (\<forall>c. parseFrontmatter exampleEnv c \<noteq> None)"
proof -
  have run: "validateImportedSkills exampleEnv exampleHost ''/w'' [notesImport] = Inr notesReport"
    by code_simp
  have total: "\<forall>c. parseFrontmatter exampleEnv c \<noteq> None"
    by (simp add: exampleEnv_def exampleParseFrontmatter_def)
  have rdy: "list_all ready (skills notesReport)" by (simp add: notesReport_def)
  have "ok notesReport \<longleftrightarrow> [notesImport] \<noteq> [] \<and> (\<forall>v\<in>set (skills notesReport). ready v)"
    using validateImportedSkills_ok [of exampleEnv exampleHost "''/w''" "[notesImport]" notesReport]
      run by blast
  then have "ok notesReport" using rdy by (simp add: list_all_iff)
  then show ?thesis using run total rdy by simp
qed

text \<open>
  C4, the claim as stated fails. On the empty batch the report has no entry, so every
  entry is ready, and \<open>ok\<close> is false (\<open>total > 0 && readyCount === total\<close>).
\<close>

theorem validateImportedSkills_empty_counterexample:
  "\<not> isl (validateImportedSkills exampleEnv exampleHost ''/w'' [])
   \<and> \<not> ok (projr (validateImportedSkills exampleEnv exampleHost ''/w'' []))
   \<and> list_all ready (skills (projr (validateImportedSkills exampleEnv exampleHost ''/w'' [])))"
  by code_simp

section \<open>Properties of the auto-install pass\<close>

lemma autoInstallStep_calls:
  "snd (snd (autoInstallStep gw p entry (results, w, calls))) = calls @ installCalls entry"
  by (auto simp: autoInstallStep_def installCalls_def autoInstallCondition_def Let_def
           split: option.splits list.splits prod.splits)

lemma autoInstallLoop_calls:
  "snd (snd (autoInstallLoop gw p entries (results, w, calls))) =
     calls @ concat (map installCalls entries)"
proof (induction entries arbitrary: results w calls)
  case Nil
  then show ?case by simp
next
  case (Cons entry entries)
  obtain r' w' c' where st: "autoInstallStep gw p entry (results, w, calls) = (r', w', c')"
    by (cases "autoInstallStep gw p entry (results, w, calls)") auto
  have "c' = calls @ installCalls entry"
    using autoInstallStep_calls [of gw p entry results w calls] st by simp
  then show ?case using Cons.IH [of r' w' c'] st by simp
qed

text \<open>
  C3. As stated the claim fails: the code does not look at missing env or config. What
  the code does: when the parameters are accepted, auto-install is enabled and the import
  succeeded, the handler calls \<open>importSkills\<close>, validates the imported batch, then goes
  through the validation entries in order and invokes an installer for an entry if and
  only if the entry has a status snapshot, is not eligible, declares at least one
  installer, has no missing OS-level requirement, misses at least one binary (\<open>bins\<close> or
  \<open>anyBins\<close>) and the \<open>id\<close> of its first declared installer is not empty, whatever it
  misses in env or config; the installer invoked is the first declared one, once per
  such entry; after the loop the validation is run exactly once more over the same
  imported batch.
\<close>

theorem skillsImport_autoInstall_calls:
  assumes "validateSkillsImportParams gw raw = Inr p"
    and "pAutoInstall p = Some True"
    and "request = \<lparr>source = pSource p,
                     target = (case pTarget p of Some t \<Rightarrow> t | None \<Rightarrow> Workspace),
                     workspaceDir = Some (workspaceDirRaw gw), managedSkillsDir = None,
                     ref = pRef p, subdir = pSubdir p, overwrite = pOverwrite p,
                     timeoutMs = pTimeoutMs p\<rparr>"
    and "gwImportSkills gw request w0 = (result, w1)"
    and "ok result"
    and "gwValidateImportedSkills gw (workspaceDirRaw gw) (imported result) w1 = (v, w2)"
  shows "snd (snd (skillsImportHandler gw raw w0)) =
           [ImportCall request, ValidateCall (workspaceDirRaw gw) (imported result)] @
           concat (map installCalls (skills v)) @
           [ValidateCall (workspaceDirRaw gw) (imported result), BumpCall]
         \<and> (\<forall>entry results w calls.
              snd (snd (autoInstallStep gw p entry (results, w, calls))) =
                calls @ (if autoInstallCondition entry then installCalls entry else [])
              \<and> (autoInstallCondition entry \<longrightarrow> length (installCalls entry) = 1))"
proof
  obtain ra wa ca where loop: "autoInstallLoop gw p (skills v)
      ([], w2, [ImportCall request, ValidateCall (workspaceDirRaw gw) (imported result)]) = (ra, wa, ca)"
    by (metis prod_cases3)
  have ca: "ca = [ImportCall request, ValidateCall (workspaceDirRaw gw) (imported result)] @
                 concat (map installCalls (skills v))"
    using autoInstallLoop_calls [of gw p "skills v" "[]" w2
        "[ImportCall request, ValidateCall (workspaceDirRaw gw) (imported result)]"] loop
    by simp
  obtain v' wb where v2: "gwValidateImportedSkills gw (workspaceDirRaw gw) (imported result) wa = (v', wb)"
    by (metis surj_pair)
  show "snd (snd (skillsImportHandler gw raw w0)) =
           [ImportCall request, ValidateCall (workspaceDirRaw gw) (imported result)] @
           concat (map installCalls (skills v)) @
           [ValidateCall (workspaceDirRaw gw) (imported result), BumpCall]"
    using assms loop ca v2
    by (simp add: skillsImportHandler_def Let_def)
next
  show "\<forall>entry results w calls.
          snd (snd (autoInstallStep gw p entry (results, w, calls))) =
            calls @ (if autoInstallCondition entry then installCalls entry else [])
          \<and> (autoInstallCondition entry \<longrightarrow> length (installCalls entry) = 1)"
    by (auto simp: autoInstallStep_calls installCalls_def autoInstallCondition_def
             split: option.splits list.splits)
qed

theorem skillsImport_autoInstall_calls_witness:
  "validateSkillsImportParams exampleGateway exampleParams = Inr exampleParams
   \<and> pAutoInstall exampleParams = Some True
   \<and> gwImportSkills exampleGateway exampleRequest 0 = (exampleImportResult, 0)
   \<and> ok exampleImportResult
   \<and> gwValidateImportedSkills exampleGateway ''/w'' [pdfImport] 0 = (exampleReport, 0)
   \<and> autoInstallCondition pdfValidation
   \<and> snd (snd (skillsImportHandler exampleGateway exampleParams 0)) =
       [ImportCall exampleRequest, ValidateCall ''/w'' [pdfImport],
        InstallCall ''pdf-tools'' ''brew'', ValidateCall ''/w'' [pdfImport], BumpCall]"
proof -
  have h1: "validateSkillsImportParams exampleGateway exampleParams = Inr exampleParams"
    by (simp add: exampleGateway_def)
  have h2: "pAutoInstall exampleParams = Some True" by (simp add: exampleParams_def)
  have h3: "exampleRequest =
      \<lparr>source = pSource exampleParams,
       target = (case pTarget exampleParams of Some t \<Rightarrow> t | None \<Rightarrow> Workspace),
       workspaceDir = Some (workspaceDirRaw exampleGateway), managedSkillsDir = None,
       ref = pRef exampleParams, subdir = pSubdir exampleParams,
       overwrite = pOverwrite exampleParams, timeoutMs = pTimeoutMs exampleParams\<rparr>"
    by (simp add: exampleRequest_def exampleParams_def exampleGateway_def)
  have h4: "gwImportSkills exampleGateway exampleRequest 0 = (exampleImportResult, 0)"
    by (simp add: exampleGateway_def)
  have h5: "ok exampleImportResult" by (simp add: exampleImportResult_def)
  have ws: "workspaceDirRaw exampleGateway = ''/w''" by (simp add: exampleGateway_def)
  have im: "imported exampleImportResult = [pdfImport]" by (simp add: exampleImportResult_def)
  have h6: "gwValidateImportedSkills exampleGateway (workspaceDirRaw exampleGateway)
              (imported exampleImportResult) 0 = (exampleReport, 0)"
    by (simp add: exampleGateway_def)
  have c: "autoInstallCondition pdfValidation" by code_simp
  have ic: "concat (map installCalls (skills exampleReport)) = [InstallCall ''pdf-tools'' ''brew'']"
    by code_simp
  have "snd (snd (skillsImportHandler exampleGateway exampleParams 0)) =
           [ImportCall exampleRequest,
            ValidateCall (workspaceDirRaw exampleGateway) (imported exampleImportResult)] @
           concat (map installCalls (skills exampleReport)) @
           [ValidateCall (workspaceDirRaw exampleGateway) (imported exampleImportResult), BumpCall]"
    by (rule skillsImport_autoInstall_calls [OF h1 h2 h3 h4 h5 h6, THEN conjunct1])
  then have "snd (snd (skillsImportHandler exampleGateway exampleParams 0)) =
       [ImportCall exampleRequest, ValidateCall ''/w'' [pdfImport],
        InstallCall ''pdf-tools'' ''brew'', ValidateCall ''/w'' [pdfImport], BumpCall]"
    by (simp add: ic ws im)
  then show ?thesis using h1 h2 h4 h5 h6 c by (simp add: ws im)
qed

text \<open>
  C3, the claim as stated fails. The entry for \<open>pdf-tools\<close> misses the binary \<open>qpdf\<close>
  and also the variable \<open>PDF_API_KEY\<close>, so it is not missing only binaries; the handler
  invokes its installer \<open>brew\<close> all the same.
\<close>

theorem skillsImport_autoInstall_counterexample:
  "snd (snd (skillsImportHandler exampleGateway exampleParams 0)) =
     [ImportCall exampleRequest, ValidateCall ''/w'' [pdfImport],
      InstallCall ''pdf-tools'' ''brew'', ValidateCall ''/w'' [pdfImport], BumpCall]
   \<and> skills exampleReport = [pdfValidation]
   \<and> status pdfValidation = Some pdfStatus
   \<and> env (missing pdfStatus) = [''PDF_API_KEY'']
   \<and> \<not> specAutoInstallCondition pdfValidation"
  by code_simp

section \<open>Properties of the import\<close>

subsection \<open>Destination names\<close>

text \<open>
  C7. The code does not keep destination names unique within a run: the suffixed name is
  not checked against the names already used. Three skills found in this order with the
  declared names \<open>a-3\<close>, \<open>a\<close> and \<open>a\<close> receive the names \<open>a-3\<close>, \<open>a\<close> and
  \<open>a-3\<close> (the third name is \<open>a\<close> followed by the size of the set plus one), and with
  \<open>overwrite\<close> the third import replaces the first.
\<close>

theorem importSkills_dest_names_clash:
  "\<not> isl (fst (importSkills exampleEnv clashRequest clashFs))
   \<and> map destDir (imported (projr (fst (importSkills exampleEnv clashRequest clashFs)))) =
       [''/w/skills/a-3'', ''/w/skills/a'', ''/w/skills/a-3'']
   \<and> map sourceDir (imported (projr (fst (importSkills exampleEnv clashRequest clashFs)))) =
       [''/src/repo/x1'', ''/src/repo/x2'', ''/src/repo/x3'']
   \<and> destDirName [''a-3'', ''a''] (sanitizeSkillDirName ''a'') = ''a-3''
   \<and> snd (importSkills exampleEnv clashRequest clashFs) ''/w/skills/a-3'' =
       Some (Dir [(''SKILL.md'', File ''name: a'')])"
  by code_simp

subsection \<open>Structured results\<close>

lemma orElse_nonempty: "b \<noteq> [] \<Longrightarrow> orElse a b \<noteq> []"
  by (simp add: orElse_def)

lemma cloneFailedMessage_nonempty: "cloneFailedMessage c f \<noteq> []"
  unfolding cloneFailedMessage_def by (intro orElse_nonempty) simp

lemma checkoutFailedMessage_nonempty: "checkoutFailedMessage c \<noteq> []"
  unfolding checkoutFailedMessage_def by (intro orElse_nonempty) simp

lemma checkoutRef_warnings: "checkoutRef e t r d fs = (w3, fs') \<Longrightarrow> \<forall>w\<in>set w3. w \<noteq> []"
  by (auto simp: checkoutRef_def checkoutFailedMessage_nonempty
        checkoutFailedMessage_nonempty [THEN not_sym] split: if_splits prod.splits)

lemma cloneSource_warnings:
  assumes "cloneSource e params ws0 url r sd fs = (Inr res, fs')"
    and "\<forall>w\<in>set ws0. w \<noteq> []"
  shows "\<forall>w\<in>set (resolvedWarnings res). w \<noteq> []"
proof -
  from assms(1) consider
      (failed) c f where "resolvedWarnings res = ws0 @ [cloneFailedMessage c f]"
    | (cloned) t rr d fs2 w3 fs3 where "checkoutRef e t rr d fs2 = (w3, fs3)"
        "resolvedWarnings res = ws0 @ w3"
    unfolding cloneSource_def
    by (auto split: option.splits prod.splits if_splits)
  then show ?thesis
  proof cases
    case failed
    then show ?thesis
      using assms(2) cloneFailedMessage_nonempty cloneFailedMessage_nonempty [THEN not_sym]
      by auto
  next
    case cloned
    then show ?thesis using assms(2) checkoutRef_warnings [OF cloned(1)] by auto
  qed
qed

lemma resolveSource_warnings:
  assumes "resolveSource e params fs = (Inr res, fs')"
  shows "\<forall>w\<in>set (resolvedWarnings res). w \<noteq> []"
proof -
  let ?raw = "trim (source params)"
  let ?g = "parseGitHubTreeUrl e ?raw"
  let ?urlRef = "(case ?g of Some g \<Rightarrow> treeRef g | None \<Rightarrow> None)"
  let ?urlSubdir = "(case ?g of Some g \<Rightarrow> treeSubdir g | None \<Rightarrow> None)"
  let ?w0 = "(if truthy ?urlSubdir \<and> truthy (subdir params)
                  then [''Both source URL subdir and params.subdir were provided; using the URL subdir.'']
                  else []) @
             (if truthy ?urlRef \<and> truthy (ref params)
                  then [''Both source URL ref and params.ref were provided; using the URL ref.'']
                  else [])"
  have w0: "\<forall>w\<in>set ?w0. w \<noteq> []" by auto
  show ?thesis
  proof (cases "?raw = []")
    case True
    then show ?thesis using assms by (auto simp: resolveSource_def)
  next
    case False
    note raw = False
    show ?thesis
    proof (cases "pathExists fs (resolveUserPath e ?raw)")
      case True
      then have "resolvedWarnings res = ?w0"
        using assms raw by (auto simp: resolveSource_def Let_def)
      then show ?thesis by (metis w0)
    next
      case False
      note nex = False
      show ?thesis
      proof (cases "isGit e ?raw")
        case False
        then have "resolvedWarnings res =
            ?w0 @ [''source path does not exist: '' @ resolveUserPath e ?raw]"
          using assms raw nex by (auto simp: resolveSource_def Let_def)
        then show ?thesis using w0 by auto
      next
        case True
        then have "cloneSource e params ?w0 (normalizedGitUrl e ?raw)
                     (case ?urlRef of Some r \<Rightarrow> Some r | None \<Rightarrow> ref params)
                     (case ?urlSubdir of Some d \<Rightarrow> Some d | None \<Rightarrow> subdir params) fs = (Inr res, fs')"
          using assms raw nex by (simp add: resolveSource_def Let_def)
        then show ?thesis using w0 by (rule cloneSource_warnings)
      qed
    qed
  qed
qed

lemma failure_wellFormed: "msg \<noteq> [] \<Longrightarrow> wellFormedResult (failure msg tgt ws)"
  by (simp add: wellFormedResult_def failure_def)

lemma failure_fields:
  "ok (failure msg tgt ws) = False" "imported (failure msg tgt ws) = []"
  "skipped (failure msg tgt ws) = []" "message (failure msg tgt ws) = msg"
  by (simp_all add: failure_def)

lemma finish_wellFormed: "wellFormedResult (finish tgt ws st)"
  by (cases st) (auto simp: wellFormedResult_def finish_def Let_def)

lemma tryBlock_wellFormed:
  assumes "tryBlock e params tgt res fs = (Inr r, fs')"
  shows "wellFormedResult r"
proof -
  define fs1 where "fs1 = (if pathExists fs tgt then fs else fs(tgt \<mapsto> Dir []))"
  define dirs where "dirs = collectSkillDirs fs1 (rootDir res)"
  define lp where "lp = importLoop e params tgt (rootDir res) dirs ([], [], [], fs1)"
  have tb: "tryBlock e params tgt res fs =
     (if \<not> pathExists fs (rootDir res)
      then (Inr (failure (''source not found: '' @ rootDir res) tgt (resolvedWarnings res)), fs)
      else if \<not> ensureDirOk e tgt then (Inl EnsureDirFailed, fs)
      else if length dirs = 0
           then (Inr (failure ''no SKILL.md found in source'' tgt (resolvedWarnings res)), fs1)
           else case lp of
                  Inl fault \<Rightarrow> (Inl fault, fs1)
                | Inr st \<Rightarrow> (Inr (finish tgt (resolvedWarnings res) st), snd (snd (snd st))))"
    unfolding tryBlock_def Let_def fs1_def dirs_def lp_def by (rule refl)
  show ?thesis
  proof (cases lp)
    case (Inl a)
    then show ?thesis using assms unfolding tb
      by (auto simp: failure_wellFormed split: if_splits)
  next
    case (Inr st)
    then show ?thesis using assms unfolding tb
      by (auto simp: failure_wellFormed finish_wellFormed split: if_splits)
  qed
qed

lemma cleanup_Inr:
  "cleanup e res out = (Inr r, fs') \<Longrightarrow> fst out = Inr r"
  by (cases out) (auto simp: cleanup_def split: option.splits if_splits)

lemma last_warning_nonempty:
  assumes "\<forall>w\<in>set ws. w \<noteq> []"
  shows "(case ws of [] \<Rightarrow> ''failed to resolve source'' | a # l \<Rightarrow> last (a # l)) \<noteq> []"
proof (cases ws)
  case Nil
  then show ?thesis by simp
next
  case (Cons x xs)
  then have "last ws \<in> set ws" by (intro last_in_set) simp
  then show ?thesis using assms Cons by auto
qed

lemma importSkills_wellFormed:
  assumes "importSkills e params fs = (Inr r, fs')"
  shows "wellFormedResult r"
proof (cases "resolveTargetDir e params")
  case None
  then show ?thesis using assms by (auto simp: importSkills_def failure_wellFormed)
next
  case (Some tgt)
  obtain out fs1 where rs: "resolveSource e params fs = (out, fs1)" by (cases "resolveSource e params fs")
  show ?thesis
  proof (cases out)
    case (Inl fault)
    then show ?thesis using assms Some rs by (simp add: importSkills_def)
  next
    case (Inr res)
    note ws = resolveSource_warnings [OF rs [unfolded Inr]]
    show ?thesis
    proof (cases "rootDir res = []")
      case True
      have "(case resolvedWarnings res of [] \<Rightarrow> ''failed to resolve source'' | ws \<Rightarrow> last ws) \<noteq> []"
        using ws by (rule last_warning_nonempty)
      then show ?thesis
        using assms Some rs Inr True by (auto simp: importSkills_def failure_wellFormed)
    next
      case False
      then have c: "cleanup e res (tryBlock e params tgt res fs1) = (Inr r, fs')"
        using assms Some rs Inr by (simp add: importSkills_def)
      obtain o2 fs2 where tb: "tryBlock e params tgt res fs1 = (o2, fs2)"
        by (cases "tryBlock e params tgt res fs1")
      have "o2 = Inr r" using cleanup_Inr [OF c] tb by simp
      then show ?thesis using tryBlock_wellFormed tb by blast
    qed
  qed
qed

lemma importOne_no_fault:
  assumes "\<And>d. rmOk e d"
  shows "importOne e params tgt rd skillDir st \<noteq> Inl f"
proof -
  obtain imp skp used fsx where st: "st = (imp, skp, used, fsx)" by (metis prod_cases4)
  show ?thesis
    unfolding st importOne_def Let_def
    by (simp add: assms split: option.split prod.split bool.split)
qed

lemma importLoop_no_fault:
  assumes "\<And>d. rmOk e d"
  shows "importLoop e params tgt rd dirs st \<noteq> Inl f"
proof (induction dirs arbitrary: st)
  case Nil
  then show ?case by simp
next
  case (Cons d dirs)
  show ?case
  proof (cases "importOne e params tgt rd d st")
    case (Inl a)
    then show ?thesis using importOne_no_fault [OF assms] by blast
  next
    case (Inr st1)
    then show ?thesis using Cons [of st1] by simp
  qed
qed

lemma tryBlock_no_fault:
  assumes "\<And>d. rmOk e d" and "\<And>d. ensureDirOk e d"
  shows "fst (tryBlock e params tgt res fs) \<noteq> Inl f"
proof -
  define fs1 where "fs1 = (if pathExists fs tgt then fs else fs(tgt \<mapsto> Dir []))"
  define dirs where "dirs = collectSkillDirs fs1 (rootDir res)"
  define lp where "lp = importLoop e params tgt (rootDir res) dirs ([], [], [], fs1)"
  have tb: "tryBlock e params tgt res fs =
     (if \<not> pathExists fs (rootDir res)
      then (Inr (failure (''source not found: '' @ rootDir res) tgt (resolvedWarnings res)), fs)
      else if \<not> ensureDirOk e tgt then (Inl EnsureDirFailed, fs)
      else if length dirs = 0
           then (Inr (failure ''no SKILL.md found in source'' tgt (resolvedWarnings res)), fs1)
           else case lp of
                  Inl fault \<Rightarrow> (Inl fault, fs1)
                | Inr st \<Rightarrow> (Inr (finish tgt (resolvedWarnings res) st), snd (snd (snd st))))"
    unfolding tryBlock_def Let_def fs1_def dirs_def lp_def by (rule refl)
  show ?thesis
  proof (cases lp)
    case (Inl a)
    then have False using importLoop_no_fault [OF assms(1), of params tgt "rootDir res" dirs "([], [], [], fs1)" a] lp_def by simp
    then show ?thesis ..
  next
    case (Inr st)
    then show ?thesis unfolding tb by (simp add: assms(2))
  qed
qed

lemma cleanup_no_fault:
  assumes "\<And>d. rmOk e d" and "fst out \<noteq> Inl f"
  shows "fst (cleanup e res out) \<noteq> Inl f"
  using assms by (simp add: cleanup_def split: option.split)

lemma cloneSource_no_fault:
  assumes "\<And>p. mkdtemp e p \<noteq> None" and "\<And>d. rmOk e d"
  shows "fst (cloneSource e params ws0 url r sd fs) \<noteq> Inl f"
proof -
  obtain tmp where "mkdtemp e (pathJoin (tmpdir e) ''openclaw-skill-import-'') = Some tmp"
    using assms(1) by auto
  then show ?thesis
    unfolding cloneSource_def by (simp add: assms(2) split: prod.split)
qed

lemma resolveSource_no_fault:
  assumes "\<And>p. mkdtemp e p \<noteq> None" and "\<And>d. rmOk e d"
  shows "fst (resolveSource e params fs) \<noteq> Inl f"
proof (cases "trim (source params) = []")
  case True
  then show ?thesis by (simp add: resolveSource_def)
next
  case False
  note raw = False
  show ?thesis
  proof (cases "pathExists fs (resolveUserPath e (trim (source params)))")
    case True
    then show ?thesis using raw by (simp add: resolveSource_def Let_def)
  next
    case False
    note nex = False
    show ?thesis
    proof (cases "isGit e (trim (source params))")
      case False
      then show ?thesis using raw nex by (simp add: resolveSource_def Let_def)
    next
      case True
      then show ?thesis
        using raw nex by (simp add: resolveSource_def Let_def cloneSource_no_fault [OF assms])
    qed
  qed
qed

lemma importSkills_no_fault:
  assumes "\<And>p. mkdtemp e p \<noteq> None" and "\<And>d. ensureDirOk e d" and "\<And>d. rmOk e d"
  shows "fst (importSkills e params fs) \<noteq> Inl f"
proof (cases "resolveTargetDir e params")
  case None
  then show ?thesis by (simp add: importSkills_def)
next
  case (Some tgt)
  obtain out fs1 where rs: "resolveSource e params fs = (out, fs1)"
    by (cases "resolveSource e params fs")
  have "out \<noteq> Inl f'" for f'
    using resolveSource_no_fault [OF assms(1,3), of params fs f'] rs by simp
  then obtain res where out: "out = Inr res" by (cases out) auto
  show ?thesis
  proof (cases "rootDir res = []")
    case True
    then show ?thesis using Some rs out by (simp add: importSkills_def)
  next
    case False
    have "fst (cleanup e res (tryBlock e params tgt res fs1)) \<noteq> Inl f"
      using cleanup_no_fault [OF assms(3)] tryBlock_no_fault [OF assms(3,2)] by blast
    then show ?thesis using Some rs out False by (simp add: importSkills_def)
  qed
qed

lemma importSkills_total:
  assumes "\<And>p. mkdtemp e p \<noteq> None" and "\<And>d. ensureDirOk e d" and "\<And>d. rmOk e d"
  shows "\<exists>r. fst (importSkills e params fs) = Inr r"
  using importSkills_no_fault [OF assms, of params fs]
  by (cases "fst (importSkills e params fs)") auto

lemma importSkills_unresolved:
  assumes "fst (resolveSource e params fs) = Inr res" and "rootDir res = []"
  shows "\<exists>r. fst (importSkills e params fs) = Inr r \<and> \<not> ok r \<and> imported r = [] \<and> message r \<noteq> []"
proof -
  obtain fs1 where rs: "resolveSource e params fs = (Inr res, fs1)"
    using assms(1) by (cases "resolveSource e params fs") auto
  have m: "(case resolvedWarnings res of [] \<Rightarrow> ''failed to resolve source'' | a # l \<Rightarrow> last (a # l)) \<noteq> []"
    using resolveSource_warnings [OF rs] by (rule last_warning_nonempty)
  show ?thesis
  proof (cases "resolveTargetDir e params")
    case None
    then show ?thesis by (simp add: importSkills_def failure_fields)
  next
    case (Some tgt)
    then show ?thesis using rs assms(2) m by (simp add: importSkills_def failure_fields)
  qed
qed

lemma resolveSource_missing:
  assumes "trim (source params) = [] \<or>
           (\<not> pathExists fs (resolveUserPath e (trim (source params))) \<and>
            \<not> isGit e (trim (source params)))"
  shows "\<exists>res. fst (resolveSource e params fs) = Inr res \<and> rootDir res = []"
proof (cases "trim (source params) = []")
  case True
  then show ?thesis by (simp add: resolveSource_def)
next
  case False
  then show ?thesis using assms by (simp add: resolveSource_def Let_def)
qed

lemma tryClone_fails:
  assumes "\<forall>argv t cwd fs0 res fs1.
             runCommandWithTimeout e argv t cwd fs0 = (Inr res, fs1) \<longrightarrow> exitCode res \<noteq> Some 0"
  shows "exitCode (fst (tryClone e t argv cwd fs0)) \<noteq> Some 0"
proof (cases "runCommandWithTimeout e argv t cwd fs0")
  case (Pair out fs1)
  show ?thesis
  proof (cases out)
    case (Inl err)
    then show ?thesis using Pair by (simp add: tryClone_def)
  next
    case (Inr res)
    have "exitCode res \<noteq> Some 0" using assms Pair Inr by blast
    then show ?thesis using Pair Inr by (simp add: tryClone_def)
  qed
qed

lemma cloneSource_fails:
  assumes "\<forall>argv t cwd fs0 res fs1.
             runCommandWithTimeout e argv t cwd fs0 = (Inr res, fs1) \<longrightarrow> exitCode res \<noteq> Some 0"
    and "mkdtemp e (pathJoin (tmpdir e) ''openclaw-skill-import-'') = Some tmp"
    and "rmOk e tmp"
  shows "\<exists>res. fst (cloneSource e params ws0 url r sd fs) = Inr res \<and> rootDir res = []"
proof -
  define a1 where "a1 = shallowCloneArgs r url (pathJoin tmp ''repo'')"
  obtain c fs1 where c: "tryClone e (importTimeout params) a1 None (fs(tmp \<mapsto> Dir [])) = (c, fs1)"
    by (cases "tryClone e (importTimeout params) a1 None (fs(tmp \<mapsto> Dir []))")
  have cf: "exitCode c \<noteq> Some 0"
    using tryClone_fails [OF assms(1), where t = "importTimeout params" and argv = a1
        and cwd = None and ?fs0.0 = "fs(tmp \<mapsto> Dir [])"] c
    by simp
  obtain f fs2 where f: "tryClone e (importTimeout params) [''git'', ''clone'', url, pathJoin tmp ''repo''] None fs1 = (f, fs2)"
    by (cases "tryClone e (importTimeout params) [''git'', ''clone'', url, pathJoin tmp ''repo''] None fs1")
  have ff: "exitCode f \<noteq> Some 0"
    using tryClone_fails [OF assms(1), where t = "importTimeout params"
        and argv = "[''git'', ''clone'', url, pathJoin tmp ''repo'']" and cwd = None
        and ?fs0.0 = fs1] f
    by simp
  have fb: "fullCloneFallback e (importTimeout params) url (pathJoin tmp ''repo'') c fs1 = (f, fs2)"
    using cf f by (simp add: fullCloneFallback_def)
  show ?thesis
    unfolding cloneSource_def using assms(2,3) c cf fb ff by (simp add: a1_def)
qed

lemma resolveSource_clone_fails:
  assumes "trim (source params) \<noteq> []"
    and "\<not> pathExists fs (resolveUserPath e (trim (source params)))"
    and "isGit e (trim (source params))"
    and "\<forall>argv t cwd fs0 res fs1.
             runCommandWithTimeout e argv t cwd fs0 = (Inr res, fs1) \<longrightarrow> exitCode res \<noteq> Some 0"
    and "mkdtemp e (pathJoin (tmpdir e) ''openclaw-skill-import-'') = Some tmp"
    and "rmOk e tmp"
  shows "\<exists>res. fst (resolveSource e params fs) = Inr res \<and> rootDir res = []"
  using assms(1,2,3) cloneSource_fails [OF assms(4,5,6)]
  by (simp add: resolveSource_def Let_def)

lemma collectSkillDirs_cong: "fs1 rd = fs2 rd \<Longrightarrow> collectSkillDirs fs1 rd = collectSkillDirs fs2 rd"
  by (simp add: collectSkillDirs_def collectSkillDirsIn_def)

lemma importSkills_no_manifest:
  assumes "resolveTargetDir e params = Some tgt"
    and "fst (resolveSource e params fs) = Inr res"
    and "rootDir res \<noteq> []"
    and "pathExists (snd (resolveSource e params fs)) (rootDir res)"
    and "collectSkillDirs (snd (resolveSource e params fs)) (rootDir res) = []"
    and "ensureDirOk e tgt"
    and "case cleanupDir res of None \<Rightarrow> True | Some tmp \<Rightarrow> rmOk e tmp"
  shows "fst (importSkills e params fs) =
           Inr (failure ''no SKILL.md found in source'' tgt (resolvedWarnings res))"
proof -
  define fs1 where "fs1 = snd (resolveSource e params fs)"
  have rs: "resolveSource e params fs = (Inr res, fs1)"
    using assms(2) by (simp add: fs1_def prod_eq_iff)
  define fs2 where "fs2 = (if pathExists fs1 tgt then fs1 else fs1(tgt \<mapsto> Dir []))"
  have ex: "pathExists fs1 (rootDir res)" using assms(4) by (simp add: fs1_def)
  have "fs2 (rootDir res) = fs1 (rootDir res)"
    using ex by (auto simp: fs2_def pathExists_def)
  then have "collectSkillDirs fs2 (rootDir res) = []"
    using assms(5) collectSkillDirs_cong [of fs2 "rootDir res" fs1] by (simp add: fs1_def)
  then have tb: "tryBlock e params tgt res fs1 =
      (Inr (failure ''no SKILL.md found in source'' tgt (resolvedWarnings res)), fs2)"
    using ex assms(6) by (simp add: tryBlock_def Let_def fs2_def)
  have "fst (cleanup e res (tryBlock e params tgt res fs1)) =
      Inr (failure ''no SKILL.md found in source'' tgt (resolvedWarnings res))"
    using assms(7) tb by (auto simp: cleanup_def split: option.splits)
  then show ?thesis using assms(1,3) rs by (simp add: importSkills_def)
qed

text \<open>
  C9. Every result that \<open>importSkills\<close> returns has \<open>ok\<close> true exactly when at least
  one entry was imported, and carries a message that is not empty. The call returns a
  result, and throws nothing, whenever the primitives of the host succeed (creating the
  temporary directory, creating the target directory, removing a directory). In each of
  the expected failure modes it returns a result with \<open>ok\<close> false, nothing imported
  and a message: when the source is blank or is neither an existing path nor a git
  source; when the source is a git source and every \<open>git\<close> command fails or cannot be
  run (the temporary directory having been created and being removable); and when the
  resolved source exists and the scan finds no \<open>SKILL.md\<close> in it (the target directory
  having been created and the temporary directory, if any, being removable).
\<close>

theorem importSkills_structured_result:
  "(\<forall>r fs'. importSkills e params fs = (Inr r, fs') \<longrightarrow>
       (ok r \<longleftrightarrow> imported r \<noteq> []) \<and> message r \<noteq> [])
   \<and> ((\<forall>p. mkdtemp e p \<noteq> None) \<and> (\<forall>d. ensureDirOk e d) \<and> (\<forall>d. rmOk e d) \<longrightarrow>
        (\<exists>r. fst (importSkills e params fs) = Inr r))
   \<and> (trim (source params) = [] \<or>
        (\<not> pathExists fs (resolveUserPath e (trim (source params))) \<and>
         \<not> isGit e (trim (source params))) \<longrightarrow>
        (\<exists>r. fst (importSkills e params fs) = Inr r \<and> \<not> ok r \<and> imported r = [] \<and>
             message r \<noteq> []))
   \<and> (trim (source params) \<noteq> [] \<and>
        \<not> pathExists fs (resolveUserPath e (trim (source params))) \<and>
        isGit e (trim (source params)) \<and>
        (\<forall>argv t cwd fs0 res fs1.
           runCommandWithTimeout e argv t cwd fs0 = (Inr res, fs1) \<longrightarrow> exitCode res \<noteq> Some 0) \<and>
        mkdtemp e (pathJoin (tmpdir e) ''openclaw-skill-import-'') = Some tmp \<and> rmOk e tmp \<longrightarrow>
        (\<exists>r. fst (importSkills e params fs) = Inr r \<and> \<not> ok r \<and> imported r = [] \<and>
             message r \<noteq> []))
   \<and> (resolveTargetDir e params = Some tgt \<and>
        fst (resolveSource e params fs) = Inr res \<and> rootDir res \<noteq> [] \<and>
        pathExists (snd (resolveSource e params fs)) (rootDir res) \<and>
        collectSkillDirs (snd (resolveSource e params fs)) (rootDir res) = [] \<and>
        ensureDirOk e tgt \<and>
        (case cleanupDir res of None \<Rightarrow> True | Some d \<Rightarrow> rmOk e d) \<longrightarrow>
        (\<exists>r. fst (importSkills e params fs) = Inr r \<and> \<not> ok r \<and> imported r = [] \<and>
             message r = ''no SKILL.md found in source''))"
proof (intro conjI allI impI)
  fix r fs'
  assume "importSkills e params fs = (Inr r, fs')"
  then have "wellFormedResult r" by (rule importSkills_wellFormed)
  then show "ok r \<longleftrightarrow> imported r \<noteq> []" and "message r \<noteq> []"
    by (simp_all add: wellFormedResult_def)
next
  assume "(\<forall>p. mkdtemp e p \<noteq> None) \<and> (\<forall>d. ensureDirOk e d) \<and> (\<forall>d. rmOk e d)"
  then show "\<exists>r. fst (importSkills e params fs) = Inr r"
    using importSkills_total [of e params fs] by blast
next
  assume "trim (source params) = [] \<or>
        (\<not> pathExists fs (resolveUserPath e (trim (source params))) \<and>
         \<not> isGit e (trim (source params)))"
  then obtain res where "fst (resolveSource e params fs) = Inr res" "rootDir res = []"
    using resolveSource_missing by blast
  then show "\<exists>r. fst (importSkills e params fs) = Inr r \<and> \<not> ok r \<and> imported r = [] \<and> message r \<noteq> []"
    by (rule importSkills_unresolved)
next
  assume a: "trim (source params) \<noteq> [] \<and>
        \<not> pathExists fs (resolveUserPath e (trim (source params))) \<and>
        isGit e (trim (source params)) \<and>
        (\<forall>argv t cwd fs0 res fs1.
           runCommandWithTimeout e argv t cwd fs0 = (Inr res, fs1) \<longrightarrow> exitCode res \<noteq> Some 0) \<and>
        mkdtemp e (pathJoin (tmpdir e) ''openclaw-skill-import-'') = Some tmp \<and> rmOk e tmp"
  then have "\<exists>res. fst (resolveSource e params fs) = Inr res \<and> rootDir res = []"
    using resolveSource_clone_fails [of params fs e tmp] by blast
  then obtain res where "fst (resolveSource e params fs) = Inr res" "rootDir res = []" by blast
  then show "\<exists>r. fst (importSkills e params fs) = Inr r \<and> \<not> ok r \<and> imported r = [] \<and> message r \<noteq> []"
    by (rule importSkills_unresolved)
next
  assume a: "resolveTargetDir e params = Some tgt \<and>
        fst (resolveSource e params fs) = Inr res \<and> rootDir res \<noteq> [] \<and>
        pathExists (snd (resolveSource e params fs)) (rootDir res) \<and>
        collectSkillDirs (snd (resolveSource e params fs)) (rootDir res) = [] \<and>
        ensureDirOk e tgt \<and>
        (case cleanupDir res of None \<Rightarrow> True | Some d \<Rightarrow> rmOk e d)"
  then have "fst (importSkills e params fs) =
           Inr (failure ''no SKILL.md found in source'' tgt (resolvedWarnings res))"
    by (intro importSkills_no_manifest) simp_all
  then show "\<exists>r. fst (importSkills e params fs) = Inr r \<and> \<not> ok r \<and> imported r = [] \<and>
             message r = ''no SKILL.md found in source''"
    by (simp add: failure_fields)
qed

text \<open>
  Four runs on the concrete host: \<open>/src/pdf-tools\<close> is imported; \<open>/src/none\<close> does
  not exist; the clone of \<open>https://example.com/skills.git\<close> fails; \<open>/src/docs\<close> holds
  no manifest.
\<close>

theorem importSkills_structured_result_witness:
  "fst (importSkills exampleEnv exampleRequest localFs) = Inr exampleImportResult
   \<and> ok exampleImportResult \<and> imported exampleImportResult \<noteq> []
   \<and> message exampleImportResult \<noteq> []
   \<and> (\<exists>r. fst (importSkills exampleEnv clashRequest clashFs) = Inr r)
   \<and> \<not> pathExists localFs (resolveUserPath exampleEnv (trim (source missingRequest)))
   \<and> \<not> isGit exampleEnv (trim (source missingRequest))
   \<and> (\<exists>r. fst (importSkills exampleEnv missingRequest localFs) = Inr r \<and> \<not> ok r \<and>
            imported r = [] \<and> message r \<noteq> [])
   \<and> \<not> pathExists localFs (resolveUserPath exampleEnv (trim (source gitRequest)))
   \<and> isGit exampleEnv (trim (source gitRequest))
   \<and> mkdtemp exampleEnv (pathJoin (tmpdir exampleEnv) ''openclaw-skill-import-'') =
       Some ''/tmp/openclaw-skill-import-Ab12Cd''
   \<and> (\<exists>r. fst (importSkills exampleEnv gitRequest localFs) = Inr r \<and> \<not> ok r \<and>
            imported r = [] \<and> message r \<noteq> [])
   \<and> fst (resolveSource exampleEnv docsRequest localFs) =
       Inr \<lparr>rootDir = ''/src/docs'', cleanupDir = None, resolvedWarnings = []\<rparr>
   \<and> collectSkillDirs (snd (resolveSource exampleEnv docsRequest localFs)) ''/src/docs'' = []
   \<and> (\<exists>r. fst (importSkills exampleEnv docsRequest localFs) = Inr r \<and> \<not> ok r \<and>
            imported r = [] \<and> message r = ''no SKILL.md found in source'')"
proof -
  have a1: "fst (importSkills exampleEnv exampleRequest localFs) = Inr exampleImportResult"
    by code_simp
  have a2: "importSkills exampleEnv exampleRequest localFs =
              (Inr exampleImportResult, snd (importSkills exampleEnv exampleRequest localFs))"
    using a1 by (simp add: prod_eq_iff)
  have a3: "(ok exampleImportResult \<longleftrightarrow> imported exampleImportResult \<noteq> []) \<and>
            message exampleImportResult \<noteq> []"
    using importSkills_structured_result
            [where e = exampleEnv and params = exampleRequest and fs = localFs,
             THEN conjunct1, THEN spec, THEN spec, THEN mp, OF a2] .
  have a4: "ok exampleImportResult" by (simp add: exampleImportResult_def)
  have b1: "(\<forall>p. mkdtemp exampleEnv p \<noteq> None) \<and> (\<forall>d. ensureDirOk exampleEnv d) \<and>
            (\<forall>d. rmOk exampleEnv d)"
    by (simp add: exampleEnv_def)
  have b2: "\<exists>r. fst (importSkills exampleEnv clashRequest clashFs) = Inr r"
    using importSkills_structured_result
            [where e = exampleEnv and params = clashRequest and fs = clashFs,
             THEN conjunct2, THEN conjunct1, THEN mp, OF b1] .
  have m1: "\<not> pathExists localFs (resolveUserPath exampleEnv (trim (source missingRequest)))"
    by code_simp
  have m2: "\<not> isGit exampleEnv (trim (source missingRequest))" by code_simp
  have m3: "\<exists>r. fst (importSkills exampleEnv missingRequest localFs) = Inr r \<and> \<not> ok r \<and>
               imported r = [] \<and> message r \<noteq> []"
    using importSkills_structured_result
            [where e = exampleEnv and params = missingRequest and fs = localFs,
             THEN conjunct2, THEN conjunct2, THEN conjunct1, THEN mp, OF disjI2, OF conjI,
             OF m1 m2] .
  have g1: "trim (source gitRequest) \<noteq> []" by code_simp
  have g2: "\<not> pathExists localFs (resolveUserPath exampleEnv (trim (source gitRequest)))"
    by code_simp
  have g3: "isGit exampleEnv (trim (source gitRequest))" by code_simp
  have g4: "\<forall>argv t cwd fs0 res fs1.
              runCommandWithTimeout exampleEnv argv t cwd fs0 = (Inr res, fs1) \<longrightarrow>
              exitCode res \<noteq> Some 0"
    by (auto simp: exampleEnv_def)
  have g5: "mkdtemp exampleEnv (pathJoin (tmpdir exampleEnv) ''openclaw-skill-import-'') =
              Some ''/tmp/openclaw-skill-import-Ab12Cd''"
    by (simp add: exampleEnv_def pathJoin_def)
  have g6: "rmOk exampleEnv ''/tmp/openclaw-skill-import-Ab12Cd''" by (simp add: exampleEnv_def)
  have g7: "\<exists>r. fst (importSkills exampleEnv gitRequest localFs) = Inr r \<and> \<not> ok r \<and>
               imported r = [] \<and> message r \<noteq> []"
    using importSkills_structured_result
            [where e = exampleEnv and params = gitRequest and fs = localFs
               and tmp = "''/tmp/openclaw-skill-import-Ab12Cd''",
             THEN conjunct2, THEN conjunct2, THEN conjunct2, THEN conjunct1, THEN mp]
          g1 g2 g3 g4 g5 g6
    by simp
  have d1: "resolveTargetDir exampleEnv docsRequest = Some ''/w/skills''" by code_simp
  have d2: "fst (resolveSource exampleEnv docsRequest localFs) =
              Inr \<lparr>rootDir = ''/src/docs'', cleanupDir = None, resolvedWarnings = []\<rparr>"
    by code_simp
  have d3: "pathExists (snd (resolveSource exampleEnv docsRequest localFs)) ''/src/docs''"
    by code_simp
  have d4: "collectSkillDirs (snd (resolveSource exampleEnv docsRequest localFs)) ''/src/docs'' = []"
    by code_simp
  have d5: "ensureDirOk exampleEnv ''/w/skills''" by (simp add: exampleEnv_def)
  have d6: "\<exists>r. fst (importSkills exampleEnv docsRequest localFs) = Inr r \<and> \<not> ok r \<and>
               imported r = [] \<and> message r = ''no SKILL.md found in source''"
    using importSkills_structured_result
            [where e = exampleEnv and params = docsRequest and fs = localFs
               and tgt = "''/w/skills''"
               and res = "\<lparr>rootDir = ''/src/docs'', cleanupDir = None, resolvedWarnings = []\<rparr>",
             THEN conjunct2, THEN conjunct2, THEN conjunct2, THEN conjunct2, THEN mp]
          d1 d2 d3 d4 d5
    by simp
  from a3 a4 have a5: "imported exampleImportResult \<noteq> []" and a6: "message exampleImportResult \<noteq> []"
    by simp_all
  show ?thesis
    using a1 a4 a5 a6 b2 m1 m2 m3 g2 g3 g5 g7 d2 d4 d6 by (intro conjI)
qed

subsection \<open>One skill imported three times\<close>

text \<open>
  C1. The code does not do what the claim says when the base name of the skill directory
  is on the ignore list (\<open>dist\<close>, \<open>build\<close>, \<open>out\<close>, \<open>venv\<close>, ...). The scan returns
  the root whatever its name is, but the filter handed to \<open>fs.cp\<close> is asked about the
  source directory itself and rejects it: nothing is copied, nothing is thrown, and the
  loop records an imported entry all the same. For the skill directory \<open>/src/dist\<close> the
  first call returns \<open>ok = true\<close> with one imported entry and leaves nothing at the
  destination \<open>/w/skills/pdf-tools\<close>; the second call, on the file system the first one
  left, finds no destination and returns \<open>ok = true\<close> with one imported entry again, and
  no \<open>conflict\<close> skip; a third call with \<open>overwrite = true\<close> returns the same and
  still leaves nothing at the destination.
\<close>

theorem importSkills_ignored_root_no_conflict:
  "collectSkillDirs distFs ''/src/dist'' = [[]]
   \<and> basename ''/src/dist'' \<in> set IMPORT_IGNORED_NAMES
   \<and> fst (importSkills exampleEnv distRequest distFs) = Inr distImportResult
   \<and> snd (importSkills exampleEnv distRequest distFs) ''/w/skills/pdf-tools'' = None
   \<and> fst (importSkills exampleEnv distRequest (snd (importSkills exampleEnv distRequest distFs))) =
       Inr distImportResult
   \<and> ok distImportResult \<and> length (imported distImportResult) = 1
   \<and> skipped distImportResult = []
   \<and> fst (importSkills exampleEnv (distRequest\<lparr>overwrite := Some True\<rparr>)
            (snd (importSkills exampleEnv distRequest distFs))) = Inr distImportResult
   \<and> snd (importSkills exampleEnv (distRequest\<lparr>overwrite := Some True\<rparr>)
            (snd (importSkills exampleEnv distRequest distFs))) ''/w/skills/pdf-tools'' = None"
  by code_simp

subsection \<open>The three calls away from that case\<close>

lemma pathJoin_neq_self: "pathJoin a b \<noteq> a"
  by (simp add: pathJoin_def)

lemma not_isBelow_shorter: "length q \<le> length p \<Longrightarrow> \<not> isBelow p q"
  by (simp add: isBelow_def)

lemma not_isBelow_pathJoin: "\<not> isBelow (pathJoin a b) a"
  by (rule not_isBelow_shorter) (simp add: pathJoin_def)

lemma rmTree_other: "q \<noteq> p \<Longrightarrow> \<not> isBelow p q \<Longrightarrow> rmTree p fs q = fs q"
  by (simp add: rmTree_def)

lemma rmTree_idem: "rmTree p (rmTree p fs) = rmTree p fs"
  by (auto simp: rmTree_def)

lemma rmTree_below: "isBelow p q \<Longrightarrow> ((rmTree p fs)(p \<mapsto> n)) q = None"
  by (auto simp: rmTree_def isBelow_def)

lemma resolveSource_local:
  assumes "trim (source params) \<noteq> []"
    and "\<not> isHttpUrl (trim (source params))"
    and "\<not> endsWith ''/SKILL.md'' (trim (source params))"
    and "\<not> truthy (subdir params)"
    and "rd = resolveUserPath e (trim (source params))"
    and "fs rd = Some tr"
  shows "resolveSource e params fs =
           (Inr \<lparr>rootDir = rd, cleanupDir = None, resolvedWarnings = []\<rparr>, fs)"
proof -
  have g: "parseGitHubTreeUrl e (trim (source params)) = None"
    using assms(2) by (simp add: parseGitHubTreeUrl_def)
  have ex: "pathExists fs (resolveUserPath e (trim (source params)))"
    using assms(5,6) by (simp add: pathExists_def)
  show ?thesis
    using assms(1,3,4,5) g ex
    by (simp add: resolveSource_def Let_def truthy_def)
qed

lemma importOne_single:
  assumes "fs rd = Some tr"
    and "readFile tr [''SKILL.md''] = Some content"
    and "dest = pathJoin tgt (sanitizeSkillDirName
                  (case declaredName e content of Some n \<Rightarrow> n | None \<Rightarrow> basename rd))"
    and "basename rd \<notin> set IMPORT_IGNORED_NAMES"
    and "cpNode IMPORT_IGNORED_NAMES tr None = (True, Some made)"
    and "rmOk e dest"
    and "rd \<noteq> dest" and "\<not> isBelow dest rd"
  shows "importOne e params tgt rd [] ([], [], [], fs) =
           (if pathExists fs dest \<and> overwrite params \<noteq> Some True
            then Inr ([], [\<lparr>skippedSourceDir = rd, reason = Conflict,
                            skippedMessage = ''destination exists: '' @ dest\<rparr>],
                      [sanitizeSkillDirName
                         (case declaredName e content of Some n \<Rightarrow> n | None \<Rightarrow> basename rd)], fs)
            else Inr ([\<lparr>name = declaredName e content, sourceDir = rd, destDir = dest,
                         skillPath = pathJoin dest ''SKILL.md''\<rparr>], [],
                      [sanitizeSkillDirName
                         (case declaredName e content of Some n \<Rightarrow> n | None \<Rightarrow> basename rd)],
                      (if pathExists fs dest then rmTree dest fs else fs)(dest \<mapsto> made)))"
proof -
  define base where "base = sanitizeSkillDirName
                         (case declaredName e content of Some n \<Rightarrow> n | None \<Rightarrow> basename rd)"
  have d: "dest = pathJoin tgt base" using assms(3) by (simp add: base_def)
  have ps: "pathString rd [] = rd" by (simp add: pathString_def)
  have rf: "(case fs rd of None \<Rightarrow> None | Some tr \<Rightarrow> readFile tr ([] @ [''SKILL.md''])) = Some content"
    using assms(1,2) by simp
  have dn: "destDirName [] base = base" by (simp add: destDirName_def)
  have sa: "setAdd [] base = [base]" by (simp add: setAdd_def)
  have cp1: "cp fs' rd [] dest = (True, fs'(dest \<mapsto> made))"
    if "fs' rd = Some tr" and "fs' dest = None" for fs'
    using that assms(4,5) by (simp add: cp_def ps)
  have rmd: "rmTree dest fs dest = None"
    by (simp add: rmTree_def)
  have rmrd: "rmTree dest fs rd = Some tr"
    using assms(1,7,8) by (simp add: rmTree_other)
  show ?thesis
  proof (cases "pathExists fs dest \<and> overwrite params \<noteq> Some True")
    case True
    then show ?thesis
      unfolding importOne_def
      by (simp add: Let_def ps rf assms(2) dn sa base_def [symmetric] d [symmetric] del: readFile.simps)
  next
    case False
    note nc = False
    show ?thesis
    proof (cases "pathExists fs dest")
      case True
      then have ov: "overwrite params = Some True" using nc by simp
      show ?thesis
        unfolding importOne_def
        using True ov assms(6) cp1 [of "rmTree dest fs"] rmrd rmd
        by (simp add: Let_def ps rf assms(2) dn sa base_def [symmetric] d [symmetric]
                 del: readFile.simps)
    next
      case False
      then have "fs dest = None" by (simp add: pathExists_def)
      then show ?thesis
        unfolding importOne_def
        using False cp1 [of fs] assms(1)
        by (simp add: Let_def ps rf assms(2) dn sa base_def [symmetric] d [symmetric] del: readFile.simps)
    qed
  qed
qed

lemma importSkills_single:
  assumes tgt: "resolveTargetDir e params = Some tgt"
    and raw: "trim (source params) \<noteq> []" "\<not> isHttpUrl (trim (source params))"
             "\<not> endsWith ''/SKILL.md'' (trim (source params))" "\<not> truthy (subdir params)"
    and rd: "rd = resolveUserPath e (trim (source params))" "rd \<noteq> []"
    and src: "fs rd = Some tr" "collectSkillDirs fs rd = [[]]"
             "readFile tr [''SKILL.md''] = Some content"
    and dest: "dest = pathJoin tgt (sanitizeSkillDirName
                  (case declaredName e content of Some n \<Rightarrow> n | None \<Rightarrow> basename rd))"
    and cpok: "basename rd \<notin> set IMPORT_IGNORED_NAMES"
              "cpNode IMPORT_IGNORED_NAMES tr None = (True, Some made)"
    and prim: "ensureDirOk e tgt" "rmOk e dest"
    and indep: "rd \<noteq> dest" "\<not> isBelow dest rd"
  shows "importSkills e params fs =
      (if pathExists fs dest \<and> overwrite params \<noteq> Some True
       then (Inr \<lparr>ok = False, message = ''No skills imported (see skipped entries)'',
                  targetDir = tgt, imported = [],
                  skipped = [\<lparr>skippedSourceDir = rd, reason = Conflict,
                              skippedMessage = ''destination exists: '' @ dest\<rparr>],
                  warnings = []\<rparr>,
             if pathExists fs tgt then fs else fs(tgt \<mapsto> Dir []))
       else (Inr \<lparr>ok = True, message = ''Imported '' @ showNat 1 @ '' skill(s) into '' @ tgt,
                  targetDir = tgt,
                  imported = [\<lparr>name = declaredName e content, sourceDir = rd, destDir = dest,
                               skillPath = pathJoin dest ''SKILL.md''\<rparr>],
                  skipped = [], warnings = []\<rparr>,
             (if pathExists fs dest
              then rmTree dest (if pathExists fs tgt then fs else fs(tgt \<mapsto> Dir []))
              else (if pathExists fs tgt then fs else fs(tgt \<mapsto> Dir [])))(dest \<mapsto> made)))"
proof -
  define fsT where "fsT = (if pathExists fs tgt then fs else fs(tgt \<mapsto> Dir []))"
  define res where "res = \<lparr>rootDir = rd, cleanupDir = None, resolvedWarnings = []\<rparr>"
  have rs: "resolveSource e params fs = (Inr res, fs)"
    unfolding res_def
    using resolveSource_local [where params = params and e = e and fs = fs and rd = rd and tr = tr]
      raw rd(1) src(1) by simp
  have fT: "fsT rd = Some tr"
    using src(1) by (auto simp: fsT_def pathExists_def)
  have fsT_eq: "fsT p = fs p" if "p \<noteq> tgt" for p
    using that by (simp add: fsT_def)
  have dt: "dest \<noteq> tgt"
    unfolding dest by (rule pathJoin_neq_self)
  have ex: "pathExists fsT dest = pathExists fs dest"
    using fsT_eq [OF dt] by (simp add: pathExists_def)
  have cs: "collectSkillDirs fsT rd = [[]]"
    using src(2) fT src(1) by (simp add: collectSkillDirs_def collectSkillDirsIn_def)
  have one: "importOne e params tgt rd [] ([], [], [], fsT) =
           (if pathExists fsT dest \<and> overwrite params \<noteq> Some True
            then Inr ([], [\<lparr>skippedSourceDir = rd, reason = Conflict,
                            skippedMessage = ''destination exists: '' @ dest\<rparr>],
                      [sanitizeSkillDirName
                         (case declaredName e content of Some n \<Rightarrow> n | None \<Rightarrow> basename rd)], fsT)
            else Inr ([\<lparr>name = declaredName e content, sourceDir = rd, destDir = dest,
                         skillPath = pathJoin dest ''SKILL.md''\<rparr>], [],
                      [sanitizeSkillDirName
                         (case declaredName e content of Some n \<Rightarrow> n | None \<Rightarrow> basename rd)],
                      (if pathExists fsT dest then rmTree dest fsT else fsT)(dest \<mapsto> made)))"
    using importOne_single [where fs = fsT and rd = rd and tr = tr and content = content
        and dest = dest and tgt = tgt and e = e and made = made and params = params]
      fT src(3) dest cpok prim(2) indep(1,2) by simp
  have pe: "pathExists fs rd" using src(1) by (simp add: pathExists_def)
  have tb: "tryBlock e params tgt res fs =
      (case importLoop e params tgt rd (collectSkillDirs fsT rd) ([], [], [], fsT) of
         Inl fault \<Rightarrow> (Inl fault, fsT)
       | Inr st \<Rightarrow> (Inr (finish tgt [] st), snd (snd (snd st))))"
    using pe prim(1) cs
    by (simp add: tryBlock_def Let_def res_def fsT_def [symmetric])
  have imp: "importSkills e params fs = tryBlock e params tgt res fs"
    using tgt rs rd(2) by (simp add: importSkills_def cleanup_def res_def)
  show ?thesis
    unfolding imp tb cs fsT_def [symmetric]
    by (simp add: one ex finish_def Let_def)
qed

lemma resolveTargetDir_overwrite:
  "resolveTargetDir e (params\<lparr>overwrite := v\<rparr>) = resolveTargetDir e params"
  by (simp add: resolveTargetDir_def)

text \<open>
  Away from an ignored base name the three calls do what the claim says. A local skill
  directory \<open>rd\<close> (an existing directory whose only skill is the one at its root, given
  by its path, without \<open>subdir\<close>) whose base name is not on the ignore list is imported
  three times into the same target. The destination \<open>dest\<close> is the target directory
  joined with the sanitised declared name of the skill, or with the sanitised name of the
  source directory when the manifest declares none; it does not exist before the first
  call, the source and the destination are different directories and neither lies inside
  the other, the copy of the source to a free place succeeds and yields \<open>made\<close>, and the
  host can create the target directory and remove the destination. Then the first call,
  without \<open>overwrite\<close>, returns \<open>ok\<close> with exactly one imported entry, nothing skipped,
  and leaves \<open>made\<close> at the destination; the second call, on the file system the first
  one left, returns \<open>ok = false\<close> with nothing imported and exactly one skipped entry,
  whose reason is \<open>conflict\<close>, and changes nothing; the third call, with
  \<open>overwrite = true\<close>, whatever \<open>old\<close> stands at the destination by then, returns
  \<open>ok\<close> with exactly one imported entry and leaves \<open>made\<close> at the destination and
  nothing below it: the destination is removed before the copy, which itself removes
  nothing.
\<close>

lemma importSkills_import_thrice:
  assumes tgt: "resolveTargetDir e params = Some tgt"
    and raw: "trim (source params) \<noteq> []" "\<not> isHttpUrl (trim (source params))"
             "\<not> endsWith ''/SKILL.md'' (trim (source params))" "\<not> truthy (subdir params)"
    and rd: "rd = resolveUserPath e (trim (source params))" "rd \<noteq> []"
    and src: "fs0 rd = Some tr" "collectSkillDirs fs0 rd = [[]]"
             "readFile tr [''SKILL.md''] = Some content"
    and dest: "dest = pathJoin tgt (sanitizeSkillDirName
                  (case declaredName e content of Some n \<Rightarrow> n | None \<Rightarrow> basename rd))"
    and cpok: "basename rd \<notin> set IMPORT_IGNORED_NAMES"
              "cpNode IMPORT_IGNORED_NAMES tr None = (True, Some made)"
    and prim: "ensureDirOk e tgt" "rmOk e dest"
    and indep: "rd \<noteq> dest" "\<not> isBelow dest rd" "\<not> isBelow rd dest"
    and fresh: "\<not> pathExists fs0 dest"
    and noov: "overwrite params \<noteq> Some True"
  shows "\<exists>r1 fs1 r2 r3 fs3.
           importSkills e params fs0 = (Inr r1, fs1) \<and>
           ok r1 \<and> map destDir (imported r1) = [dest] \<and> skipped r1 = [] \<and>
           fs1 dest = Some made \<and>
           importSkills e params fs1 = (Inr r2, fs1) \<and>
           \<not> ok r2 \<and> imported r2 = [] \<and> map reason (skipped r2) = [Conflict] \<and>
           importSkills e (params\<lparr>overwrite := Some True\<rparr>) (fs1(dest \<mapsto> old)) = (Inr r3, fs3) \<and>
           ok r3 \<and> map destDir (imported r3) = [dest] \<and> skipped r3 = [] \<and>
           fs3 dest = Some made \<and> (\<forall>q. isBelow dest q \<longrightarrow> fs3 q = None)"
proof -
  define fsT where "fsT = (if pathExists fs0 tgt then fs0 else fs0(tgt \<mapsto> Dir []))"
  define fs1 where "fs1 = fsT(dest \<mapsto> made)"
  define fs2 where "fs2 = fs1(dest \<mapsto> old)"
  define fs3 where "fs3 = (rmTree dest fs2)(dest \<mapsto> made)"
  define ent where "ent = \<lparr>name = declaredName e content, sourceDir = rd, destDir = dest,
                             skillPath = pathJoin dest ''SKILL.md''\<rparr>"
  define r1 where "r1 = \<lparr>ok = True, message = ''Imported '' @ showNat 1 @ '' skill(s) into '' @ tgt,
                  targetDir = tgt, imported = [ent], skipped = [], warnings = []\<rparr>"
  define r2 where "r2 = \<lparr>ok = False, message = ''No skills imported (see skipped entries)'',
                  targetDir = tgt, imported = [],
                  skipped = [\<lparr>skippedSourceDir = rd, reason = Conflict,
                              skippedMessage = ''destination exists: '' @ dest\<rparr>],
                  warnings = []\<rparr>"
  let ?params' = "params\<lparr>overwrite := Some True\<rparr>"
  have dt: "dest \<noteq> tgt"
    unfolding dest by (rule pathJoin_neq_self)
  have nb: "\<not> isBelow dest tgt"
    unfolding dest by (rule not_isBelow_pathJoin)
  have tgtT: "fsT tgt \<noteq> None"
    by (simp add: fsT_def pathExists_def)
  have rdT: "fsT rd = Some tr"
    using src(1) by (auto simp: fsT_def pathExists_def)
  have fresh': "\<not> pathExists fsT dest"
    using fresh dt by (simp add: fsT_def pathExists_def)
  have rd1: "fs1 rd = Some tr"
    using rdT indep(1) by (simp add: fs1_def)
  have tgt1: "pathExists fs1 tgt"
    using tgtT dt by (simp add: fs1_def pathExists_def)
  have dest1: "pathExists fs1 dest"
    by (simp add: fs1_def pathExists_def)
  have cs1: "collectSkillDirs fs1 rd = [[]]"
    using collectSkillDirs_cong [of fs1 rd fs0] rd1 src(1,2) by simp
  have rd2: "fs2 rd = Some tr"
    using rd1 indep(1) by (simp add: fs2_def)
  have tgt2: "pathExists fs2 tgt"
    using tgt1 dt by (simp add: fs2_def pathExists_def)
  have dest2: "pathExists fs2 dest"
    by (simp add: fs2_def pathExists_def)
  have cs2: "collectSkillDirs fs2 rd = [[]]"
    using collectSkillDirs_cong [of fs2 rd fs0] rd2 src(1,2) by simp
  have c1: "importSkills e params fs0 = (Inr r1, fs1)"
    using importSkills_single [where e = e and params = params and tgt = tgt and rd = rd
        and fs = fs0 and tr = tr and content = content and dest = dest and made = made]
      tgt raw rd src dest cpok prim indep(1,2) fresh
    by (simp add: r1_def ent_def fs1_def fsT_def)
  have c2: "importSkills e params fs1 = (Inr r2, fs1)"
    using importSkills_single [where e = e and params = params and tgt = tgt and rd = rd
        and fs = fs1 and tr = tr and content = content and dest = dest and made = made]
      tgt raw rd rd1 cs1 src(3) dest cpok prim indep(1,2) dest1 noov tgt1
    by (simp add: r2_def)
  have c3: "importSkills e ?params' fs2 = (Inr r1, fs3)"
    using importSkills_single [where e = e and params = ?params' and tgt = tgt and rd = rd
        and fs = fs2 and tr = tr and content = content and dest = dest and made = made]
      tgt raw rd rd2 cs2 src(3) dest cpok prim indep(1,2) dest2 tgt2
    by (simp add: r1_def ent_def fs3_def resolveTargetDir_overwrite)
  have below: "\<forall>q. isBelow dest q \<longrightarrow> fs3 q = None"
    unfolding fs3_def by (intro allI impI) (rule rmTree_below)
  have p1: "ok r1 \<and> map destDir (imported r1) = [dest] \<and> skipped r1 = []"
    by (simp add: r1_def ent_def)
  have p2: "\<not> ok r2 \<and> imported r2 = [] \<and> map reason (skipped r2) = [Conflict]"
    by (simp add: r2_def)
  have d1: "fs1 dest = Some made" by (simp add: fs1_def)
  have d3: "fs3 dest = Some made" by (simp add: fs3_def)
  show ?thesis
    apply (rule exI [of _ r1])
    apply (rule exI [of _ fs1])
    apply (rule exI [of _ r2])
    apply (rule exI [of _ r1])
    apply (rule exI [of _ fs3])
    using c1 c2 c3 p1 p2 d1 d3 below unfolding fs2_def
    by simp
qed

text \<open>
  The directory \<open>/src/pdf-tools\<close> imported three times into \<open>/w/skills\<close>; before the
  third call the destination holds a stale copy with a file \<open>old.txt\<close>, which is gone
  afterwards.
\<close>

lemma importSkills_import_thrice_example:
  "resolveTargetDir exampleEnv exampleRequest = Some ''/w/skills''
   \<and> localFs ''/src/pdf-tools'' = Some pdfTree
   \<and> collectSkillDirs localFs ''/src/pdf-tools'' = [[]]
   \<and> readFile pdfTree [''SKILL.md''] = Some ''name: pdf-tools''
   \<and> cpNode IMPORT_IGNORED_NAMES pdfTree None = (True, Some pdfCopy)
   \<and> \<not> pathExists localFs ''/w/skills/pdf-tools''
   \<and> overwrite exampleRequest = None
   \<and> isBelow ''/w/skills/pdf-tools'' ''/w/skills/pdf-tools/old.txt''
   \<and> (\<exists>r1 fs1 r2 r3 fs3.
         importSkills exampleEnv exampleRequest localFs = (Inr r1, fs1) \<and>
         ok r1 \<and> map destDir (imported r1) = [''/w/skills/pdf-tools''] \<and> skipped r1 = [] \<and>
         fs1 ''/w/skills/pdf-tools'' = Some pdfCopy \<and>
         importSkills exampleEnv exampleRequest fs1 = (Inr r2, fs1) \<and>
         \<not> ok r2 \<and> imported r2 = [] \<and> map reason (skipped r2) = [Conflict] \<and>
         importSkills exampleEnv (exampleRequest\<lparr>overwrite := Some True\<rparr>)
           (fs1(''/w/skills/pdf-tools'' \<mapsto> staleCopy)) = (Inr r3, fs3) \<and>
         ok r3 \<and> map destDir (imported r3) = [''/w/skills/pdf-tools''] \<and> skipped r3 = [] \<and>
         fs3 ''/w/skills/pdf-tools'' = Some pdfCopy \<and>
         fs3 ''/w/skills/pdf-tools/old.txt'' = None)"
proof -
  have h1: "resolveTargetDir exampleEnv exampleRequest = Some ''/w/skills''" by code_simp
  have h2: "trim (source exampleRequest) \<noteq> []" by code_simp
  have h3: "\<not> isHttpUrl (trim (source exampleRequest))" by code_simp
  have h4: "\<not> endsWith ''/SKILL.md'' (trim (source exampleRequest))" by code_simp
  have h5: "\<not> truthy (subdir exampleRequest)" by code_simp
  have h6: "''/src/pdf-tools'' = resolveUserPath exampleEnv (trim (source exampleRequest))"
    by code_simp
  have h7: "''/src/pdf-tools'' \<noteq> []" by simp
  have h8: "localFs ''/src/pdf-tools'' = Some pdfTree" by (simp add: localFs_def)
  have h9: "collectSkillDirs localFs ''/src/pdf-tools'' = [[]]" by code_simp
  have h10: "readFile pdfTree [''SKILL.md''] = Some ''name: pdf-tools''" by code_simp
  have h11: "''/w/skills/pdf-tools'' = pathJoin ''/w/skills'' (sanitizeSkillDirName
               (case declaredName exampleEnv ''name: pdf-tools'' of
                  Some n \<Rightarrow> n | None \<Rightarrow> basename ''/src/pdf-tools''))"
    by code_simp
  have h12: "basename ''/src/pdf-tools'' \<notin> set IMPORT_IGNORED_NAMES" by code_simp
  have h13: "cpNode IMPORT_IGNORED_NAMES pdfTree None = (True, Some pdfCopy)" by code_simp
  have h14: "ensureDirOk exampleEnv ''/w/skills''" by (simp add: exampleEnv_def)
  have h15: "rmOk exampleEnv ''/w/skills/pdf-tools''" by (simp add: exampleEnv_def)
  have h16: "''/src/pdf-tools'' \<noteq> ''/w/skills/pdf-tools''" by simp
  have h17: "\<not> isBelow ''/w/skills/pdf-tools'' ''/src/pdf-tools''" by code_simp
  have h18: "\<not> isBelow ''/src/pdf-tools'' ''/w/skills/pdf-tools''" by code_simp
  have h19: "\<not> pathExists localFs ''/w/skills/pdf-tools''" by code_simp
  have h20: "overwrite exampleRequest \<noteq> Some True" by code_simp
  have h21: "overwrite exampleRequest = None" by code_simp
  have iq: "isBelow ''/w/skills/pdf-tools'' ''/w/skills/pdf-tools/old.txt''" by code_simp
  have ex: "\<exists>r1 fs1 r2 r3 fs3.
         importSkills exampleEnv exampleRequest localFs = (Inr r1, fs1) \<and>
         ok r1 \<and> map destDir (imported r1) = [''/w/skills/pdf-tools''] \<and> skipped r1 = [] \<and>
         fs1 ''/w/skills/pdf-tools'' = Some pdfCopy \<and>
         importSkills exampleEnv exampleRequest fs1 = (Inr r2, fs1) \<and>
         \<not> ok r2 \<and> imported r2 = [] \<and> map reason (skipped r2) = [Conflict] \<and>
         importSkills exampleEnv (exampleRequest\<lparr>overwrite := Some True\<rparr>)
           (fs1(''/w/skills/pdf-tools'' \<mapsto> staleCopy)) = (Inr r3, fs3) \<and>
         ok r3 \<and> map destDir (imported r3) = [''/w/skills/pdf-tools''] \<and> skipped r3 = [] \<and>
         fs3 ''/w/skills/pdf-tools'' = Some pdfCopy \<and>
         (\<forall>q. isBelow ''/w/skills/pdf-tools'' q \<longrightarrow> fs3 q = None)"
    using h1 h2 h3 h4 h5 h6 h7 h8 h9 h10 h11 h12 h13 h14 h15 h16 h17 h18 h19 h20
    by (rule importSkills_import_thrice)
  have weaken: "\<exists>r1 fs1 r2 r3 fs3.
         importSkills exampleEnv exampleRequest localFs = (Inr r1, fs1) \<and>
         ok r1 \<and> map destDir (imported r1) = [''/w/skills/pdf-tools''] \<and> skipped r1 = [] \<and>
         fs1 ''/w/skills/pdf-tools'' = Some pdfCopy \<and>
         importSkills exampleEnv exampleRequest fs1 = (Inr r2, fs1) \<and>
         \<not> ok r2 \<and> imported r2 = [] \<and> map reason (skipped r2) = [Conflict] \<and>
         importSkills exampleEnv (exampleRequest\<lparr>overwrite := Some True\<rparr>)
           (fs1(''/w/skills/pdf-tools'' \<mapsto> staleCopy)) = (Inr r3, fs3) \<and>
         ok r3 \<and> map destDir (imported r3) = [''/w/skills/pdf-tools''] \<and> skipped r3 = [] \<and>
         fs3 ''/w/skills/pdf-tools'' = Some pdfCopy \<and>
         fs3 ''/w/skills/pdf-tools/old.txt'' = None"
  proof -
    from ex obtain r1 fs1 r2 r3 fs3 where c:
        "importSkills exampleEnv exampleRequest localFs = (Inr r1, fs1) \<and>
         ok r1 \<and> map destDir (imported r1) = [''/w/skills/pdf-tools''] \<and> skipped r1 = [] \<and>
         fs1 ''/w/skills/pdf-tools'' = Some pdfCopy \<and>
         importSkills exampleEnv exampleRequest fs1 = (Inr r2, fs1) \<and>
         \<not> ok r2 \<and> imported r2 = [] \<and> map reason (skipped r2) = [Conflict] \<and>
         importSkills exampleEnv (exampleRequest\<lparr>overwrite := Some True\<rparr>)
           (fs1(''/w/skills/pdf-tools'' \<mapsto> staleCopy)) = (Inr r3, fs3) \<and>
         ok r3 \<and> map destDir (imported r3) = [''/w/skills/pdf-tools''] \<and> skipped r3 = [] \<and>
         fs3 ''/w/skills/pdf-tools'' = Some pdfCopy \<and>
         (\<forall>q. isBelow ''/w/skills/pdf-tools'' q \<longrightarrow> fs3 q = None)"
      by (elim exE) (rule that)
    have "fs3 ''/w/skills/pdf-tools/old.txt'' = None"
      using c iq by simp
    with c show ?thesis
      apply -
      apply (rule exI [of _ r1])
      apply (rule exI [of _ fs1])
      apply (rule exI [of _ r2])
      apply (rule exI [of _ r3])
      apply (rule exI [of _ fs3])
      by simp
  qed
  show ?thesis
    using h1 h8 h9 h10 h13 h19 h21 iq weaken by (intro conjI)
qed

text \<open>
  The copy alone would not replace the old content: copied over the stale destination,
  the tree keeps the file \<open>old.txt\<close>.
\<close>

lemma cpNode_merges:
  "cpNode IMPORT_IGNORED_NAMES pdfTree (Some staleCopy) =
     (True, Some (Dir [(''SKILL.md'', File ''name: pdf-tools''), (''old.txt'', File ''stale''),
                       (''merge.sh'', File ''qpdf --empty --pages a.pdf b.pdf -- out.pdf'')]))"
  by code_simp

end
